theory Spec2Isabelle
  imports Complex_Main "HOL-Library.Multiset"
begin

section \<open>Python values\<close>

text \<open>
  A Python \<open>str\<close> is a sequence of Unicode code points, so \<open>len\<close>, slicing and
  \<open>in\<close> count code points, not bytes. The Turkish letters of the repository lie
  beyond one byte (U+0130, U+011F, U+015F), so a string is a list of code points.
  \<open>asc\<close> injects an ASCII literal.

  The value of a Python float is carried as a real, and the arithmetic on floats is
  rounded as binary64 rounds it (section Python floats). Only the Wilson interval is
  computed over the reals.
\<close>

type_synonym pystr = "nat list"

definition asc :: "string \<Rightarrow> pystr" where
  "asc s = map of_char s"

text \<open>
  \<open>str.lower()\<close> and \<open>str.upper()\<close> are Python's Unicode case mappings. They are
  parameters (\<open>lower\<close>, \<open>upper\<close>) of every function that calls them, so general
  theorems hold for any case mapping. The two functions below are the mapping on ASCII
  text and instantiate the parameter where a concrete ASCII input is evaluated.
\<close>

definition ascii_lower :: "pystr \<Rightarrow> pystr" where
  "ascii_lower s = map (\<lambda>c. if 65 \<le> c \<and> c \<le> 90 then c + 32 else c) s"

definition ascii_upper :: "pystr \<Rightarrow> pystr" where
  "ascii_upper s = map (\<lambda>c. if 97 \<le> c \<and> c \<le> 122 then c - 32 else c) s"

text \<open>\<open>s.replace(" ", "_")\<close> and the other one-character replacements.\<close>

definition replace_char :: "nat \<Rightarrow> pystr \<Rightarrow> pystr \<Rightarrow> pystr" where
  "replace_char old new s = concat (map (\<lambda>c. if c = old then new else [c]) s)"

text \<open>Truthiness of an optional dict: \<open>None\<close> and \<open>{}\<close> are both falsy.\<close>

definition truthy :: "'a list option \<Rightarrow> bool" where
  "truthy d = (case d of None \<Rightarrow> False | Some xs \<Rightarrow> xs \<noteq> [])"

section \<open>Python floats\<close>

text \<open>
  A Python float is an IEEE 754 binary64 number, and the model carries its value as a
  real. An arithmetic operation on floats, \<open>np.sqrt\<close> and the reading of a decimal
  literal return the exact result rounded to the nearest number with a significand of
  53 bits, a tie going to the even significand. \<open>round_double\<close> is that rounding: for
  \<open>x\<close> with \<open>2\<^sup>e \<le> \<bar>x\<bar> < 2\<^sup>e\<^sup>+\<^sup>1\<close> the representable numbers around \<open>x\<close> are the
  multiples of \<open>2\<^sup>e\<^sup>-\<^sup>5\<^sup>2\<close>. It is the binary64 result for the magnitudes that occur
  in the computations below, which are 0 or lie between \<open>2\<^sup>-\<^sup>1\<^sup>0\<^sup>2\<^sup>2\<close> and \<open>2\<^sup>1\<^sup>0\<^sup>2\<^sup>4\<close>,
  where binary64 has neither subnormal numbers nor overflow. Comparisons of floats are
  exact.
\<close>

definition round_half_even :: "real \<Rightarrow> int" where
  "round_half_even x =
    (let f = \<lfloor>x\<rfloor>; r = x - real_of_int f
     in if r < 1 / 2 then f
        else if 1 / 2 < r then f + 1
        else if even f then f else f + 1)"

definition pow2 :: "int \<Rightarrow> real" where
  "pow2 k = (if 0 \<le> k then 2 ^ nat k else 1 / 2 ^ nat (- k))"

definition binade :: "real \<Rightarrow> int" where
  "binade x = \<lfloor>log 2 \<bar>x\<bar>\<rfloor>"

definition round_double :: "real \<Rightarrow> real" where
  "round_double x =
    (if x = 0 then 0
     else (let u = pow2 (binade x - 52)
           in u * real_of_int (round_half_even (x / u))))"

definition float_lit :: "real \<Rightarrow> real" where
  "float_lit x = round_double x"

definition float_sub :: "real \<Rightarrow> real \<Rightarrow> real" where
  "float_sub x y = round_double (x - y)"

definition float_mul :: "real \<Rightarrow> real \<Rightarrow> real" where
  "float_mul x y = round_double (x * y)"

text \<open>
  True division, of two floats or of two ints. Every division below is guarded against
  a zero divisor by the code.
\<close>

definition float_div :: "real \<Rightarrow> real \<Rightarrow> real" where
  "float_div x y = round_double (x / y)"

definition float_sqrt :: "real \<Rightarrow> real" where
  "float_sqrt x = round_double (sqrt x)"

text \<open>
  \<open>round(x, n)\<close> of a float: the exact value of \<open>x\<close> is rounded to \<open>n\<close> decimals, a tie
  going to the even digit, and the decimal is read back as a float.
\<close>

definition py_round :: "nat \<Rightarrow> real \<Rightarrow> real" where
  "py_round n x = round_double (real_of_int (round_half_even (x * 10 ^ n)) / 10 ^ n)"

section \<open>golden\_rules.py: the rule catalog\<close>

text \<open>
  The dataclass \<open>GoldenRule\<close>. A dict is an association list in insertion order (the
  order \<open>items()\<close> iterates in); \<open>Optional[Dict]\<close> is an option.
\<close>

record GoldenRule =
  rule_id :: int
  rule_name :: pystr
  primary_odds :: "(pystr \<times> real) list"
  secondary_odds :: "(pystr \<times> real) list option"
  exclude_odds :: "(pystr \<times> real) list option"
  predictions :: "pystr list"
  confidence_base :: int
  importance :: pystr

section \<open>engine.py: SupabaseOpportunityEngine\<close>

text \<open>
  The fields of \<open>self\<close> that matching and scoring read. A match row is a dict with the
  columns below; \<open>opening_odds\<close> is \<open>None\<close> when the key is missing or null, an odds
  entry whose value is null is read like a missing entry and so left out of the list, and
  dates are day numbers in the order the database compares the column.
\<close>

record engine =
  min_confidence :: int
  tolerance :: real
  golden_rules :: "GoldenRule list"

record fixture =
  match_id :: int
  home_team :: pystr
  away_team :: pystr
  league :: pystr
  match_date :: nat
  match_time :: "pystr option"
  opening_odds :: "(pystr \<times> real) list option"

text \<open>The label-to-key table of \<open>_convert_odds_key\<close>, entry by entry.\<close>

definition odds_key_mapping :: "(pystr \<times> pystr) list" where
  "odds_key_mapping =
    [(asc ''4-5'', asc ''oran_45''),
     (asc ''2,5 '' @ [220], asc ''oran_25_ust''),
     (asc ''3,5 '' @ [220], asc ''oran_35_ust''),
     (asc ''3,5 A'', asc ''oran_35_alt''),
     (asc ''VAR'', asc ''oran_var''),
     (asc ''1'', asc ''oran_1''),
     (asc ''0'', asc ''oran_0''),
     (asc ''2'', asc ''oran_2''),
     (304 # asc ''Y 0.5'', asc ''iy_05''),
     (304 # asc ''Y 1.5'', asc ''iy_15''),
     (asc ''MS 0.5'', asc ''ms_05''),
     (asc ''MS 1.5'', asc ''ms_15''),
     (asc ''MS 2.5'', asc ''ms_25''),
     (asc ''MS 3.5'', asc ''ms_35'')]"

definition convert_odds_key :: "(pystr \<Rightarrow> pystr) \<Rightarrow> pystr \<Rightarrow> pystr" where
  "convert_odds_key lower rule_key =
    (case map_of odds_key_mapping rule_key of
       Some db_key \<Rightarrow> db_key
     | None \<Rightarrow> replace_char 32 [95] (lower rule_key))"

text \<open>
  The loop of \<open>check_odds_match\<close> over \<open>rule_odds.items()\<close>: \<open>continue\<close> is the
  recursive call, \<open>return False\<close> ends it, falling off the end returns \<open>True\<close>.
  The difference \<open>float(actual_val) - float(required_val)\<close> is a float subtraction.
\<close>

fun odds_loop ::
  "(pystr \<Rightarrow> pystr) \<Rightarrow> real \<Rightarrow> (pystr \<times> real) list \<Rightarrow> bool \<Rightarrow> (pystr \<times> real) list \<Rightarrow> bool"
where
  "odds_loop lower tol match_odds is_exclude [] = True"
| "odds_loop lower tol match_odds is_exclude ((odds_key, required_val) # rest) =
    (case map_of match_odds (convert_odds_key lower odds_key) of
       None \<Rightarrow>
         (if is_exclude then odds_loop lower tol match_odds is_exclude rest else False)
     | Some actual_val \<Rightarrow>
         (let diff = \<bar>float_sub actual_val required_val\<bar>;
              is_match = (diff \<le> tol)
          in if is_exclude
             then (if is_match then False
                   else odds_loop lower tol match_odds is_exclude rest)
             else (if \<not> is_match then False
                   else odds_loop lower tol match_odds is_exclude rest)))"

definition check_odds_match ::
  "(pystr \<Rightarrow> pystr) \<Rightarrow> real \<Rightarrow> (pystr \<times> real) list option \<Rightarrow> (pystr \<times> real) list \<Rightarrow> bool \<Rightarrow> bool"
where
  "check_odds_match lower tol match_odds rule_odds is_exclude =
    (case match_odds of
       None \<Rightarrow> False
     | Some odds \<Rightarrow>
         (if odds = [] then False
          else odds_loop lower tol odds is_exclude rule_odds))"

definition dict_of :: "'a list option \<Rightarrow> 'a list" where
  "dict_of d = (case d of None \<Rightarrow> [] | Some xs \<Rightarrow> xs)"

definition match_rule_to_match ::
  "(pystr \<Rightarrow> pystr) \<Rightarrow> engine \<Rightarrow> fixture \<Rightarrow> GoldenRule \<Rightarrow> bool"
where
  "match_rule_to_match lower e m rule =
    (let odds = opening_odds m in
     if \<not> check_odds_match lower (tolerance e) odds (primary_odds rule) False then False
     else if truthy (secondary_odds rule) \<and>
             \<not> check_odds_match lower (tolerance e) odds (dict_of (secondary_odds rule)) False
          then False
     else if truthy (exclude_odds rule) \<and>
             \<not> check_odds_match lower (tolerance e) odds (dict_of (exclude_odds rule)) True
          then False
     else True)"

subsection \<open>calculate\_confidence\<close>

text \<open>
  The importance table, keyed by the Turkish tier names: very important
  (\<open>cok_onemli\<close> with c-cedilla U+00E7 and o-diaeresis U+00F6), important
  (\<open>onemli\<close>), special (\<open>ozel\<close>) and \<open>normal\<close>. \<open>dict.get(key, 0)\<close> gives 0 for any
  other string.
\<close>

definition tier_very_important :: pystr where
  "tier_very_important = 231 # asc ''ok_'' @ 246 # asc ''nemli''"

definition tier_important :: pystr where
  "tier_important = 246 # asc ''nemli''"

definition tier_special :: pystr where
  "tier_special = 246 # asc ''zel''"

definition tier_normal :: pystr where
  "tier_normal = asc ''normal''"

definition importance_bonus :: "(pystr \<times> int) list" where
  "importance_bonus =
    [(tier_very_important, 3), (tier_important, 2), (tier_special, 1), (tier_normal, 0)]"

definition calculate_confidence :: "GoldenRule \<Rightarrow> pystr \<Rightarrow> int" where
  "calculate_confidence rule pred =
    (let base0 = confidence_base rule;
         base1 = base0 + (case map_of importance_bonus (importance rule) of
                            Some b \<Rightarrow> b
                          | None \<Rightarrow> 0);
         prediction_count = length (predictions rule);
         base2 = (if prediction_count \<le> 2 then base1 + 2
                  else if prediction_count \<le> 4 then base1 + 1
                  else base1);
         base3 = (case predictions rule of
                    [] \<Rightarrow> base2
                  | first # _ \<Rightarrow> if pred = first then base2 + 1 else base2)
     in min 100 base3)"

subsection \<open>process\_matches\<close>

record prediction_entry =
  bet :: pystr
  confidence :: int
  entry_rule_id :: int
  entry_rule_name :: pystr

text \<open>
  The opportunity dict. \<open>note\<close> is the formatted count of all predictions; the model
  keeps the count.
\<close>

record opportunity =
  opp_match_id :: int
  opp_home_team :: pystr
  opp_away_team :: pystr
  opp_league :: pystr
  opp_match_date :: nat
  opp_match_time :: "pystr option"
  prediction :: pystr
  opp_confidence :: int
  alternative_predictions :: "prediction_entry list"
  matched_rules :: "(int \<times> pystr) list"
  note_count :: nat

datatype py_error = IndexError | StorageError

text \<open>The loop over \<open>self.golden_rules\<close> that appends the matching rules.\<close>

fun matched_rules_loop ::
  "(pystr \<Rightarrow> pystr) \<Rightarrow> engine \<Rightarrow> fixture \<Rightarrow> GoldenRule list \<Rightarrow> (GoldenRule \<times> pystr list) list"
where
  "matched_rules_loop lower e m [] = []"
| "matched_rules_loop lower e m (rule # rest) =
    (if match_rule_to_match lower e m rule
     then (rule, predictions rule) # matched_rules_loop lower e m rest
     else matched_rules_loop lower e m rest)"

text \<open>The nested loops that score every prediction of every matched rule.\<close>

fun rule_predictions_loop :: "GoldenRule \<Rightarrow> pystr list \<Rightarrow> prediction_entry list" where
  "rule_predictions_loop rule [] = []"
| "rule_predictions_loop rule (pred # rest) =
    \<lparr>bet = pred, confidence = calculate_confidence rule pred,
     entry_rule_id = rule_id rule, entry_rule_name = rule_name rule\<rparr>
    # rule_predictions_loop rule rest"

fun all_predictions_loop :: "(GoldenRule \<times> pystr list) list \<Rightarrow> prediction_entry list" where
  "all_predictions_loop [] = []"
| "all_predictions_loop ((rule, preds) # rest) =
    rule_predictions_loop rule preds @ all_predictions_loop rest"

text \<open>
  \<open>list.sort(key=..., reverse=True)\<close>: Python's sort is stable, and with
  \<open>reverse=True\<close> elements of equal key still keep their original order. That is the
  stable sort on the negated key.
\<close>

definition sort_reverse :: "('a \<Rightarrow> int) \<Rightarrow> 'a list \<Rightarrow> 'a list" where
  "sort_reverse key xs = sort_key (\<lambda>x. - key x) xs"

text \<open>
  The body of the loop over matches. \<open>all_predictions[0]\<close> raises \<open>IndexError\<close> when
  every matched rule has an empty prediction list.
\<close>

definition process_match ::
  "(pystr \<Rightarrow> pystr) \<Rightarrow> engine \<Rightarrow> fixture \<Rightarrow> py_error + opportunity option"
where
  "process_match lower e m =
    (let matched = matched_rules_loop lower e m (golden_rules e) in
     if matched = [] then Inr None
     else
       (case sort_reverse confidence (all_predictions_loop matched) of
          [] \<Rightarrow> Inl IndexError
        | best # alternatives \<Rightarrow>
            if confidence best \<ge> min_confidence e
            then Inr (Some
              \<lparr>opp_match_id = match_id m,
               opp_home_team = home_team m,
               opp_away_team = away_team m,
               opp_league = league m,
               opp_match_date = match_date m,
               opp_match_time = match_time m,
               prediction = bet best,
               opp_confidence = confidence best,
               alternative_predictions = alternatives,
               matched_rules = map (\<lambda>(r, _). (rule_id r, rule_name r)) matched,
               note_count = length (best # alternatives)\<rparr>)
            else Inr None))"

fun process_matches_loop ::
  "(pystr \<Rightarrow> pystr) \<Rightarrow> engine \<Rightarrow> fixture list \<Rightarrow> opportunity list \<Rightarrow> py_error + opportunity list"
where
  "process_matches_loop lower e [] opportunities = Inr opportunities"
| "process_matches_loop lower e (m # rest) opportunities =
    (case process_match lower e m of
       Inl err \<Rightarrow> Inl err
     | Inr None \<Rightarrow> process_matches_loop lower e rest opportunities
     | Inr (Some opp) \<Rightarrow> process_matches_loop lower e rest (opportunities @ [opp]))"

definition process_matches ::
  "(pystr \<Rightarrow> pystr) \<Rightarrow> engine \<Rightarrow> fixture list \<Rightarrow> py_error + opportunity list"
where
  "process_matches lower e matches = process_matches_loop lower e matches []"

subsection \<open>Storage and the run pipeline\<close>

text \<open>
  The two tables the pipeline writes. Every storage call can raise; which call does is
  an input (\<open>storage_env\<close>), as is the outcome of \<open>load_matches_from_supabase\<close>, whose
  query and clock live outside the engine. A call that raises leaves its table as it was.
\<close>

record stored_prediction =
  sp_opportunity :: opportunity
  sp_run_id :: "nat option"
  sp_status :: pystr
  sp_result :: pystr

record run_record =
  run_status :: pystr
  run_matches_processed :: nat
  run_opportunities_found :: nat
  run_error :: "py_error option"

record database =
  predictions_table :: "stored_prediction list"
  runs_table :: "run_record list"

record storage_env =
  create_run_fails :: bool
  delete_fails :: bool
  load_outcome :: "py_error + fixture list"
  insert_fails_at :: "nat option"
  complete_run_fails :: bool

datatype run_summary =
  RunSuccess "nat option" nat nat
| RunFailure py_error

text \<open>\<open>create\_run\<close>: insert a run row and return its id, or re-raise.\<close>

definition create_run :: "storage_env \<Rightarrow> database \<Rightarrow> py_error + (nat \<times> database)" where
  "create_run env db =
    (if create_run_fails env then Inl StorageError
     else Inr (length (runs_table db),
               db\<lparr>runs_table := runs_table db @
                  [\<lparr>run_status = asc ''running'', run_matches_processed = 0,
                    run_opportunities_found = 0, run_error = None\<rparr>]\<rparr>))"

text \<open>
  \<open>complete\_run\<close>: nothing without a current run id; otherwise update the run row. Its
  own exceptions are caught and printed.
\<close>

definition complete_run ::
  "storage_env \<Rightarrow> nat option \<Rightarrow> nat \<Rightarrow> nat \<Rightarrow> py_error option \<Rightarrow> database \<Rightarrow> database"
where
  "complete_run env current_run_id matches_processed opportunities_found err db =
    (case current_run_id of
       None \<Rightarrow> db
     | Some rid \<Rightarrow>
         if complete_run_fails env \<or> rid \<ge> length (runs_table db) then db
         else db\<lparr>runs_table := (runs_table db)
                [rid := \<lparr>run_status = (if err \<noteq> None then asc ''failed'' else asc ''completed''),
                         run_matches_processed = matches_processed,
                         run_opportunities_found = opportunities_found,
                         run_error = err\<rparr>]\<rparr>)"

text \<open>
  \<open>archive\_old\_predictions\<close>: delete the active predictions of the date range and
  return their number. An exception is caught and 0 returned.
\<close>

definition active_in_range :: "nat \<Rightarrow> nat \<Rightarrow> stored_prediction \<Rightarrow> bool" where
  "active_in_range date_from date_to p =
    (sp_status p = asc ''active''
     \<and> date_from \<le> opp_match_date (sp_opportunity p)
     \<and> opp_match_date (sp_opportunity p) \<le> date_to)"

definition archive_old_predictions ::
  "storage_env \<Rightarrow> database \<Rightarrow> nat \<Rightarrow> nat \<Rightarrow> nat \<times> database"
where
  "archive_old_predictions env db date_from date_to =
    (if delete_fails env then (0, db)
     else (length (filter (active_in_range date_from date_to) (predictions_table db)),
           db\<lparr>predictions_table :=
                filter (\<lambda>p. \<not> active_in_range date_from date_to p) (predictions_table db)\<rparr>))"

text \<open>
  \<open>save\_predictions\<close>: the rows are inserted in batches of \<open>batch_size = 100\<close>; an
  insert that raises ends the loop and the exception is re-raised, the batches already
  inserted stay.
\<close>

function batches :: "nat \<Rightarrow> 'a list \<Rightarrow> 'a list list" where
  "batches n xs =
    (if n = 0 \<or> xs = [] then [] else take n xs # batches n (drop n xs))"
  by pat_completeness auto
termination
  by (relation "measure (\<lambda>(n, xs). length xs)") auto

declare batches.simps [simp del]

fun insert_batches ::
  "storage_env \<Rightarrow> nat \<Rightarrow> stored_prediction list list \<Rightarrow> nat \<Rightarrow> database \<Rightarrow> (py_error + nat) \<times> database"
where
  "insert_batches env i [] inserted_count db = (Inr inserted_count, db)"
| "insert_batches env i (batch # rest) inserted_count db =
    (if insert_fails_at env = Some i then (Inl StorageError, db)
     else insert_batches env (Suc i) rest (inserted_count + length batch)
            (db\<lparr>predictions_table := predictions_table db @ batch\<rparr>))"

definition save_predictions ::
  "storage_env \<Rightarrow> nat option \<Rightarrow> opportunity list \<Rightarrow> database \<Rightarrow> (py_error + nat) \<times> database"
where
  "save_predictions env current_run_id opportunities db =
    (if opportunities = [] then (Inr 0, db)
     else
       (let preds = map (\<lambda>opp. \<lparr>sp_opportunity = opp, sp_run_id = current_run_id,
                                 sp_status = asc ''active'', sp_result = asc ''pending''\<rparr>)
                        opportunities
        in insert_batches env 0 (batches 100 preds) 0 db))"

text \<open>
  \<open>run\<close>, with both dates given. \<open>run_failed\<close> is the \<open>except\<close> block: it closes the run
  with the error and returns the failure summary.
\<close>

definition run_failed ::
  "storage_env \<Rightarrow> nat option \<Rightarrow> py_error \<Rightarrow> database \<Rightarrow> run_summary \<times> database"
where
  "run_failed env current_run_id err db =
    (RunFailure err, complete_run env current_run_id 0 0 (Some err) db)"

definition run ::
  "(pystr \<Rightarrow> pystr) \<Rightarrow> engine \<Rightarrow> storage_env \<Rightarrow> nat option \<Rightarrow> database \<Rightarrow> nat \<Rightarrow> nat
    \<Rightarrow> run_summary \<times> database"
where
  "run lower e env current_run_id db date_from date_to =
    (case create_run env db of
       Inl err \<Rightarrow> run_failed env current_run_id err db
     | Inr (rid, db1) \<Rightarrow>
         (let db2 = snd (archive_old_predictions env db1 date_from date_to) in
          case load_outcome env of
            Inl err \<Rightarrow> run_failed env (Some rid) err db2
          | Inr matches \<Rightarrow>
              if matches = []
              then (RunSuccess None 0 0, complete_run env (Some rid) 0 0 None db2)
              else
                (case process_matches lower e matches of
                   Inl err \<Rightarrow> run_failed env (Some rid) err db2
                 | Inr opportunities \<Rightarrow>
                     (case save_predictions env (Some rid) opportunities db2 of
                        (Inl err, db3) \<Rightarrow> run_failed env (Some rid) err db3
                      | (Inr saved_count, db3) \<Rightarrow>
                          (RunSuccess (Some rid) (length matches) saved_count,
                           complete_run env (Some rid) (length matches) saved_count
                             None db3)))))"

subsection \<open>The matching rule of the specification\<close>

text \<open>
  The specification's words: a pair is satisfied when its canonical key is in the
  snapshot and the odds differ from the required value by at most the tolerance, the
  difference being the float difference that the code compares; a normal signature
  matches when all its pairs are satisfied; an exclude signature triggers when any pair
  is satisfied.
\<close>

definition snapshot_of :: "fixture \<Rightarrow> (pystr \<times> real) list" where
  "snapshot_of m = dict_of (opening_odds m)"

definition pair_satisfied ::
  "(pystr \<Rightarrow> pystr) \<Rightarrow> real \<Rightarrow> (pystr \<times> real) list \<Rightarrow> pystr \<times> real \<Rightarrow> bool"
where
  "pair_satisfied lower t snapshot p =
    (case map_of snapshot (convert_odds_key lower (fst p)) of
       None \<Rightarrow> False
     | Some v \<Rightarrow> \<bar>float_sub v (snd p)\<bar> \<le> t)"

definition signature_matches ::
  "(pystr \<Rightarrow> pystr) \<Rightarrow> real \<Rightarrow> (pystr \<times> real) list \<Rightarrow> (pystr \<times> real) list \<Rightarrow> bool"
where
  "signature_matches lower t snapshot sig = list_all (pair_satisfied lower t snapshot) sig"

definition exclusion_triggers ::
  "(pystr \<Rightarrow> pystr) \<Rightarrow> real \<Rightarrow> (pystr \<times> real) list \<Rightarrow> (pystr \<times> real) list \<Rightarrow> bool"
where
  "exclusion_triggers lower t snapshot sig = list_ex (pair_satisfied lower t snapshot) sig"

section \<open>sandbox\_evaluator.py: SandboxEvaluator\<close>

text \<open>
  \<open>_generate_recommendation\<close> returns the recommendation and a formatted reason; the
  model keeps the recommendation. \<open>self.min_sample_size\<close> is set to 30 in \<open>__init__\<close>.
\<close>

datatype recommendation = Approve | NeedsTuning | Reject | InsufficientData

definition min_sample_size :: nat where
  "min_sample_size = 30"

definition sandbox_generate_recommendation ::
  "nat \<Rightarrow> real \<Rightarrow> bool \<Rightarrow> real \<Rightarrow> recommendation"
where
  "sandbox_generate_recommendation sample_size win_rate_delta is_sig win_rate =
    (if sample_size < min_sample_size then InsufficientData
     else if \<not> is_sig then Reject
     else if win_rate_delta > 5 \<and> win_rate > 75 then Approve
     else if win_rate_delta > 0 \<and> win_rate > 70 then NeedsTuning
     else Reject)"

text \<open>
  \<open>_proportion_test\<close>: the two-sided z-test, in float arithmetic. The sandbox
  evaluator and the learning engine carry the same function. \<open>scipy.stats.norm.cdf\<close>
  is the parameter \<open>norm_cdf\<close>. The callers pass an expected proportion in \<open>[0, 1]\<close>,
  where the square root is taken of a non-negative number.
\<close>

definition proportion_test :: "(real \<Rightarrow> real) \<Rightarrow> nat \<Rightarrow> nat \<Rightarrow> real \<Rightarrow> real" where
  "proportion_test norm_cdf successes total_count expected_proportion =
    (if total_count = 0 then 1
     else
       (let observed = float_div (real successes) (real total_count);
            se = float_sqrt
                   (float_div (float_mul expected_proportion (float_sub 1 expected_proportion))
                      (real total_count))
        in if se = 0 then 1
           else (let z_score = float_div (float_sub observed expected_proportion) se
                 in float_mul 2 (float_sub 1 (norm_cdf \<bar>z_score\<bar>)))))"

text \<open>
  \<open>_calculate_test_metrics\<close>. A simulated result is \<open>None\<close> or a dict with
  \<open>predicted\<close> and \<open>result\<close>. The record holds the local variables the recommendation is
  computed from (the \<open>TestResult\<close> rounds them for display afterwards). The win rates
  and their difference are float results, and the p-value is compared with the float
  that the literal \<open>0.05\<close> denotes.
\<close>

record sim_result =
  predicted :: bool
  sim_outcome :: pystr

record test_metrics =
  candidate_total :: nat
  candidate_wins :: nat
  candidate_win_rate :: real
  baseline_total :: nat
  baseline_wins :: nat
  baseline_win_rate :: real
  win_rate_delta :: real
  tm_p_value :: real
  tm_is_significant :: bool
  tm_recommendation :: recommendation

definition predicted_results :: "sim_result option list \<Rightarrow> sim_result list" where
  "predicted_results results =
    concat (map (\<lambda>r. case r of None \<Rightarrow> [] | Some d \<Rightarrow> if predicted d then [d] else []) results)"

definition calculate_test_metrics ::
  "(real \<Rightarrow> real) \<Rightarrow> sim_result option list \<Rightarrow> sim_result option list \<Rightarrow> test_metrics"
where
  "calculate_test_metrics norm_cdf candidate_results baseline_results =
    (let candidate_preds = predicted_results candidate_results;
         c_total = length candidate_preds;
         c_wins = length (filter (\<lambda>r. sim_outcome r = asc ''won'') candidate_preds);
         c_rate = (if c_total > 0 then float_mul (float_div (real c_wins) (real c_total)) 100
                   else 0);
         baseline_preds = predicted_results baseline_results;
         b_total = length baseline_preds;
         b_wins = length (filter (\<lambda>r. sim_outcome r = asc ''won'') baseline_preds);
         b_rate = (if b_total > 0 then float_mul (float_div (real b_wins) (real b_total)) 100
                   else 0);
         d = float_sub c_rate b_rate;
         p = (if c_total \<ge> min_sample_size \<and> b_total \<ge> min_sample_size
              then proportion_test norm_cdf c_wins c_total
                     (if b_total > 0 then float_div (real b_wins) (real b_total) else 1 / 2)
              else 1);
         sig = (if c_total \<ge> min_sample_size \<and> b_total \<ge> min_sample_size
                then p < float_lit (5 / 100) else False)
     in \<lparr>candidate_total = c_total, candidate_wins = c_wins, candidate_win_rate = c_rate,
         baseline_total = b_total, baseline_wins = b_wins, baseline_win_rate = b_rate,
         win_rate_delta = d, tm_p_value = p, tm_is_significant = sig,
         tm_recommendation = sandbox_generate_recommendation c_total d sig c_rate\<rparr>)"

section \<open>learning\_engine.py: LearningEngine\<close>

text \<open>
  The engine reads two tables through \<open>self.db\<close>: \<open>golden_rules\<close>, the stored rule
  catalog with the baseline \<open>success_rate\<close> of each rule (a nullable column), and
  \<open>predictions\<close> with the rule, the creation time and the graded outcome of each
  prediction (\<open>NULL\<close> while ungraded). \<open>execute_raw\<close> may raise.
\<close>

record catalog_row =
  cat_id :: int
  cat_rule_code :: pystr
  cat_success_rate :: "real option"

record graded_row =
  gr_golden_rule_id :: "int option"
  gr_created_at :: nat
  gr_outcome :: "bool option"

record learning_db =
  catalog_rows :: "catalog_row list"
  graded_rows :: "graded_row list"
  execute_raw_fails :: bool

text \<open>
  The query of \<open>analyze_rule_performance\<close>. The \<open>WHERE\<close> clause on the columns of
  \<open>p\<close> leaves of the left join the pairs of a rule and one of its predictions created
  in the period and graded. Grouping is by the rule (\<open>gr.id\<close> is the key of the
  table), the counts are over the group, and \<open>HAVING\<close> keeps the groups of at least
  the minimum size. The rows are taken in the order of the catalog.
\<close>

record performance_row =
  q_rule_id :: int
  q_baseline_success_rate :: "real option"
  q_total_predictions :: nat
  q_won_count :: nat
  q_lost_count :: nat

definition graded_since :: "nat \<Rightarrow> int \<Rightarrow> graded_row list \<Rightarrow> graded_row list" where
  "graded_since period_start rid rows =
    filter (\<lambda>p. gr_golden_rule_id p = Some rid \<and> period_start \<le> gr_created_at p
                \<and> gr_outcome p \<noteq> None) rows"

definition performance_query :: "nat \<Rightarrow> nat \<Rightarrow> learning_db \<Rightarrow> performance_row list" where
  "performance_query period_start min_count db =
    concat (map (\<lambda>gr.
      (let ps = graded_since period_start (cat_id gr) (graded_rows db)
       in if ps \<noteq> [] \<and> min_count \<le> length ps
          then [\<lparr>q_rule_id = cat_id gr,
                 q_baseline_success_rate = cat_success_rate gr,
                 q_total_predictions = length ps,
                 q_won_count = length (filter (\<lambda>p. gr_outcome p = Some True) ps),
                 q_lost_count = length (filter (\<lambda>p. gr_outcome p = Some False) ps)\<rparr>]
          else [])) (catalog_rows db))"

definition execute_raw ::
  "nat \<Rightarrow> nat \<Rightarrow> learning_db \<Rightarrow> py_error + performance_row list"
where
  "execute_raw period_start min_count db =
    (if execute_raw_fails db then Inl StorageError
     else Inr (performance_query period_start min_count db))"

text \<open>
  \<open>RulePerformance\<close> as \<open>analyze_rule_performance\<close> builds it from a row of the query
  (the rule code and the confidence interval, which only the description of an advisory
  prints, are left out). \<open>self.min_sample_size\<close> is 30 and
  \<open>self.significance_threshold\<close> is the float \<open>0.05\<close>. The significance flag is
  computed from the p-value before it is rounded for the record; the stored \<open>delta\<close> is
  the float difference rounded to two decimals.
\<close>

record RulePerformance =
  perf_rule_id :: int
  total_predictions :: nat
  won_count :: nat
  lost_count :: nat
  success_rate :: real
  baseline_success_rate :: real
  delta :: real
  p_value :: real
  is_significant :: bool

definition learning_min_sample_size :: nat where
  "learning_min_sample_size = 30"

definition significance_threshold :: real where
  "significance_threshold = float_lit (5 / 100)"

text \<open>\<open>row['baseline_success_rate'] or 80.0\<close>: \<open>None\<close> and \<open>0\<close> are both falsy.\<close>

definition baseline_of :: "performance_row \<Rightarrow> real" where
  "baseline_of row =
    (case q_baseline_success_rate row of
       None \<Rightarrow> 80
     | Some b \<Rightarrow> if b = 0 then 80 else b)"

definition rule_performance :: "(real \<Rightarrow> real) \<Rightarrow> performance_row \<Rightarrow> RulePerformance" where
  "rule_performance norm_cdf row =
    (let total_count = q_total_predictions row;
         won = q_won_count row;
         rate = float_mul (float_div (real won) (real total_count)) 100;
         baseline = baseline_of row;
         d = float_sub rate baseline;
         p = proportion_test norm_cdf won total_count (float_div baseline 100);
         sig = (p < significance_threshold)
     in \<lparr>perf_rule_id = q_rule_id row,
         total_predictions = total_count,
         won_count = won,
         lost_count = q_lost_count row,
         success_rate = py_round 2 rate,
         baseline_success_rate = baseline,
         delta = py_round 2 d,
         p_value = py_round 4 p,
         is_significant = sig\<rparr>)"

fun performances_loop :: "(real \<Rightarrow> real) \<Rightarrow> performance_row list \<Rightarrow> RulePerformance list" where
  "performances_loop norm_cdf [] = []"
| "performances_loop norm_cdf (row # rest) =
    (if q_total_predictions row = 0 then performances_loop norm_cdf rest
     else rule_performance norm_cdf row # performances_loop norm_cdf rest)"

text \<open>
  \<open>analyze_rule_performance\<close>; \<open>period_start\<close> is the clock reading minus the number of
  days asked for.
\<close>

definition analyze_rule_performance ::
  "(real \<Rightarrow> real) \<Rightarrow> nat \<Rightarrow> learning_db \<Rightarrow> py_error + RulePerformance list"
where
  "analyze_rule_performance norm_cdf period_start db =
    (case execute_raw period_start learning_min_sample_size db of
       Inl err \<Rightarrow> Inl err
     | Inr rows \<Rightarrow> Inr (performances_loop norm_cdf rows))"

datatype severity = High | Medium | Low

definition calculate_severity :: "real \<Rightarrow> severity" where
  "calculate_severity d =
    (if d < -10 then High
     else if d < -7 then Medium
     else Low)"

text \<open>\<open>int(x)\<close> of a float truncates toward zero.\<close>

definition py_int :: "real \<Rightarrow> int" where
  "py_int x = (if x < 0 then \<lceil>x\<rceil> else \<lfloor>x\<rfloor>)"

text \<open>
  \<open>_generate_recommendation\<close> formats one of three sentences; the constructor carries
  the number of points the sentence names.
\<close>

datatype advice =
  DisableOrReduceImmediately int
| ConsiderReducing int
| MonitorClosely

definition learning_generate_recommendation :: "RulePerformance \<Rightarrow> advice" where
  "learning_generate_recommendation perf =
    (if delta perf < -10 then DisableOrReduceImmediately \<bar>py_int (delta perf)\<bar>
     else if delta perf < -7
          then ConsiderReducing \<bar>py_int (float_mul (delta perf) (float_lit (8 / 10)))\<bar>
     else MonitorClosely)"

text \<open>
  The \<open>Suggestion\<close> of a degraded rule. \<open>lower_confidence_base_by\<close> is the number in
  the first suggested action, \<open>review_losses\<close> the number in the last.
\<close>

record Suggestion =
  sug_rule_id :: int
  sug_severity :: severity
  sug_recommendation :: advice
  lower_confidence_base_by :: int
  review_losses :: nat
  action_required :: bool

definition degradation_suggestion :: "RulePerformance \<Rightarrow> Suggestion" where
  "degradation_suggestion perf =
    (let sev = calculate_severity (delta perf) in
     \<lparr>sug_rule_id = perf_rule_id perf,
      sug_severity = sev,
      sug_recommendation = learning_generate_recommendation perf,
      lower_confidence_base_by = \<bar>py_int (float_mul (delta perf) (float_lit (8 / 10)))\<bar>,
      review_losses = lost_count perf,
      action_required = (sev = High)\<rparr>)"

text \<open>The loop of \<open>_detect_rule_degradation\<close> over the analysed performances.\<close>

fun degradation_loop :: "RulePerformance list \<Rightarrow> Suggestion list" where
  "degradation_loop [] = []"
| "degradation_loop (perf # rest) =
    (if \<not> is_significant perf then degradation_loop rest
     else if delta perf < -5
          then degradation_suggestion perf # degradation_loop rest
          else degradation_loop rest)"

text \<open>
  \<open>_detect_rule_degradation\<close> analyses the last 30 days and loops over the result. It
  returns the suggestions, or the error of the query; the second component is the
  database after the call.
\<close>

definition detect_rule_degradation ::
  "(real \<Rightarrow> real) \<Rightarrow> nat \<Rightarrow> learning_db \<Rightarrow> (py_error + Suggestion list) \<times> learning_db"
where
  "detect_rule_degradation norm_cdf period_start db =
    (case analyze_rule_performance norm_cdf period_start db of
       Inl err \<Rightarrow> (Inl err, db)
     | Inr performances \<Rightarrow> (Inr (degradation_loop performances), db))"



section \<open>String operations of the graders and the fixture matcher\<close>

text \<open>
  The code points for which \<open>str.isspace()\<close> holds: \<open>strip()\<close> removes them at both
  ends and \<open>split()\<close> splits at their runs.
\<close>

definition is_space :: "nat \<Rightarrow> bool" where
  "is_space c =
    ((9 \<le> c \<and> c \<le> 13) \<or> (28 \<le> c \<and> c \<le> 32) \<or> c = 133 \<or> c = 160 \<or> c = 5760
     \<or> (8192 \<le> c \<and> c \<le> 8202) \<or> c = 8232 \<or> c = 8233 \<or> c = 8239 \<or> c = 8287
     \<or> c = 12288)"

definition py_strip :: "pystr \<Rightarrow> pystr" where
  "py_strip s = rev (dropWhile is_space (rev (dropWhile is_space s)))"

fun split_acc :: "pystr \<Rightarrow> pystr \<Rightarrow> pystr list" where
  "split_acc cur [] = (if cur = [] then [] else [cur])"
| "split_acc cur (c # cs) =
    (if is_space c
     then (if cur = [] then split_acc [] cs else cur # split_acc [] cs)
     else split_acc (cur @ [c]) cs)"

definition py_split :: "pystr \<Rightarrow> pystr list" where
  "py_split s = split_acc [] s"

fun startswith :: "pystr \<Rightarrow> pystr \<Rightarrow> bool" where
  "startswith [] s = True"
| "startswith (a # as) [] = False"
| "startswith (a # as) (c # cs) = (a = c \<and> startswith as cs)"

text \<open>\<open>sub in s\<close>: \<open>sub\<close> occurs in \<open>s\<close> as a contiguous substring.\<close>

fun contains :: "pystr \<Rightarrow> pystr \<Rightarrow> bool" where
  "contains sub [] = (sub = [])"
| "contains sub (c # cs) = (startswith sub (c # cs) \<or> contains sub cs)"

text \<open>
  \<open>s.replace(old, new)\<close> for a non-empty \<open>old\<close> (every call site passes a non-empty
  literal): the occurrences are replaced from the left, without overlap.
\<close>

fun py_replace :: "pystr \<Rightarrow> pystr \<Rightarrow> pystr \<Rightarrow> pystr" where
  "py_replace old new [] = []"
| "py_replace old new (c # cs) =
    (if old \<noteq> [] \<and> startswith old (c # cs)
     then new @ py_replace old new (drop (length old - 1) cs)
     else c # py_replace old new cs)"

section \<open>track\_results.py: ResultTracker.check\_prediction\_result\<close>

text \<open>
  The match data the tracker receives from \<open>get_match_by_teams_and_date\<close>: integer
  scores, the half-time scores \<open>None\<close> when the feed has none. The result is one of the
  strings \<open>'won'\<close>, \<open>'lost'\<close>, \<open>'pending'\<close>.
\<close>

record match_data =
  fulltime_home :: "int option"
  fulltime_away :: "int option"
  halftime_home :: "int option"
  halftime_away :: "int option"

datatype tracker_result = Won | Lost | Pending

definition won_if :: "bool \<Rightarrow> tracker_result" where
  "won_if b = (if b then Won else Lost)"

text \<open>
  \<open>'<t> UST' in pred\<close> or the same with U-diaeresis (U+00DC) in place of \<open>U\<close>, for a
  threshold text \<open>t\<close>.
\<close>

definition has_ust :: "string \<Rightarrow> pystr \<Rightarrow> bool" where
  "has_ust t pred =
    (contains (asc t @ asc '' UST'') pred \<or> contains (asc t @ asc '' '' @ 220 # asc ''ST'') pred)"

definition tracker_half_time :: "pystr \<Rightarrow> int \<Rightarrow> int \<Rightarrow> int \<Rightarrow> tracker_result option" where
  "tracker_half_time pred ht_total ht_home ht_away =
    (if contains (asc ''IY'') pred \<or> contains (asc ''ILKY'') pred
     then (if has_ust ''0.5'' pred then Some (won_if (ht_total \<ge> 1))
           else if has_ust ''1.5'' pred then Some (won_if (ht_total \<ge> 2))
           else if has_ust ''2.5'' pred then Some (won_if (ht_total \<ge> 3))
           else if contains (asc ''EV'') pred \<and> has_ust ''0.5'' pred
                then Some (won_if (ht_home \<ge> 1))
           else if contains (asc ''DEP'') pred \<and> has_ust ''0.5'' pred
                then Some (won_if (ht_away \<ge> 1))
           else None)
     else None)"

definition tracker_full_time :: "pystr \<Rightarrow> int \<Rightarrow> tracker_result option" where
  "tracker_full_time pred total_goals =
    (if contains (asc ''MS'') pred \<or> contains (asc ''MAC'') pred
     then (if has_ust ''0.5'' pred then Some (won_if (total_goals \<ge> 1))
           else if has_ust ''1.5'' pred then Some (won_if (total_goals \<ge> 2))
           else if has_ust ''2.5'' pred then Some (won_if (total_goals \<ge> 3))
           else if has_ust ''3.5'' pred then Some (won_if (total_goals \<ge> 4))
           else if has_ust ''4.5'' pred then Some (won_if (total_goals \<ge> 5))
           else if has_ust ''5.5'' pred then Some (won_if (total_goals \<ge> 6))
           else if contains (asc ''2.5 ALT'') pred then Some (won_if (total_goals < 3))
           else if contains (asc ''3.5 ALT'') pred then Some (won_if (total_goals < 4))
           else None)
     else None)"

definition tracker_both_scored :: "pystr \<Rightarrow> int \<Rightarrow> int \<Rightarrow> tracker_result option" where
  "tracker_both_scored pred ft_home ft_away =
    (if contains (asc ''KG'') pred \<or> contains (asc ''KARSILIKLI'') pred
     then (let both_scored = (ft_home > 0 \<and> ft_away > 0) in
           if contains (asc ''VAR'') pred then Some (won_if both_scored)
           else if contains (asc ''YOK'') pred then Some (won_if (\<not> both_scored))
           else None)
     else None)"

text \<open>
  The tracker's grader. A missing half-time score is replaced by 0
  (\<open>int(ht_home) if ht_home is not None else 0\<close>) before any scope is looked at.
\<close>

definition tracker_check_prediction_result ::
  "(pystr \<Rightarrow> pystr) \<Rightarrow> pystr \<Rightarrow> match_data option \<Rightarrow> tracker_result"
where
  "tracker_check_prediction_result upper prediction_text md_opt =
    (case md_opt of
       None \<Rightarrow> Pending
     | Some md \<Rightarrow>
         (let pred = py_strip (upper prediction_text) in
          case fulltime_home md of
            None \<Rightarrow> Pending
          | Some ft_home \<Rightarrow>
              (case fulltime_away md of
                 None \<Rightarrow> Pending
               | Some ft_away \<Rightarrow>
                   (let ht_home = (case halftime_home md of None \<Rightarrow> 0 | Some h \<Rightarrow> h);
                        ht_away = (case halftime_away md of None \<Rightarrow> 0 | Some h \<Rightarrow> h);
                        total_goals = ft_home + ft_away;
                        ht_total = ht_home + ht_away
                    in case tracker_half_time pred ht_total ht_home ht_away of
                         Some r \<Rightarrow> r
                       | None \<Rightarrow>
                           (case tracker_full_time pred total_goals of
                              Some r \<Rightarrow> r
                            | None \<Rightarrow>
                                (case tracker_both_scored pred ft_home ft_away of
                                   Some r \<Rightarrow> r
                                 | None \<Rightarrow> Pending))))))"

section \<open>api\_football.py\<close>

subsection \<open>check\_prediction\_result\<close>

text \<open>
  The grader of the score feed returns \<open>True\<close>, \<open>False\<close> or \<open>None\<close> (cannot determine).
  \<open>float(...)\<close> is the parameter \<open>py_float\<close>, \<open>None\<close> where Python raises
  \<open>ValueError\<close>. \<open>scan_threshold\<close> is the loop over \<open>enumerate(parts)\<close> that looks for
  the marker followed by a threshold; its \<open>None\<close> means the loop ended without a
  \<open>return\<close>.
\<close>

definition str_ust :: pystr where
  "str_ust = 220 # asc ''ST''"

definition str_iy_dotted :: pystr where
  "str_iy_dotted = 304 # asc ''Y''"

fun scan_threshold ::
  "(pystr \<Rightarrow> real option) \<Rightarrow> (pystr \<Rightarrow> bool) \<Rightarrow> pystr \<Rightarrow> int \<Rightarrow> pystr list \<Rightarrow> bool option"
where
  "scan_threshold py_float is_marker prediction_text score [] = None"
| "scan_threshold py_float is_marker prediction_text score (part # rest) =
    (case rest of
       [] \<Rightarrow> None
     | next_part # _ \<Rightarrow>
         if is_marker part
         then (case py_float next_part of
                 None \<Rightarrow> scan_threshold py_float is_marker prediction_text score rest
               | Some threshold \<Rightarrow>
                   if contains str_ust prediction_text
                   then Some (real_of_int score > threshold)
                   else if contains (asc ''ALT'') prediction_text
                        then Some (real_of_int score < threshold)
                   else scan_threshold py_float is_marker prediction_text score rest)
         else scan_threshold py_float is_marker prediction_text score rest)"

definition scope_scan ::
  "(pystr \<Rightarrow> real option) \<Rightarrow> (pystr \<Rightarrow> bool) \<Rightarrow> pystr \<Rightarrow> int \<Rightarrow> int \<Rightarrow> bool option"
where
  "scope_scan py_float is_scope prediction_text home away =
    (let parts = py_split prediction_text in
     if asc ''EV'' \<in> set parts
     then scan_threshold py_float (\<lambda>p. p = asc ''EV'') prediction_text home parts
     else if asc ''DEP'' \<in> set parts
     then scan_threshold py_float (\<lambda>p. p = asc ''DEP'') prediction_text away parts
     else scan_threshold py_float is_scope prediction_text (home + away) parts)"

definition is_half_time_text :: "pystr \<Rightarrow> bool" where
  "is_half_time_text prediction_text =
    (contains str_iy_dotted prediction_text \<or> contains (asc ''IY'') prediction_text)"

definition is_var_text :: "pystr \<Rightarrow> bool" where
  "is_var_text prediction_text =
    (contains (asc ''KG VAR'') prediction_text \<or> contains (asc ''VAR'') prediction_text)"

definition check_prediction_tail :: "pystr \<Rightarrow> int \<Rightarrow> int \<Rightarrow> int option \<Rightarrow> int option \<Rightarrow> bool option"
where
  "check_prediction_tail prediction_text home_score away_score ht_home ht_away =
    (if is_half_time_text prediction_text \<and> is_var_text prediction_text
     then (case ht_home of
             None \<Rightarrow> None
           | Some hh \<Rightarrow>
               (case ht_away of None \<Rightarrow> None | Some ha \<Rightarrow> Some (hh > 0 \<and> ha > 0)))
     else if is_var_text prediction_text then Some (home_score > 0 \<and> away_score > 0)
     else if prediction_text = asc ''1'' then Some (home_score > away_score)
     else if prediction_text = asc ''X'' then Some (home_score = away_score)
     else if prediction_text = asc ''2'' then Some (home_score < away_score)
     else None)"

definition check_prediction_half_time ::
  "(pystr \<Rightarrow> real option) \<Rightarrow> pystr \<Rightarrow> int \<Rightarrow> int \<Rightarrow> int option \<Rightarrow> int option \<Rightarrow> bool option"
where
  "check_prediction_half_time py_float prediction_text home_score away_score ht_home ht_away =
    (if is_half_time_text prediction_text
     then (case ht_home of
             None \<Rightarrow> None
           | Some hh \<Rightarrow>
               (case ht_away of
                  None \<Rightarrow> None
                | Some ha \<Rightarrow>
                    (case scope_scan py_float
                            (\<lambda>p. p = str_iy_dotted \<or> p = asc ''IY'') prediction_text hh ha of
                       Some b \<Rightarrow> Some b
                     | None \<Rightarrow>
                         check_prediction_tail prediction_text home_score away_score
                           ht_home ht_away)))
     else check_prediction_tail prediction_text home_score away_score ht_home ht_away)"

definition check_prediction_result ::
  "(pystr \<Rightarrow> real option) \<Rightarrow> pystr \<Rightarrow> int \<Rightarrow> int \<Rightarrow> int option \<Rightarrow> int option \<Rightarrow> bool option"
where
  "check_prediction_result py_float prediction_text home_score away_score ht_home ht_away =
    (if contains (asc ''MS'') prediction_text
     then (case scope_scan py_float (\<lambda>p. p = asc ''MS'') prediction_text
                  home_score away_score of
             Some b \<Rightarrow> Some b
           | None \<Rightarrow>
               check_prediction_half_time py_float prediction_text home_score away_score
                 ht_home ht_away)
     else check_prediction_half_time py_float prediction_text home_score away_score
            ht_home ht_away)"

subsection \<open>match\_fixture\_by\_teams\<close>

text \<open>
  A fixture of the score feed, reduced to the fields the matcher reads
  (\<open>fixture["teams"]["home"]["name"]\<close>, \<open>fixture["teams"]["away"]["name"]\<close>) and its id.
\<close>

record api_fixture =
  fixture_id :: int
  teams_home_name :: pystr
  teams_away_name :: pystr

text \<open>
  The substitution table \<open>turkish_chars\<close> in the order of its items: dotless i, i with
  combining dot above (two code points), capital dotted I, then g-breve, u-diaeresis,
  s-cedilla, o-diaeresis and c-cedilla in lower and upper case.
\<close>

definition turkish_chars :: "(pystr \<times> pystr) list" where
  "turkish_chars =
    [([305], asc ''i''), ([105, 775], asc ''i''), ([304], asc ''i''),
     ([287], asc ''g''), ([286], asc ''g''),
     ([252], asc ''u''), ([220], asc ''u''),
     ([351], asc ''s''), ([350], asc ''s''),
     ([246], asc ''o''), ([214], asc ''o''),
     ([231], asc ''c''), ([199], asc ''c'')]"

definition replace_turkish :: "pystr \<Rightarrow> pystr" where
  "replace_turkish s = foldl (\<lambda>acc (tr_char, ascii_char). py_replace tr_char ascii_char acc) s turkish_chars"

definition common_words :: "pystr list" where
  "common_words =
    [asc '' fc'', asc '' cf'', asc '' sc'', asc '' ac'', asc '' club'', asc '' united'',
     asc '' city'', asc '' f.'', asc '' f '']"

definition normalize_name :: "(pystr \<Rightarrow> pystr) \<Rightarrow> pystr \<Rightarrow> pystr" where
  "normalize_name lower s =
    (let s1 = py_strip (lower s);
         s2 = replace_turkish s1;
         s3 = foldl (\<lambda>acc word. py_replace word [] acc) s2 common_words
     in py_replace (asc '' '') [] (py_replace (asc ''.'') [] (py_replace (asc ''-'') [] s3)))"

text \<open>\<open>get_key_words\<close> returns a set; the model keeps its elements without repetition.\<close>

definition stop_words :: "pystr list" where
  "stop_words = [asc ''the'', asc ''fc'', asc ''cf'', asc ''sc'', asc ''ac'', asc ''f'']"

definition get_key_words :: "(pystr \<Rightarrow> pystr) \<Rightarrow> pystr \<Rightarrow> pystr list" where
  "get_key_words lower s =
    (let s1 = py_strip (lower s);
         s2 = replace_turkish s1;
         ws = py_split (py_replace (asc ''.'') (asc '' '') (py_replace (asc ''-'') (asc '' '') s2))
     in remdups (filter (\<lambda>w. length w > 2 \<and> w \<notin> set stop_words) ws))"

text \<open>\<open>len(a & b)\<close> for two word sets.\<close>

definition overlap :: "pystr list \<Rightarrow> pystr list \<Rightarrow> nat" where
  "overlap a b = length (filter (\<lambda>w. w \<in> set b) (remdups a))"

text \<open>
  The score of one side. The guard of the bonus is the source's condition, term for
  term: \<open>len(home_norm) >= 4 and (len(home_norm) >= 4 or len(api_home_norm) >= 4)\<close>.
\<close>

definition side_score :: "pystr \<Rightarrow> pystr \<Rightarrow> pystr list \<Rightarrow> pystr list \<Rightarrow> nat" where
  "side_score own_norm api_norm side_words api_words =
    (let bonus =
       (if contains own_norm api_norm \<or> contains api_norm own_norm
        then (if length own_norm \<ge> 4 \<and> (length own_norm \<ge> 4 \<or> length api_norm \<ge> 4) then 2 else 0)
        else 0)
     in bonus + overlap side_words api_words)"

text \<open>
  The loop over the fixtures, with \<open>best_match\<close> and \<open>best_score\<close> as its state. An
  exact match of both normalized names returns at once.
\<close>

fun match_loop ::
  "(pystr \<Rightarrow> pystr) \<Rightarrow> pystr \<Rightarrow> pystr \<Rightarrow> api_fixture list \<Rightarrow> api_fixture option \<Rightarrow> nat
    \<Rightarrow> api_fixture option"
where
  "match_loop lower home away [] best_match best_score = best_match"
| "match_loop lower home away (fx # rest) best_match best_score =
    (let home_norm = normalize_name lower home;
         away_norm = normalize_name lower away;
         api_home_norm = normalize_name lower (teams_home_name fx);
         api_away_norm = normalize_name lower (teams_away_name fx)
     in if home_norm = api_home_norm \<and> away_norm = api_away_norm then Some fx
        else
          (let home_score = side_score home_norm api_home_norm
                              (get_key_words lower home)
                              (get_key_words lower (teams_home_name fx));
               away_score = side_score away_norm api_away_norm
                              (get_key_words lower away)
                              (get_key_words lower (teams_away_name fx))
           in if home_score \<ge> 1 \<and> away_score \<ge> 1 \<and> home_score + away_score > best_score
              then match_loop lower home away rest (Some fx) (home_score + away_score)
              else match_loop lower home away rest best_match best_score))"

definition match_fixture_by_teams ::
  "(pystr \<Rightarrow> pystr) \<Rightarrow> api_fixture list \<Rightarrow> pystr \<Rightarrow> pystr \<Rightarrow> api_fixture option"
where
  "match_fixture_by_teams lower fixtures home away = match_loop lower home away fixtures None 0"

section \<open>Concrete data\<close>

text \<open>
  Three rules of \<open>GOLDEN_RULES\<close> (ids 30, 33 and 9), the prediction texts they use, an
  engine with the default settings over them, and fixtures with one odds entry. The
  odds are written as decimals; at tolerance 0, where they are used, only their equality
  matters.
\<close>

definition pred_iy_05_ust :: pystr where
  "pred_iy_05_ust = 304 # asc ''Y 0.5 '' @ 220 # asc ''ST''"

definition pred_iy_15_ust :: pystr where
  "pred_iy_15_ust = 304 # asc ''Y 1.5 '' @ 220 # asc ''ST''"

definition pred_iy_ev_05_ust :: pystr where
  "pred_iy_ev_05_ust = 304 # asc ''Y EV 0.5 '' @ 220 # asc ''ST''"

definition pred_ms_25_ust :: pystr where
  "pred_ms_25_ust = asc ''MS 2.5 '' @ 220 # asc ''ST''"

definition pred_ms_35_ust :: pystr where
  "pred_ms_35_ust = asc ''MS 3.5 '' @ 220 # asc ''ST''"

definition rule_30 :: GoldenRule where
  "rule_30 =
    \<lparr>rule_id = 30, rule_name = asc ''4-5 gol 2.33'',
     primary_odds = [(asc ''4-5'', 2.33)], secondary_odds = None, exclude_odds = None,
     predictions = [pred_iy_05_ust, pred_iy_15_ust, pred_iy_ev_05_ust],
     confidence_base = 90, importance = tier_important\<rparr>"

definition rule_33 :: GoldenRule where
  "rule_33 =
    \<lparr>rule_id = 33, rule_name = asc ''4-5 gol 4.76 + 3.5 alt 1.10'',
     primary_odds = [(asc ''4-5'', 4.76)], secondary_odds = Some [(asc ''3,5 A'', 1.10)],
     exclude_odds = None,
     predictions = [pred_iy_05_ust, pred_iy_ev_05_ust],
     confidence_base = 85, importance = tier_normal\<rparr>"

definition rule_9 :: GoldenRule where
  "rule_9 =
    \<lparr>rule_id = 9,
     rule_name = asc ''4-5 gol 3.15 (KG VAR 1.50 HAR'' @ 304 # 199 # asc '')'',
     primary_odds = [(asc ''4-5'', 3.15)], secondary_odds = None,
     exclude_odds = Some [(asc ''VAR'', 1.50)],
     predictions = [pred_iy_05_ust, pred_ms_25_ust, pred_ms_35_ust],
     confidence_base = 88, importance = tier_important\<rparr>"

text \<open>A rule definition with an empty primary signature, which the dataclass accepts.\<close>

definition rule_empty_primary :: GoldenRule where
  "rule_empty_primary =
    \<lparr>rule_id = 99, rule_name = asc ''empty'',
     primary_odds = [], secondary_odds = None, exclude_odds = None,
     predictions = [pred_ms_25_ust],
     confidence_base = 85, importance = tier_normal\<rparr>"

definition default_engine :: engine where
  "default_engine = \<lparr>min_confidence = 85, tolerance = 0, golden_rules = [rule_30, rule_33, rule_9]\<rparr>"

definition fixture_with_odds :: "int \<Rightarrow> (pystr \<times> real) list option \<Rightarrow> fixture" where
  "fixture_with_odds i odds =
    \<lparr>match_id = i, home_team = asc ''Home'', away_team = asc ''Away'',
     league = asc ''League'', match_date = 5, match_time = None, opening_odds = odds\<rparr>"

definition fixture_233 :: fixture where
  "fixture_233 = fixture_with_odds 1 (Some [(asc ''oran_45'', 2.33)])"

definition fixture_234 :: fixture where
  "fixture_234 = fixture_with_odds 2 (Some [(asc ''oran_45'', 2.34)])"

text \<open>
  A rule that lists no prediction (the dataclass default for \<open>predictions\<close>) and
  matches the snapshot with \<open>oran_45 = 2.34\<close>, in a catalog with rule 30.
\<close>

definition rule_no_predictions :: GoldenRule where
  "rule_no_predictions =
    \<lparr>rule_id = 101, rule_name = asc ''no predictions'',
     primary_odds = [(asc ''4-5'', 2.34)], secondary_odds = None, exclude_odds = None,
     predictions = [],
     confidence_base = 85, importance = tier_normal\<rparr>"

definition engine_no_predictions :: engine where
  "engine_no_predictions =
    \<lparr>min_confidence = 85, tolerance = 0, golden_rules = [rule_30, rule_no_predictions]\<rparr>"

text \<open>
  An engine with tolerance 2 and a rule that requires the float 3.2 for \<open>4-5\<close>, and a
  fixture whose snapshot has the float 1.2 for that market.
\<close>

definition odds_1_2 :: real where
  "odds_1_2 = float_lit (12 / 10)"

definition odds_3_2 :: real where
  "odds_3_2 = float_lit (32 / 10)"

definition rule_3_2 :: GoldenRule where
  "rule_3_2 =
    \<lparr>rule_id = 102, rule_name = asc ''4-5 gol 3.2'',
     primary_odds = [(asc ''4-5'', odds_3_2)], secondary_odds = None, exclude_odds = None,
     predictions = [pred_ms_25_ust],
     confidence_base = 85, importance = tier_normal\<rparr>"

definition engine_tolerance_2 :: engine where
  "engine_tolerance_2 = \<lparr>min_confidence = 85, tolerance = 2, golden_rules = [rule_3_2]\<rparr>"

definition fixture_1_2 :: fixture where
  "fixture_1_2 = fixture_with_odds 4 (Some [(asc ''oran_45'', odds_1_2)])"

section \<open>The scoring and ranking of the specification\<close>

text \<open>
  The bonuses in the specification's words: very important 3, important 2, special 1,
  normal (and anything else) 0; a rule with at most two predictions 2, with at most four
  1, otherwise 0.
\<close>

definition importance_points :: "pystr \<Rightarrow> int" where
  "importance_points tier =
    (if tier = tier_very_important then 3
     else if tier = tier_important then 2
     else if tier = tier_special then 1
     else 0)"

definition rarity_points :: "nat \<Rightarrow> int" where
  "rarity_points n = (if n \<le> 2 then 2 else if n \<le> 4 then 1 else 0)"

text \<open>
  The rules of the catalog that match a fixture, in catalog order; every (rule,
  prediction) pair of them with its score, in catalog order; and that list ranked.
\<close>

definition matching_rules :: "(pystr \<Rightarrow> pystr) \<Rightarrow> engine \<Rightarrow> fixture \<Rightarrow> GoldenRule list" where
  "matching_rules lower e m = filter (match_rule_to_match lower e m) (golden_rules e)"

definition scored_entry :: "GoldenRule \<Rightarrow> pystr \<Rightarrow> prediction_entry" where
  "scored_entry r p =
    \<lparr>bet = p, confidence = calculate_confidence r p,
     entry_rule_id = rule_id r, entry_rule_name = rule_name r\<rparr>"

definition scored_pairs :: "(pystr \<Rightarrow> pystr) \<Rightarrow> engine \<Rightarrow> fixture \<Rightarrow> prediction_entry list" where
  "scored_pairs lower e m =
    concat (map (\<lambda>r. map (scored_entry r) (predictions r)) (matching_rules lower e m))"

definition ranked :: "(pystr \<Rightarrow> pystr) \<Rightarrow> engine \<Rightarrow> fixture \<Rightarrow> prediction_entry list" where
  "ranked lower e m = sort_key (\<lambda>x. - confidence x) (scored_pairs lower e m)"

text \<open>
  \<open>ys\<close> is \<open>xs\<close> sorted descending by confidence with ties in their original order:
  descending, the same entries with the same multiplicities, and for every confidence
  value of \<open>xs\<close> the entries of that value stand in \<open>ys\<close> in the order they have in \<open>xs\<close>.
\<close>

definition ranking_of :: "prediction_entry list \<Rightarrow> prediction_entry list \<Rightarrow> bool" where
  "ranking_of xs ys =
    (sorted_wrt (\<lambda>a b. confidence a \<ge> confidence b) ys
     \<and> mset ys = mset xs
     \<and> list_all (\<lambda>k. filter (\<lambda>x. confidence x = k) ys = filter (\<lambda>x. confidence x = k) xs)
          (map confidence xs))"

text \<open>
  A fixture yields an Opportunity when at least one rule matches and the top score
  reaches \<open>min_confidence\<close>; the Opportunity carries the top entry as its prediction and
  the whole remainder of the ranking as its alternatives.
\<close>

definition emits :: "(pystr \<Rightarrow> pystr) \<Rightarrow> engine \<Rightarrow> fixture \<Rightarrow> bool" where
  "emits lower e m =
    (matching_rules lower e m \<noteq> []
     \<and> min_confidence e \<le> confidence (hd (ranked lower e m)))"

definition opportunity_of :: "(pystr \<Rightarrow> pystr) \<Rightarrow> engine \<Rightarrow> fixture \<Rightarrow> opportunity \<Rightarrow> bool" where
  "opportunity_of lower e m opp =
    (opp_match_id opp = match_id m
     \<and> opp_home_team opp = home_team m
     \<and> opp_away_team opp = away_team m
     \<and> opp_league opp = league m
     \<and> opp_match_date opp = match_date m
     \<and> opp_match_time opp = match_time m
     \<and> prediction opp = bet (hd (ranked lower e m))
     \<and> opp_confidence opp = confidence (hd (ranked lower e m))
     \<and> alternative_predictions opp = tl (ranked lower e m)
     \<and> matched_rules opp = map (\<lambda>r. (rule_id r, rule_name r)) (matching_rules lower e m)
     \<and> note_count opp = length (scored_pairs lower e m))"

text \<open>
  A rule with base 85, importance important and two predictions (the example of the
  specification).
\<close>

definition rule_two_predictions :: GoldenRule where
  "rule_two_predictions =
    \<lparr>rule_id = 100, rule_name = asc ''example'',
     primary_odds = [(asc ''4-5'', 2.96)], secondary_odds = None, exclude_odds = None,
     predictions = [pred_ms_25_ust, pred_ms_35_ust],
     confidence_base = 85, importance = tier_important\<rparr>"

text \<open>The Opportunity the processor builds for a fixture from the ranking.\<close>

definition build_opportunity :: "(pystr \<Rightarrow> pystr) \<Rightarrow> engine \<Rightarrow> fixture \<Rightarrow> opportunity" where
  "build_opportunity lower e m =
     \<lparr>opp_match_id = match_id m,
      opp_home_team = home_team m,
      opp_away_team = away_team m,
      opp_league = league m,
      opp_match_date = match_date m,
      opp_match_time = match_time m,
      prediction = bet (hd (ranked lower e m)),
      opp_confidence = confidence (hd (ranked lower e m)),
      alternative_predictions = tl (ranked lower e m),
      matched_rules = map (\<lambda>r. (rule_id r, rule_name r)) (matching_rules lower e m),
      note_count = length (scored_pairs lower e m)\<rparr>"

text \<open>
  A store holding one active prediction for day 5, saved by an earlier run, and an
  environment in which every storage call succeeds except the loading of the matches.
\<close>

definition old_prediction :: stored_prediction where
  "old_prediction =
    \<lparr>sp_opportunity =
       \<lparr>opp_match_id = 1, opp_home_team = asc ''Home'', opp_away_team = asc ''Away'',
        opp_league = asc ''League'', opp_match_date = 5, opp_match_time = None,
        prediction = pred_iy_05_ust, opp_confidence = 94, alternative_predictions = [],
        matched_rules = [(30, asc ''4-5 gol 2.33'')], note_count = 1\<rparr>,
     sp_run_id = Some 0, sp_status = asc ''active'', sp_result = asc ''pending''\<rparr>"

definition store_with_old_prediction :: database where
  "store_with_old_prediction =
    \<lparr>predictions_table = [old_prediction],
     runs_table = [\<lparr>run_status = asc ''completed'', run_matches_processed = 1,
                    run_opportunities_found = 1, run_error = None\<rparr>]\<rparr>"

definition env_load_fails :: storage_env where
  "env_load_fails =
    \<lparr>create_run_fails = False, delete_fails = False, load_outcome = Inl StorageError,
     insert_fails_at = None, complete_run_fails = False\<rparr>"

definition env_create_fails :: storage_env where
  "env_create_fails =
    \<lparr>create_run_fails = True, delete_fails = False, load_outcome = Inr [],
     insert_fails_at = None, complete_run_fails = False\<rparr>"

text \<open>
  Simulated results of sandbox tests: 40 candidate predictions of which 30 won against
  a baseline of 100 predictions of which 70 won, and 110 candidate predictions of which
  108 won against a baseline of 44 predictions of which 41 won. Two stand-ins for the
  normal distribution function are used to fix the outcome of the significance test:
  with the value 1 everywhere the p-value of a test is 0, with the value 1/2 it is 1.
\<close>

definition sim_won :: sim_result where
  "sim_won = \<lparr>predicted = True, sim_outcome = asc ''won''\<rparr>"

definition sim_lost :: sim_result where
  "sim_lost = \<lparr>predicted = True, sim_outcome = asc ''lost''\<rparr>"

definition candidate_30_of_40 :: "sim_result option list" where
  "candidate_30_of_40 = replicate 30 (Some sim_won) @ replicate 10 (Some sim_lost)"

definition baseline_70_of_100 :: "sim_result option list" where
  "baseline_70_of_100 = replicate 70 (Some sim_won) @ replicate 30 (Some sim_lost)"

definition candidate_108_of_110 :: "sim_result option list" where
  "candidate_108_of_110 = replicate 108 (Some sim_won) @ replicate 2 (Some sim_lost)"

definition baseline_41_of_44 :: "sim_result option list" where
  "baseline_41_of_44 = replicate 41 (Some sim_won) @ replicate 3 (Some sim_lost)"

definition cdf_one :: "real \<Rightarrow> real" where
  "cdf_one z = 1"

definition cdf_half :: "real \<Rightarrow> real" where
  "cdf_half z = 1 / 2"

text \<open>
  Performances of three rules over 400 graded predictions each against a baseline of
  80 percent: 74 percent (delta -6, p = 0.0027), 68 percent (delta -12) and 79 percent
  (delta -1, not significant).
\<close>

definition perf_minus_6 :: RulePerformance where
  "perf_minus_6 =
    \<lparr>perf_rule_id = 30, total_predictions = 400, won_count = 296, lost_count = 104,
     success_rate = 74, baseline_success_rate = 80, delta = -6, p_value = 0.0027,
     is_significant = True\<rparr>"

definition perf_minus_12 :: RulePerformance where
  "perf_minus_12 =
    \<lparr>perf_rule_id = 33, total_predictions = 400, won_count = 272, lost_count = 128,
     success_rate = 68, baseline_success_rate = 80, delta = -12, p_value = 0,
     is_significant = True\<rparr>"

definition perf_minus_1 :: RulePerformance where
  "perf_minus_1 =
    \<lparr>perf_rule_id = 9, total_predictions = 400, won_count = 316, lost_count = 84,
     success_rate = 79, baseline_success_rate = 80, delta = -1, p_value = 0.6171,
     is_significant = False\<rparr>"

text \<open>
  A database of the learning engine. Rules 30, 9, 33 and 12 have 400 graded predictions
  each since time 50, of which 296, 316, 272 and 300 won; rule 5 has 20. The stored
  baselines are 80 for rules 30, 9 and 5, none for rule 33 and the float 80.004 for
  rule 12. Rule 30 has also an ungraded prediction and one from before the period.
\<close>

definition graded :: "int \<Rightarrow> bool \<Rightarrow> graded_row" where
  "graded rid won =
    \<lparr>gr_golden_rule_id = Some rid, gr_created_at = 100, gr_outcome = Some won\<rparr>"

definition baseline_80_004 :: real where
  "baseline_80_004 = float_lit (80004 / 1000)"

definition learning_db_example :: learning_db where
  "learning_db_example =
    \<lparr>catalog_rows =
       [\<lparr>cat_id = 30, cat_rule_code = asc ''R30'', cat_success_rate = Some 80\<rparr>,
        \<lparr>cat_id = 9, cat_rule_code = asc ''R9'', cat_success_rate = Some 80\<rparr>,
        \<lparr>cat_id = 5, cat_rule_code = asc ''R5'', cat_success_rate = Some 80\<rparr>,
        \<lparr>cat_id = 33, cat_rule_code = asc ''R33'', cat_success_rate = None\<rparr>,
        \<lparr>cat_id = 12, cat_rule_code = asc ''R12'', cat_success_rate = Some baseline_80_004\<rparr>],
     graded_rows =
       replicate 296 (graded 30 True) @ replicate 104 (graded 30 False)
       @ [\<lparr>gr_golden_rule_id = Some 30, gr_created_at = 100, gr_outcome = None\<rparr>,
          \<lparr>gr_golden_rule_id = Some 30, gr_created_at = 10, gr_outcome = Some False\<rparr>]
       @ replicate 316 (graded 9 True) @ replicate 84 (graded 9 False)
       @ replicate 15 (graded 5 True) @ replicate 5 (graded 5 False)
       @ replicate 272 (graded 33 True) @ replicate 128 (graded 33 False)
       @ replicate 300 (graded 12 True) @ replicate 100 (graded 12 False),
     execute_raw_fails = False\<rparr>"

definition example_row :: "int \<Rightarrow> real option \<Rightarrow> nat \<Rightarrow> performance_row" where
  "example_row rid baseline won =
    \<lparr>q_rule_id = rid, q_baseline_success_rate = baseline, q_total_predictions = 400,
     q_won_count = won, q_lost_count = 400 - won\<rparr>"

text \<open>
  A finished match 1-0 for which the feed has no half-time score, and a feed fixture
  \<open>Pau\<close> against \<open>Santos FC\<close>.
\<close>

definition match_without_half_time :: match_data where
  "match_without_half_time =
    \<lparr>fulltime_home = Some 1, fulltime_away = Some 0,
     halftime_home = None, halftime_away = None\<rparr>"

definition fixture_pau_santos :: api_fixture where
  "fixture_pau_santos =
    \<lparr>fixture_id = 7, teams_home_name = asc ''Pau'', teams_away_name = asc ''Santos FC''\<rparr>"

section \<open>Float arithmetic\<close>

text \<open>
  The binade of a number is fixed by the two powers of two around it, which is how
  \<open>round_double\<close> is evaluated at a given number, and rounding never turns a number
  other than 0 into 0.
\<close>

lemma pow2_powr: "pow2 k = 2 powr (real_of_int k)"
  by (simp add: pow2_def powr_real_of_int inverse_eq_divide)

lemma pow2_pos: "0 < pow2 k"
  by (simp add: pow2_powr)

lemma pow2_mono: "a \<le> b \<Longrightarrow> pow2 a \<le> pow2 b"
  by (simp add: pow2_powr)

lemma pow2_shift: "pow2 (e - 52) = pow2 e / 2 ^ 52"
  unfolding pow2_powr by (simp add: powr_diff)

lemma pow2_Suc: "pow2 (e + 1) = 2 * pow2 e"
  unfolding pow2_powr by (simp add: powr_add)

lemma binade_eq:
  assumes "pow2 e \<le> \<bar>x\<bar>" and "\<bar>x\<bar> < pow2 (e + 1)"
  shows "binade x = e"
proof -
  have "0 < \<bar>x\<bar>" using assms(1) pow2_pos [of e] by linarith
  then show ?thesis
    using assms unfolding binade_def
    by (subst floor_log_eq_powr_iff) (simp_all add: pow2_powr)
qed

lemma binade_bounds:
  assumes "x \<noteq> 0"
  shows "pow2 (binade x) \<le> \<bar>x\<bar>" and "\<bar>x\<bar> < pow2 (binade x + 1)"
proof -
  have "0 < \<bar>x\<bar>" using assms by simp
  then have "\<lfloor>log 2 \<bar>x\<bar>\<rfloor> = binade x \<longleftrightarrow>
      2 powr (real_of_int (binade x)) \<le> \<bar>x\<bar> \<and> \<bar>x\<bar> < 2 powr (real_of_int (binade x + 1))"
    by (subst floor_log_eq_powr_iff) simp_all
  then show "pow2 (binade x) \<le> \<bar>x\<bar>" and "\<bar>x\<bar> < pow2 (binade x + 1)"
    by (simp_all add: binade_def pow2_powr)
qed

lemma round_double_eq:
  assumes "pow2 e \<le> \<bar>x\<bar>" and "\<bar>x\<bar> < pow2 (e + 1)"
  shows "round_double x = pow2 (e - 52) * real_of_int (round_half_even (x / pow2 (e - 52)))"
proof -
  have "x \<noteq> 0" using assms(1) pow2_pos [of e] by auto
  then show ?thesis
    by (simp add: round_double_def binade_eq [OF assms] Let_def)
qed

lemma round_half_even_close: "\<bar>real_of_int (round_half_even x) - x\<bar> \<le> 1 / 2"
  unfolding round_half_even_def Let_def by (auto; linarith)

text \<open>
  A rounded number other than 0 is a multiple \<open>k\<close> of the unit of its binade with
  \<open>2\<^sup>5\<^sup>2 \<le> \<bar>k\<bar> \<le> 2\<^sup>5\<^sup>3\<close>.
\<close>

lemma round_double_grid:
  assumes "x \<noteq> 0"
  shows "\<exists>k. round_double x = pow2 (binade x - 52) * real_of_int k
             \<and> 2 ^ 52 \<le> \<bar>k\<bar> \<and> \<bar>k\<bar> \<le> 2 ^ 53"
proof -
  define u where "u = pow2 (binade x - 52)"
  define k where "k = round_half_even (x / u)"
  have upos: "0 < u" by (simp add: u_def pow2_pos)
  have pu: "pow2 (binade x) = 2 ^ 52 * u"
    by (simp add: u_def pow2_shift)
  have "2 ^ 52 * u \<le> \<bar>x\<bar>" using binade_bounds(1) [OF assms] pu by simp
  then have lo: "2 ^ 52 \<le> \<bar>x / u\<bar>" using upos by (simp add: field_simps)
  have "\<bar>x\<bar> < 2 ^ 53 * u" using binade_bounds(2) [OF assms] pu by (simp add: pow2_Suc)
  then have hi: "\<bar>x / u\<bar> < 2 ^ 53" using upos by (simp add: field_simps)
  have cl: "\<bar>real_of_int k - x / u\<bar> \<le> 1 / 2"
    unfolding k_def by (rule round_half_even_close)
  have "(2::real) ^ 52 - 1 < \<bar>real_of_int k\<bar>" using lo cl by linarith
  then have "real_of_int (2 ^ 52 - 1) < real_of_int \<bar>k\<bar>" by simp
  then have "2 ^ 52 - 1 < \<bar>k\<bar>" by (simp only: of_int_less_iff)
  then have klo: "2 ^ 52 \<le> \<bar>k\<bar>" by simp
  have "\<bar>real_of_int k\<bar> < (2::real) ^ 53 + 1" using hi cl by linarith
  then have "real_of_int \<bar>k\<bar> < real_of_int (2 ^ 53 + 1)" by simp
  then have "\<bar>k\<bar> < 2 ^ 53 + 1" by (simp only: of_int_less_iff)
  then have khi: "\<bar>k\<bar> \<le> 2 ^ 53" by simp
  have "round_double x = u * real_of_int k"
    using assms by (simp add: round_double_def Let_def u_def k_def)
  with klo khi show ?thesis unfolding u_def by blast
qed

lemma round_double_eq_0_iff: "round_double x = 0 \<longleftrightarrow> x = 0"
proof
  assume r: "round_double x = 0"
  show "x = 0"
  proof (rule ccontr)
    assume nz: "x \<noteq> 0"
    from round_double_grid [OF nz] obtain k where
      k: "round_double x = pow2 (binade x - 52) * real_of_int k" "2 ^ 52 \<le> \<bar>k\<bar>"
      by blast
    from k(2) have "k \<noteq> 0" by auto
    with k(1) r pow2_pos [of "binade x - 52"] show False by simp
  qed
next
  assume "x = 0" then show "round_double x = 0" by (simp add: round_double_def)
qed

text \<open>
  A float difference is 0 iff the operands are equal, so at tolerance 0 the odds test
  \<open>abs(actual - required) <= tolerance\<close> is equality of the two odds.
\<close>

lemma float_sub_eq_0_iff: "float_sub x y = 0 \<longleftrightarrow> x = y"
  by (simp add: float_sub_def round_double_eq_0_iff)

lemma float_sub_within_0: "\<bar>float_sub x y\<bar> \<le> 0 \<longleftrightarrow> x = y"
  by (simp add: float_sub_eq_0_iff)

text \<open>
  The literal \<open>0.05\<close> denotes the float \<open>7205759403792794 / 2\<^sup>5\<^sup>7\<close>, just above the
  real 0.05, and no float lies between the two: a float is below the one iff it is below
  the other.
\<close>

lemma float_lit_005: "float_lit (5 / 100) = 7205759403792794 / 2 ^ 57"
  unfolding float_lit_def
  by (subst round_double_eq [where e = "-5"]) (simp_all add: pow2_def round_half_even_def Let_def)

lemma float_lit_005_less: "x < float_lit (5 / 100) \<longleftrightarrow> x < 7205759403792794 / 2 ^ 57"
  by (simp only: float_lit_005)

lemma float_less_005:
  "round_double y < float_lit (5 / 100) \<longleftrightarrow> round_double y < 5 / 100"
proof
  assume "round_double y < 5 / 100"
  then show "round_double y < float_lit (5 / 100)" unfolding float_lit_005_less by simp
next
  assume less: "round_double y < float_lit (5 / 100)"
  show "round_double y < 5 / 100"
  proof (rule ccontr)
    assume "\<not> round_double y < 5 / 100"
    then have ge: "5 / 100 \<le> round_double y" by simp
    then have "round_double y \<noteq> 0" by auto
    then have nz: "y \<noteq> 0" by (simp add: round_double_eq_0_iff)
    define e where "e = binade y"
    from round_double_grid [OF nz] obtain k where
      k: "round_double y = pow2 (e - 52) * real_of_int k" "2 ^ 52 \<le> \<bar>k\<bar>" "\<bar>k\<bar> \<le> 2 ^ 53"
      unfolding e_def by blast
    have upos: "0 < pow2 (e - 52)" by (rule pow2_pos)
    have "0 < pow2 (e - 52) * real_of_int k" using ge k(1) by simp
    then have "0 < real_of_int k" using upos by (simp add: zero_less_mult_iff)
    then have kpos: "0 < k" by simp
    have k1: "(2::real) ^ 52 \<le> real_of_int k"
    proof -
      have "(2::int) ^ 52 \<le> k" using k(2) kpos by simp
      then have "real_of_int (2 ^ 52) \<le> real_of_int k" by (simp only: of_int_le_iff)
      then show ?thesis by simp
    qed
    have k2: "real_of_int k \<le> (2::real) ^ 53"
    proof -
      have "k \<le> (2::int) ^ 53" using k(3) kpos by simp
      then have "real_of_int k \<le> real_of_int (2 ^ 53)" by (simp only: of_int_le_iff)
      then show ?thesis by simp
    qed
    have r: "round_double y = pow2 e * real_of_int k / 2 ^ 52"
      by (simp add: k(1) pow2_shift)
    have pe: "0 < pow2 e" by (rule pow2_pos)
    have lo: "pow2 e \<le> round_double y"
    proof -
      have "pow2 e * 2 ^ 52 \<le> pow2 e * real_of_int k"
        using k1 pe by (simp only: mult_le_cancel_left_pos)
      then show ?thesis unfolding r by (simp add: field_simps)
    qed
    have hi: "round_double y \<le> pow2 (e + 1)"
    proof -
      have "pow2 e * real_of_int k \<le> pow2 e * 2 ^ 53"
        using k2 pe by (simp only: mult_le_cancel_left_pos)
      then show ?thesis unfolding r pow2_Suc by (simp add: field_simps)
    qed
    have e1: "e \<le> -5"
    proof (rule ccontr)
      assume "\<not> e \<le> -5"
      then have "pow2 (-4) \<le> pow2 e" by (intro pow2_mono) simp
      with lo less show False unfolding float_lit_005_less by (simp add: pow2_def)
    qed
    have e2: "-5 \<le> e"
    proof (rule ccontr)
      assume "\<not> -5 \<le> e"
      then have "pow2 (e + 1) \<le> pow2 (-5)" by (intro pow2_mono) simp
      with hi ge show False by (simp add: pow2_def)
    qed
    from e1 e2 have "e = -5" by simp
    then have rk: "round_double y = real_of_int k / 2 ^ 57"
      by (simp add: k(1) pow2_def)
    from less have "real_of_int k < real_of_int 7205759403792794"
      unfolding float_lit_005_less by (simp add: rk)
    then have a: "k < 7205759403792794" by (simp only: of_int_less_iff)
    from ge have "real_of_int 7205759403792793 < real_of_int k"
      by (simp add: rk field_simps)
    then have b: "7205759403792793 < k" by (simp only: of_int_less_iff)
    from a b show False by simp
  qed
qed

section \<open>Odds matching\<close>

text \<open>
  The two modes of \<open>check_odds_match\<close> in the words of the specification. Both begin
  with the guard \<open>if not match_odds: return False\<close>, so neither holds on a missing or
  empty snapshot.
\<close>

lemma odds_loop_normal:
  "odds_loop lower tol snap False sig = list_all (pair_satisfied lower tol snap) sig"
  by (induction sig) (auto simp: pair_satisfied_def Let_def split: option.splits if_splits)

lemma odds_loop_exclude:
  "odds_loop lower tol snap True sig = (\<not> list_ex (pair_satisfied lower tol snap) sig)"
  by (induction sig) (auto simp: pair_satisfied_def Let_def split: option.splits if_splits)

lemma check_odds_match_normal:
  "check_odds_match lower tol mo sig False =
     (truthy mo \<and> signature_matches lower tol (dict_of mo) sig)"
  by (auto simp: check_odds_match_def truthy_def dict_of_def signature_matches_def
      odds_loop_normal split: option.splits)

lemma check_odds_match_exclude:
  "check_odds_match lower tol mo sig True =
     (truthy mo \<and> \<not> exclusion_triggers lower tol (dict_of mo) sig)"
  by (auto simp: check_odds_match_def truthy_def dict_of_def exclusion_triggers_def
      odds_loop_exclude split: option.splits)

lemma signature_matches_truthy:
  "sig \<noteq> [] \<Longrightarrow> signature_matches lower tol (dict_of mo) sig \<Longrightarrow> truthy mo"
  by (cases sig) (auto simp: signature_matches_def truthy_def dict_of_def pair_satisfied_def
      split: option.splits)

lemma present_truthy:
  "map_of (dict_of mo) k = Some v \<Longrightarrow> truthy mo"
  by (auto simp: dict_of_def truthy_def split: option.splits)

lemma exclusion_triggers_filter:
  "exclusion_triggers lower t snap
     (filter (\<lambda>p. map_of snap (convert_odds_key lower (fst p)) \<noteq> None) sig)
     = exclusion_triggers lower t snap sig"
  by (induction sig) (auto simp: exclusion_triggers_def pair_satisfied_def)

text \<open>
  What \<open>match_rule_to_match\<close> computes for any rule and fixture: the snapshot is
  present and non-empty, the primary signature matches, the secondary signature (if any)
  matches and the exclude signature (if any) does not trigger.
\<close>

lemma match_rule_to_match_iff:
  "match_rule_to_match lower e m r \<longleftrightarrow>
     truthy (opening_odds m)
     \<and> signature_matches lower (tolerance e) (snapshot_of m) (primary_odds r)
     \<and> (secondary_odds r = None
        \<or> signature_matches lower (tolerance e) (snapshot_of m) (dict_of (secondary_odds r)))
     \<and> (exclude_odds r = None
        \<or> \<not> exclusion_triggers lower (tolerance e) (snapshot_of m) (dict_of (exclude_odds r)))"
  by (auto simp: match_rule_to_match_def check_odds_match_normal check_odds_match_exclude
      snapshot_of_def truthy_def dict_of_def signature_matches_def exclusion_triggers_def
      split: option.splits)

lemma key_45: "convert_odds_key lower (asc ''4-5'') = asc ''oran_45''"
  by (simp add: convert_odds_key_def odds_key_mapping_def asc_def)

text \<open>
  Claim C1, as the code has it. For every odds snapshot (also a missing or empty one),
  every rule and every tolerance: the rule matches the fixture iff the snapshot is
  present and non-empty, all pairs of its primary signature are satisfied, it has no
  secondary signature or all pairs of that are satisfied, and it has no exclude signature
  or no pair of that is satisfied. A pair whose canonical key is in the snapshot with
  value \<open>v\<close> is satisfied iff the float difference of \<open>v\<close> and the required value is at
  most the tolerance in absolute value; a one-pair normal signature then passes exactly
  in that case and a one-pair exclude signature exactly in the other. At tolerance 0,
  the engine's default, that is equality of \<open>v\<close> and the required value. A pair whose
  key is absent is not satisfied: in a normal signature it fails the whole check, and
  the pairs of an exclude signature whose key is absent can be dropped without changing
  the check.
\<close>

theorem rule_matches_fixture:
  "(match_rule_to_match lower e m r \<longleftrightarrow>
      truthy (opening_odds m)
      \<and> signature_matches lower (tolerance e) (snapshot_of m) (primary_odds r)
      \<and> (secondary_odds r = None
         \<or> signature_matches lower (tolerance e) (snapshot_of m) (dict_of (secondary_odds r)))
      \<and> (exclude_odds r = None
         \<or> \<not> exclusion_triggers lower (tolerance e) (snapshot_of m) (dict_of (exclude_odds r))))
   \<and> (\<forall>sig. signature_matches lower (tolerance e) (snapshot_of m) sig
          \<longleftrightarrow> (\<forall>p \<in> set sig. pair_satisfied lower (tolerance e) (snapshot_of m) p))
   \<and> (\<forall>sig. exclusion_triggers lower (tolerance e) (snapshot_of m) sig
          \<longleftrightarrow> (\<exists>p \<in> set sig. pair_satisfied lower (tolerance e) (snapshot_of m) p))
   \<and> (\<forall>p v. map_of (snapshot_of m) (convert_odds_key lower (fst p)) = Some v \<longrightarrow>
         (pair_satisfied lower (tolerance e) (snapshot_of m) p
            \<longleftrightarrow> \<bar>float_sub v (snd p)\<bar> \<le> tolerance e)
         \<and> (check_odds_match lower (tolerance e) (opening_odds m) [p] False
            \<longleftrightarrow> \<bar>float_sub v (snd p)\<bar> \<le> tolerance e)
         \<and> (check_odds_match lower (tolerance e) (opening_odds m) [p] True
            \<longleftrightarrow> \<not> \<bar>float_sub v (snd p)\<bar> \<le> tolerance e)
         \<and> (tolerance e = 0 \<longrightarrow>
               (pair_satisfied lower (tolerance e) (snapshot_of m) p \<longleftrightarrow> v = snd p)))
   \<and> (\<forall>p. map_of (snapshot_of m) (convert_odds_key lower (fst p)) = None \<longrightarrow>
         \<not> pair_satisfied lower (tolerance e) (snapshot_of m) p)
   \<and> (\<forall>sig p. p \<in> set sig
           \<and> map_of (snapshot_of m) (convert_odds_key lower (fst p)) = None \<longrightarrow>
         \<not> check_odds_match lower (tolerance e) (opening_odds m) sig False)
   \<and> (\<forall>sig. check_odds_match lower (tolerance e) (opening_odds m) sig True
         = check_odds_match lower (tolerance e) (opening_odds m)
             (filter (\<lambda>p. map_of (snapshot_of m) (convert_odds_key lower (fst p)) \<noteq> None) sig)
             True)"
proof (intro conjI allI impI)
  show "match_rule_to_match lower e m r \<longleftrightarrow>
      truthy (opening_odds m)
      \<and> signature_matches lower (tolerance e) (snapshot_of m) (primary_odds r)
      \<and> (secondary_odds r = None
         \<or> signature_matches lower (tolerance e) (snapshot_of m) (dict_of (secondary_odds r)))
      \<and> (exclude_odds r = None
         \<or> \<not> exclusion_triggers lower (tolerance e) (snapshot_of m) (dict_of (exclude_odds r)))"
    by (rule match_rule_to_match_iff)
next
  fix sig :: "(pystr \<times> real) list"
  show "signature_matches lower (tolerance e) (snapshot_of m) sig
          \<longleftrightarrow> (\<forall>p \<in> set sig. pair_satisfied lower (tolerance e) (snapshot_of m) p)"
    by (simp add: signature_matches_def list_all_iff)
next
  fix sig :: "(pystr \<times> real) list"
  show "exclusion_triggers lower (tolerance e) (snapshot_of m) sig
          \<longleftrightarrow> (\<exists>p \<in> set sig. pair_satisfied lower (tolerance e) (snapshot_of m) p)"
    by (simp add: exclusion_triggers_def list_ex_iff)
next
  fix p :: "pystr \<times> real" and v :: real
  assume "map_of (snapshot_of m) (convert_odds_key lower (fst p)) = Some v"
  then show "pair_satisfied lower (tolerance e) (snapshot_of m) p
            \<longleftrightarrow> \<bar>float_sub v (snd p)\<bar> \<le> tolerance e"
    by (simp add: pair_satisfied_def)
next
  fix p :: "pystr \<times> real" and v :: real
  assume "map_of (snapshot_of m) (convert_odds_key lower (fst p)) = Some v"
  then show "check_odds_match lower (tolerance e) (opening_odds m) [p] False
                  \<longleftrightarrow> \<bar>float_sub v (snd p)\<bar> \<le> tolerance e"
    using present_truthy [of "opening_odds m"]
    by (auto simp: check_odds_match_normal signature_matches_def pair_satisfied_def snapshot_of_def)
next
  fix p :: "pystr \<times> real" and v :: real
  assume "map_of (snapshot_of m) (convert_odds_key lower (fst p)) = Some v"
  then show "check_odds_match lower (tolerance e) (opening_odds m) [p] True
                  \<longleftrightarrow> \<not> \<bar>float_sub v (snd p)\<bar> \<le> tolerance e"
    using present_truthy [of "opening_odds m"]
    by (auto simp: check_odds_match_exclude exclusion_triggers_def pair_satisfied_def snapshot_of_def)
next
  fix p :: "pystr \<times> real" and v :: real
  assume "map_of (snapshot_of m) (convert_odds_key lower (fst p)) = Some v"
    and "tolerance e = 0"
  then show "pair_satisfied lower (tolerance e) (snapshot_of m) p \<longleftrightarrow> v = snd p"
    by (simp add: pair_satisfied_def float_sub_eq_0_iff)
next
  fix p :: "pystr \<times> real"
  assume "map_of (snapshot_of m) (convert_odds_key lower (fst p)) = None"
  then show "\<not> pair_satisfied lower (tolerance e) (snapshot_of m) p"
    by (simp add: pair_satisfied_def)
next
  fix sig :: "(pystr \<times> real) list" and p :: "pystr \<times> real"
  assume "p \<in> set sig \<and> map_of (snapshot_of m) (convert_odds_key lower (fst p)) = None"
  then have "p \<in> set sig" and "\<not> pair_satisfied lower (tolerance e) (snapshot_of m) p"
    by (simp_all add: pair_satisfied_def)
  then have "\<not> signature_matches lower (tolerance e) (snapshot_of m) sig"
    by (auto simp: signature_matches_def list_all_iff)
  then show "\<not> check_odds_match lower (tolerance e) (opening_odds m) sig False"
    by (simp add: check_odds_match_normal snapshot_of_def)
next
  fix sig :: "(pystr \<times> real) list"
  show "check_odds_match lower (tolerance e) (opening_odds m) sig True
               = check_odds_match lower (tolerance e) (opening_odds m)
                   (filter (\<lambda>p. map_of (snapshot_of m) (convert_odds_key lower (fst p)) \<noteq> None) sig)
                   True"
    by (simp only: check_odds_match_exclude snapshot_of_def exclusion_triggers_filter)
qed

text \<open>
  Rule 30 (\<open>4-5\<close> at 2.33, tolerance 0) matches the fixture whose snapshot has
  \<open>oran_45 = 2.33\<close>, not the one with 2.34 and not a fixture without odds.
\<close>

theorem rule_matches_fixture_witness:
  "tolerance default_engine = 0
   \<and> map_of (snapshot_of fixture_233) (convert_odds_key ascii_lower (asc ''4-5'')) = Some 2.33
   \<and> pair_satisfied ascii_lower (tolerance default_engine) (snapshot_of fixture_233)
        (asc ''4-5'', 2.33)
   \<and> match_rule_to_match ascii_lower default_engine fixture_233 rule_30
   \<and> map_of (snapshot_of fixture_234) (convert_odds_key ascii_lower (asc ''4-5'')) = Some 2.34
   \<and> \<not> pair_satisfied ascii_lower (tolerance default_engine) (snapshot_of fixture_234)
        (asc ''4-5'', 2.33)
   \<and> \<not> match_rule_to_match ascii_lower default_engine fixture_234 rule_30
   \<and> \<not> match_rule_to_match ascii_lower default_engine (fixture_with_odds 3 None) rule_30"
proof -
  have t: "tolerance default_engine = 0" by (simp add: default_engine_def)
  have s3: "map_of (snapshot_of fixture_233) (convert_odds_key ascii_lower (asc ''4-5''))
      = Some 2.33"
    by (simp add: key_45 snapshot_of_def fixture_233_def fixture_with_odds_def dict_of_def)
  have s4: "map_of (snapshot_of fixture_234) (convert_odds_key ascii_lower (asc ''4-5''))
      = Some 2.34"
    by (simp add: key_45 snapshot_of_def fixture_234_def fixture_with_odds_def dict_of_def)
  have tr: "truthy (opening_odds fixture_233)" "truthy (opening_odds fixture_234)"
    "\<not> truthy (opening_odds (fixture_with_odds 3 None))"
    by (simp_all add: fixture_233_def fixture_234_def fixture_with_odds_def truthy_def)
  have r: "primary_odds rule_30 = [(asc ''4-5'', 2.33)]" "secondary_odds rule_30 = None"
    "exclude_odds rule_30 = None"
    by (simp_all add: rule_30_def)
  note a = rule_matches_fixture [of ascii_lower default_engine fixture_233 rule_30]
  note b = rule_matches_fixture [of ascii_lower default_engine fixture_234 rule_30]
  note c = rule_matches_fixture [of ascii_lower default_engine "fixture_with_odds 3 None" rule_30]
  have p3: "pair_satisfied ascii_lower (tolerance default_engine) (snapshot_of fixture_233)
        (asc ''4-5'', 2.33)"
    using a [THEN conjunct2, THEN conjunct2, THEN conjunct2, THEN conjunct1,
        rule_format, of "(asc ''4-5'', 2.33)" "2.33"] s3 t
    by (simp add: float_sub_eq_0_iff)
  have p4: "\<not> pair_satisfied ascii_lower (tolerance default_engine) (snapshot_of fixture_234)
        (asc ''4-5'', 2.33)"
    using b [THEN conjunct2, THEN conjunct2, THEN conjunct2, THEN conjunct1,
        rule_format, of "(asc ''4-5'', 2.33)" "2.34"] s4 t
    by (simp add: float_sub_eq_0_iff)
  have m3: "match_rule_to_match ascii_lower default_engine fixture_233 rule_30"
    using a [THEN conjunct1] a [THEN conjunct2, THEN conjunct1] p3 tr(1)
    by (simp add: r)
  have m4: "\<not> match_rule_to_match ascii_lower default_engine fixture_234 rule_30"
    using b [THEN conjunct1] b [THEN conjunct2, THEN conjunct1] p4
    by (simp add: r)
  have m0: "\<not> match_rule_to_match ascii_lower default_engine (fixture_with_odds 3 None) rule_30"
    using c [THEN conjunct1] tr(3) by simp
  show ?thesis
    by (intro conjI t s3 p3 m3 s4 p4 m4 m0)
qed

text \<open>
  The claim as stated fails in two ways. The rule with the empty primary signature, no
  secondary and no exclude signature satisfies the three conditions of the claim on any
  snapshot, and does not match a fixture whose snapshot is missing or empty. And the
  difference is a float difference: the floats 1.2 and 3.2 differ by more than 2, yet
  their float difference is 2, so at tolerance 2 the rule that requires 3.2 matches the
  snapshot with 1.2.
\<close>

lemma odds_1_2_value: "odds_1_2 = 5404319552844595 / 2 ^ 52"
  unfolding odds_1_2_def float_lit_def
  by (subst round_double_eq [where e = 0]) (simp_all add: pow2_def round_half_even_def Let_def)

lemma odds_3_2_value: "odds_3_2 = 7205759403792794 / 2 ^ 51"
  unfolding odds_3_2_def float_lit_def
  by (subst round_double_eq [where e = 1]) (simp_all add: pow2_def round_half_even_def Let_def)

lemma float_sub_1_2_3_2: "float_sub odds_1_2 odds_3_2 = - 2"
  unfolding float_sub_def odds_1_2_value odds_3_2_value
  by (subst round_double_eq [where e = 1]) (simp_all add: pow2_def round_half_even_def Let_def)

theorem rule_matches_fixture_counterexample:
  "primary_odds rule_empty_primary = []
   \<and> secondary_odds rule_empty_primary = None
   \<and> exclude_odds rule_empty_primary = None
   \<and> signature_matches ascii_lower (tolerance default_engine)
        (snapshot_of (fixture_with_odds 3 None)) (primary_odds rule_empty_primary)
   \<and> \<not> match_rule_to_match ascii_lower default_engine (fixture_with_odds 3 None)
         rule_empty_primary
   \<and> \<not> match_rule_to_match ascii_lower default_engine (fixture_with_odds 3 (Some []))
         rule_empty_primary
   \<and> primary_odds rule_3_2 = [(asc ''4-5'', odds_3_2)]
   \<and> map_of (snapshot_of fixture_1_2) (convert_odds_key ascii_lower (asc ''4-5''))
       = Some odds_1_2
   \<and> tolerance engine_tolerance_2 = 2
   \<and> 2 < \<bar>odds_1_2 - odds_3_2\<bar>
   \<and> match_rule_to_match ascii_lower engine_tolerance_2 fixture_1_2 rule_3_2"
proof -
  have e1: "primary_odds rule_empty_primary = []" "secondary_odds rule_empty_primary = None"
    "exclude_odds rule_empty_primary = None"
    by (simp_all add: rule_empty_primary_def)
  have e2: "signature_matches ascii_lower (tolerance default_engine)
        (snapshot_of (fixture_with_odds 3 None)) (primary_odds rule_empty_primary)"
    by (simp add: e1 signature_matches_def)
  have e3: "\<not> match_rule_to_match ascii_lower default_engine (fixture_with_odds 3 None)
         rule_empty_primary"
    "\<not> match_rule_to_match ascii_lower default_engine (fixture_with_odds 3 (Some []))
         rule_empty_primary"
    by (simp_all add: match_rule_to_match_iff fixture_with_odds_def truthy_def)
  have f1: "primary_odds rule_3_2 = [(asc ''4-5'', odds_3_2)]" "secondary_odds rule_3_2 = None"
    "exclude_odds rule_3_2 = None"
    by (simp_all add: rule_3_2_def)
  have f2: "map_of (snapshot_of fixture_1_2) (convert_odds_key ascii_lower (asc ''4-5''))
       = Some odds_1_2"
    by (simp add: key_45 snapshot_of_def fixture_1_2_def fixture_with_odds_def dict_of_def)
  have f3: "tolerance engine_tolerance_2 = 2" by (simp add: engine_tolerance_2_def)
  have f4: "2 < \<bar>odds_1_2 - odds_3_2\<bar>"
    by (simp add: odds_1_2_value odds_3_2_value)
  have f5: "truthy (opening_odds fixture_1_2)"
    by (simp add: fixture_1_2_def fixture_with_odds_def truthy_def)
  have f6: "match_rule_to_match ascii_lower engine_tolerance_2 fixture_1_2 rule_3_2"
    using f2 by (simp add: match_rule_to_match_iff f1 f3 f5 signature_matches_def
        pair_satisfied_def float_sub_1_2_3_2)
  show ?thesis
    by (intro conjI e1 e2 e3 f1(1) f2 f3 f4 f6)
qed

text \<open>
  Claim C10, as the code has it. The dataclass accepts a rule with an empty primary
  signature and nothing rejects it before evaluation. Such a rule matches a fixture iff
  the fixture's snapshot is present and non-empty and the secondary and exclude
  conditions hold; with neither of those it matches every fixture that has any odds.
\<close>

theorem empty_primary_rule_matches:
  assumes "primary_odds r = []"
  shows "match_rule_to_match lower e m r \<longleftrightarrow>
           truthy (opening_odds m)
           \<and> (secondary_odds r = None
              \<or> signature_matches lower (tolerance e) (snapshot_of m) (dict_of (secondary_odds r)))
           \<and> (exclude_odds r = None
              \<or> \<not> exclusion_triggers lower (tolerance e) (snapshot_of m) (dict_of (exclude_odds r)))"
  using assms by (simp add: match_rule_to_match_iff signature_matches_def)

theorem empty_primary_rule_matches_witness:
  "primary_odds rule_empty_primary = []
   \<and> match_rule_to_match ascii_lower default_engine fixture_234 rule_empty_primary
   \<and> \<not> match_rule_to_match ascii_lower default_engine (fixture_with_odds 3 (Some []))
         rule_empty_primary"
  using empty_primary_rule_matches [of rule_empty_primary ascii_lower default_engine fixture_234]
    empty_primary_rule_matches [of rule_empty_primary ascii_lower default_engine
      "fixture_with_odds 3 (Some [])"]
  by (simp add: rule_empty_primary_def fixture_234_def fixture_with_odds_def truthy_def)

text \<open>
  The claim as stated fails: the fixture below has a non-empty snapshot and the rule with
  the empty primary signature matches it.
\<close>

theorem empty_primary_rule_counterexample:
  "primary_odds rule_empty_primary = []
   \<and> truthy (opening_odds fixture_233)
   \<and> match_rule_to_match ascii_lower default_engine fixture_233 rule_empty_primary"
  by (simp add: rule_empty_primary_def fixture_233_def fixture_with_odds_def truthy_def
      match_rule_to_match_def check_odds_match_def)

section \<open>Confidence\<close>

lemma tiers_distinct:
  "tier_very_important \<noteq> tier_important" "tier_very_important \<noteq> tier_special"
  "tier_very_important \<noteq> tier_normal" "tier_important \<noteq> tier_special"
  "tier_important \<noteq> tier_normal" "tier_special \<noteq> tier_normal"
  by (simp_all add: tier_very_important_def tier_important_def tier_special_def
      tier_normal_def asc_def)

lemma importance_bonus_points:
  "(case map_of importance_bonus tier of Some b \<Rightarrow> b | None \<Rightarrow> 0) = importance_points tier"
  using tiers_distinct by (simp add: importance_bonus_def importance_points_def)

lemma calculate_confidence_eq:
  "calculate_confidence r p =
     min 100 (confidence_base r + importance_points (importance r)
              + rarity_points (length (predictions r))
              + (case predictions r of [] \<Rightarrow> 0 | p0 # _ \<Rightarrow> if p = p0 then 1 else 0))"
  by (simp add: calculate_confidence_def importance_bonus_points rarity_points_def Let_def
      split: list.splits)

text \<open>
  Claim C2. For every rule with \<open>confidence_base\<close> in \<open>[0, 100]\<close> and every prediction
  of the rule, the confidence is \<open>min(100, base + importance bonus + rarity bonus + 1 if
  the prediction equals the first-listed one)\<close>, with the importance bonuses 3, 2, 1, 0
  and the rarity bonuses 2 (at most two predictions), 1 (at most four), 0; the result
  lies in \<open>[0, 100]\<close>; and base 85, importance important, two predictions, first slot
  gives 90.
\<close>

theorem calculate_confidence_formula:
  assumes "0 \<le> confidence_base r" and "confidence_base r \<le> 100"
    and "p \<in> set (predictions r)"
  shows "calculate_confidence r p =
           min 100 (confidence_base r + importance_points (importance r)
                    + rarity_points (length (predictions r))
                    + (if p = hd (predictions r) then 1 else 0))
         \<and> importance_points tier_very_important = 3
         \<and> importance_points tier_important = 2
         \<and> importance_points tier_special = 1
         \<and> importance_points tier_normal = 0
         \<and> 0 \<le> calculate_confidence r p \<and> calculate_confidence r p \<le> 100
         \<and> (confidence_base r = 85 \<and> importance r = tier_important
              \<and> length (predictions r) = 2 \<and> p = hd (predictions r)
            \<longrightarrow> calculate_confidence r p = 90)"
proof -
  from assms(3) obtain p0 ps where ps: "predictions r = p0 # ps"
    by (cases "predictions r") auto
  have eq: "calculate_confidence r p =
           min 100 (confidence_base r + importance_points (importance r)
                    + rarity_points (length (predictions r))
                    + (if p = hd (predictions r) then 1 else 0))"
    by (simp add: calculate_confidence_eq ps)
  have pts: "importance_points tier_very_important = 3" "importance_points tier_important = 2"
    "importance_points tier_special = 1" "importance_points tier_normal = 0"
    using tiers_distinct by (simp_all add: importance_points_def)
  have nonneg: "0 \<le> importance_points (importance r)"
    "0 \<le> rarity_points (length (predictions r))"
    by (simp_all add: importance_points_def rarity_points_def)
  have range: "0 \<le> calculate_confidence r p \<and> calculate_confidence r p \<le> 100"
    using assms(1) nonneg unfolding eq by auto
  have ex: "confidence_base r = 85 \<and> importance r = tier_important
              \<and> length (predictions r) = 2 \<and> p = hd (predictions r)
            \<longrightarrow> calculate_confidence r p = 90"
    unfolding eq using pts by (simp add: rarity_points_def)
  from eq pts range ex show ?thesis by blast
qed

theorem calculate_confidence_formula_witness:
  "0 \<le> confidence_base rule_two_predictions \<and> confidence_base rule_two_predictions \<le> 100
   \<and> pred_ms_25_ust \<in> set (predictions rule_two_predictions)
   \<and> calculate_confidence rule_two_predictions pred_ms_25_ust = 90"
  using calculate_confidence_formula [of rule_two_predictions pred_ms_25_ust]
  by (simp add: rule_two_predictions_def rarity_points_def)

section \<open>Opportunities\<close>

lemma matched_rules_loop_filter:
  "matched_rules_loop lower e m rules =
     map (\<lambda>r. (r, predictions r)) (filter (match_rule_to_match lower e m) rules)"
  by (induction rules) simp_all

lemma rule_predictions_loop_map:
  "rule_predictions_loop r ps = map (scored_entry r) ps"
  by (induction ps) (simp_all add: scored_entry_def)

lemma all_predictions_loop_concat:
  "all_predictions_loop (map (\<lambda>r. (r, predictions r)) rs) =
     concat (map (\<lambda>r. map (scored_entry r) (predictions r)) rs)"
  by (induction rs) (simp_all add: rule_predictions_loop_map)

lemma sorted_all_predictions:
  "sort_reverse confidence (all_predictions_loop (matched_rules_loop lower e m (golden_rules e)))
     = ranked lower e m"
  by (simp add: sort_reverse_def ranked_def scored_pairs_def matching_rules_def
      matched_rules_loop_filter all_predictions_loop_concat)

lemma scored_pairs_nonempty:
  assumes "\<forall>r \<in> set (golden_rules e). predictions r \<noteq> []"
    and "matching_rules lower e m \<noteq> []"
  shows "scored_pairs lower e m \<noteq> []"
proof -
  from assms(2) obtain r rs where rs: "matching_rules lower e m = r # rs"
    by (cases "matching_rules lower e m") auto
  then have "r \<in> set (golden_rules e)"
    by (metis filter_is_subset list.set_intros(1) matching_rules_def subsetD)
  with assms(1) have "predictions r \<noteq> []" by blast
  with rs show ?thesis by (simp add: scored_pairs_def)
qed

lemma ranked_nonempty:
  assumes "\<forall>r \<in> set (golden_rules e). predictions r \<noteq> []"
    and "matching_rules lower e m \<noteq> []"
  shows "ranked lower e m \<noteq> []"
proof -
  have "length (ranked lower e m) = length (scored_pairs lower e m)"
    by (simp add: ranked_def)
  with scored_pairs_nonempty [OF assms] show ?thesis by auto
qed

lemma process_match_eq:
  assumes "\<forall>r \<in> set (golden_rules e). predictions r \<noteq> []"
  shows "process_match lower e m =
           Inr (if emits lower e m then Some (build_opportunity lower e m) else None)"
proof (cases "matching_rules lower e m = []")
  case True
  then show ?thesis
    by (simp add: process_match_def matched_rules_loop_filter emits_def matching_rules_def)
next
  case False
  from ranked_nonempty [OF assms False] obtain best alts where rk: "ranked lower e m = best # alts"
    by (cases "ranked lower e m") auto
  have len: "length (scored_pairs lower e m) = Suc (length alts)"
    using rk by (metis length_Cons length_sort ranked_def)
  have ne: "matched_rules_loop lower e m (golden_rules e) \<noteq> []"
    using False by (simp add: matched_rules_loop_filter matching_rules_def)
  have mr: "map (\<lambda>(r, _). (rule_id r, rule_name r)) (matched_rules_loop lower e m (golden_rules e))
            = map (\<lambda>r. (rule_id r, rule_name r)) (matching_rules lower e m)"
    by (simp add: matched_rules_loop_filter matching_rules_def comp_def)
  show ?thesis
    using False ne
    by (simp add: process_match_def Let_def sorted_all_predictions rk emits_def
        build_opportunity_def len mr)
qed

lemma process_matches_loop_eq:
  assumes "\<forall>r \<in> set (golden_rules e). predictions r \<noteq> []"
  shows "process_matches_loop lower e ms acc =
           Inr (acc @ map (build_opportunity lower e) (filter (emits lower e) ms))"
  by (induction ms arbitrary: acc) (simp_all add: process_match_eq [OF assms])

lemma opportunity_of_build: "opportunity_of lower e m (build_opportunity lower e m)"
  by (simp add: opportunity_of_def build_opportunity_def)

lemma ranking_of_ranked: "ranking_of (scored_pairs lower e m) (ranked lower e m)"
proof -
  let ?xs = "scored_pairs lower e m"
  have "sorted (map (\<lambda>x. - confidence x) (ranked lower e m))"
    by (simp add: ranked_def)
  then have s: "sorted_wrt (\<lambda>a b. confidence a \<ge> confidence b) (ranked lower e m)"
    by (simp add: sorted_map)
  have st: "filter (\<lambda>x. confidence x = k) (ranked lower e m) = filter (\<lambda>x. confidence x = k) ?xs" for k
    using sort_key_stable [of "\<lambda>x. - confidence x" "- k" ?xs]
    by (simp add: ranked_def)
  show ?thesis
    unfolding ranking_of_def
    using s st by (simp add: ranked_def list_all_iff)
qed

text \<open>
  What the processor does for a catalog whose rules each list at least one prediction,
  as the data model asks of a rule, for every fixture batch and every \<open>min_confidence\<close>:
  it returns, without error, one Opportunity for each fixture that has at least one
  matching rule and whose top score reaches \<open>min_confidence\<close>, in batch order, and none
  for the others. The entries of a fixture are every (rule, prediction) pair of the
  matching rules, scored; their ranking is descending by confidence, keeps every entry,
  and keeps entries of equal confidence in catalog order. The Opportunity's prediction
  and confidence are those of the first entry of the ranking and its alternatives are
  the whole rest of it. A fixture matching no rule yields no Opportunity.
\<close>

theorem process_matches_ranked:
  assumes "\<forall>r \<in> set (golden_rules e). predictions r \<noteq> []"
  shows "(\<exists>opps. process_matches lower e ms = Inr opps
            \<and> list_all2 (opportunity_of lower e) (filter (emits lower e) ms) opps)
         \<and> (\<forall>m. ranking_of (scored_pairs lower e m) (ranked lower e m))
         \<and> (\<forall>m. matching_rules lower e m = [] \<longrightarrow> \<not> emits lower e m)
         \<and> (\<forall>m. length (tl (ranked lower e m)) = length (scored_pairs lower e m) - 1)"
proof (intro conjI allI impI)
  have "process_matches lower e ms = Inr (map (build_opportunity lower e) (filter (emits lower e) ms))"
    by (simp add: process_matches_def process_matches_loop_eq [OF assms])
  moreover have "list_all2 (opportunity_of lower e) (filter (emits lower e) ms)
                   (map (build_opportunity lower e) (filter (emits lower e) ms))"
    by (simp add: list_all2_map2 list_all2_same opportunity_of_build)
  ultimately show "\<exists>opps. process_matches lower e ms = Inr opps
            \<and> list_all2 (opportunity_of lower e) (filter (emits lower e) ms) opps"
    by blast
next
  fix m show "ranking_of (scored_pairs lower e m) (ranked lower e m)"
    by (rule ranking_of_ranked)
next
  fix m assume "matching_rules lower e m = []"
  then show "\<not> emits lower e m" by (simp add: emits_def)
next
  fix m show "length (tl (ranked lower e m)) = length (scored_pairs lower e m) - 1"
    by (simp add: ranked_def)
qed

text \<open>
  Of the three rules only rule 30 matches the first fixture and none matches the second:
  one Opportunity, with the two other predictions of rule 30 as alternatives.
\<close>

lemma matching_233: "matching_rules ascii_lower default_engine fixture_233 = [rule_30]"
  by (simp add: matching_rules_def default_engine_def match_rule_to_match_iff
      rule_30_def rule_33_def rule_9_def fixture_233_def fixture_with_odds_def truthy_def
      snapshot_of_def dict_of_def signature_matches_def pair_satisfied_def key_45
      float_sub_eq_0_iff)

lemma matching_234: "matching_rules ascii_lower default_engine fixture_234 = []"
  by (simp add: matching_rules_def default_engine_def match_rule_to_match_iff
      rule_30_def rule_33_def rule_9_def fixture_234_def fixture_with_odds_def truthy_def
      snapshot_of_def dict_of_def signature_matches_def pair_satisfied_def key_45
      float_sub_eq_0_iff)

lemma preds_distinct:
  "pred_iy_15_ust \<noteq> pred_iy_05_ust" "pred_iy_ev_05_ust \<noteq> pred_iy_05_ust"
  by (simp_all add: pred_iy_15_ust_def pred_iy_05_ust_def pred_iy_ev_05_ust_def asc_def)

lemma ranked_233:
  "ranked ascii_lower default_engine fixture_233 =
     [\<lparr>bet = pred_iy_05_ust, confidence = 94, entry_rule_id = 30,
        entry_rule_name = asc ''4-5 gol 2.33''\<rparr>,
      \<lparr>bet = pred_iy_15_ust, confidence = 93, entry_rule_id = 30,
        entry_rule_name = asc ''4-5 gol 2.33''\<rparr>,
      \<lparr>bet = pred_iy_ev_05_ust, confidence = 93, entry_rule_id = 30,
        entry_rule_name = asc ''4-5 gol 2.33''\<rparr>]"
  using preds_distinct tiers_distinct
  by (simp add: ranked_def scored_pairs_def matching_233 scored_entry_def
      calculate_confidence_eq importance_points_def rarity_points_def rule_30_def)

theorem process_matches_ranked_witness:
  "list_all (\<lambda>r. predictions r \<noteq> []) (golden_rules default_engine)
   \<and> (\<exists>opp. process_matches ascii_lower default_engine [fixture_233, fixture_234] = Inr [opp]
         \<and> opp_match_id opp = 1
         \<and> prediction opp = pred_iy_05_ust
         \<and> opp_confidence opp = 94
         \<and> map bet (alternative_predictions opp) = [pred_iy_15_ust, pred_iy_ev_05_ust]
         \<and> map confidence (alternative_predictions opp) = [93, 93])"
proof -
  have inv: "\<forall>r \<in> set (golden_rules default_engine). predictions r \<noteq> []"
    by (simp add: default_engine_def rule_30_def rule_33_def rule_9_def)
  have mid: "match_id fixture_233 = 1"
    by (simp add: fixture_233_def fixture_with_odds_def)
  have mc: "min_confidence default_engine = 85"
    by (simp add: default_engine_def)
  have e1: "emits ascii_lower default_engine fixture_233"
    by (simp add: emits_def matching_233 ranked_233 mc)
  have e2: "\<not> emits ascii_lower default_engine fixture_234"
    by (simp add: emits_def matching_234)
  from process_matches_ranked [OF inv, of ascii_lower "[fixture_233, fixture_234]"]
  obtain opps where p: "process_matches ascii_lower default_engine [fixture_233, fixture_234] = Inr opps"
    and l: "list_all2 (opportunity_of ascii_lower default_engine)
              (filter (emits ascii_lower default_engine) [fixture_233, fixture_234]) opps"
    by blast
  from l e1 e2 obtain opp where o: "opps = [opp]"
    and oo: "opportunity_of ascii_lower default_engine fixture_233 opp"
    by (auto simp: list_all2_Cons1)
  from oo have "opp_match_id opp = 1 \<and> prediction opp = pred_iy_05_ust
         \<and> opp_confidence opp = 94
         \<and> map bet (alternative_predictions opp) = [pred_iy_15_ust, pred_iy_ev_05_ust]
         \<and> map confidence (alternative_predictions opp) = [93, 93]"
    by (simp add: opportunity_of_def ranked_233 mid)
  with p o inv show ?thesis by (auto simp: list_all_iff)
qed

text \<open>
  The result for one fixture, for any catalog: nothing when no rule matches, the
  \<open>IndexError\<close> of \<open>all_predictions[0]\<close> when rules match and none of them lists a
  prediction, and otherwise the Opportunity or nothing by the threshold. A batch fails
  with the error of its first fixture that fails, and the Opportunities collected before
  are lost with it.
\<close>

lemma process_match_cases:
  "process_match lower e m =
     (if matching_rules lower e m = [] then Inr None
      else if scored_pairs lower e m = [] then Inl IndexError
      else if min_confidence e \<le> confidence (hd (ranked lower e m))
           then Inr (Some (build_opportunity lower e m))
           else Inr None)"
proof (cases "matching_rules lower e m = []")
  case True
  then show ?thesis
    by (simp add: process_match_def matched_rules_loop_filter matching_rules_def)
next
  case False
  then have ne: "matched_rules_loop lower e m (golden_rules e) \<noteq> []"
    by (simp add: matched_rules_loop_filter matching_rules_def)
  have mr: "map (\<lambda>(r, _). (rule_id r, rule_name r)) (matched_rules_loop lower e m (golden_rules e))
            = map (\<lambda>r. (rule_id r, rule_name r)) (matching_rules lower e m)"
    by (simp add: matched_rules_loop_filter matching_rules_def comp_def)
  show ?thesis
  proof (cases "ranked lower e m")
    case Nil
    then have "scored_pairs lower e m = []"
      by (metis length_0_conv length_sort ranked_def)
    with False ne Nil show ?thesis
      by (simp add: process_match_def Let_def sorted_all_predictions)
  next
    case (Cons best alts)
    then have len: "length (scored_pairs lower e m) = Suc (length alts)"
      by (metis length_Cons length_sort ranked_def)
    then have "scored_pairs lower e m \<noteq> []" by auto
    with False ne Cons len show ?thesis
      by (simp add: process_match_def Let_def sorted_all_predictions build_opportunity_def mr)
  qed
qed

lemma process_matches_loop_error:
  assumes "process_match lower e m = Inl err"
    and "\<forall>x \<in> set before. \<exists>r. process_match lower e x = Inr r"
  shows "process_matches_loop lower e (before @ m # rest) acc = Inl err"
  using assms by (induction before arbitrary: acc) (auto split: option.splits)

text \<open>
  Claim C3. The claim is for every rule catalog and promises no error. The code takes
  \<open>all_predictions[0]\<close> without a test, so a fixture whose matching rules list no
  prediction raises \<open>IndexError\<close> out of \<open>process_matches\<close>. With the catalog of rule 30
  and a rule that lists no prediction, the first fixture alone yields its Opportunity;
  the second fixture matches only the rule without predictions, there is no entry and no
  top score, and the batch of both fails: the Opportunity of the first fixture is not
  returned.
\<close>

theorem process_matches_unguarded_index:
  "predictions rule_no_predictions = []
   \<and> matching_rules ascii_lower engine_no_predictions fixture_233 = [rule_30]
   \<and> matching_rules ascii_lower engine_no_predictions fixture_234 = [rule_no_predictions]
   \<and> scored_pairs ascii_lower engine_no_predictions fixture_234 = []
   \<and> process_matches ascii_lower engine_no_predictions [fixture_233]
       = Inr [build_opportunity ascii_lower engine_no_predictions fixture_233]
   \<and> prediction (build_opportunity ascii_lower engine_no_predictions fixture_233)
       = pred_iy_05_ust
   \<and> opp_confidence (build_opportunity ascii_lower engine_no_predictions fixture_233) = 94
   \<and> process_match ascii_lower engine_no_predictions fixture_234 = Inl IndexError
   \<and> process_matches ascii_lower engine_no_predictions [fixture_234] = Inl IndexError
   \<and> process_matches ascii_lower engine_no_predictions [fixture_233, fixture_234]
       = Inl IndexError"
proof -
  have np: "predictions rule_no_predictions = []"
    by (simp add: rule_no_predictions_def)
  have m3: "matching_rules ascii_lower engine_no_predictions fixture_233 = [rule_30]"
    by (simp add: matching_rules_def engine_no_predictions_def match_rule_to_match_iff
      rule_30_def rule_no_predictions_def fixture_233_def fixture_with_odds_def truthy_def
      snapshot_of_def dict_of_def signature_matches_def pair_satisfied_def key_45
      float_sub_eq_0_iff)
  have m4: "matching_rules ascii_lower engine_no_predictions fixture_234 = [rule_no_predictions]"
    by (simp add: matching_rules_def engine_no_predictions_def match_rule_to_match_iff
      rule_30_def rule_no_predictions_def fixture_234_def fixture_with_odds_def truthy_def
      snapshot_of_def dict_of_def signature_matches_def pair_satisfied_def key_45
      float_sub_eq_0_iff)
  have s4: "scored_pairs ascii_lower engine_no_predictions fixture_234 = []"
    by (simp add: scored_pairs_def m4 np)
  have r3: "ranked ascii_lower engine_no_predictions fixture_233 =
     [\<lparr>bet = pred_iy_05_ust, confidence = 94, entry_rule_id = 30,
        entry_rule_name = asc ''4-5 gol 2.33''\<rparr>,
      \<lparr>bet = pred_iy_15_ust, confidence = 93, entry_rule_id = 30,
        entry_rule_name = asc ''4-5 gol 2.33''\<rparr>,
      \<lparr>bet = pred_iy_ev_05_ust, confidence = 93, entry_rule_id = 30,
        entry_rule_name = asc ''4-5 gol 2.33''\<rparr>]"
    using preds_distinct tiers_distinct
    by (simp add: ranked_def scored_pairs_def m3 scored_entry_def
      calculate_confidence_eq importance_points_def rarity_points_def rule_30_def)
  have mc: "min_confidence engine_no_predictions = 85"
    by (simp add: engine_no_predictions_def)
  have s3: "scored_pairs ascii_lower engine_no_predictions fixture_233 \<noteq> []"
    by (simp add: scored_pairs_def m3 rule_30_def)
  have p3: "process_match ascii_lower engine_no_predictions fixture_233
      = Inr (Some (build_opportunity ascii_lower engine_no_predictions fixture_233))"
    by (simp add: process_match_cases m3 s3 r3 mc)
  have p4: "process_match ascii_lower engine_no_predictions fixture_234 = Inl IndexError"
    by (simp add: process_match_cases m4 s4)
  have a: "process_matches ascii_lower engine_no_predictions [fixture_233]
       = Inr [build_opportunity ascii_lower engine_no_predictions fixture_233]"
    by (simp add: process_matches_def p3)
  have b: "prediction (build_opportunity ascii_lower engine_no_predictions fixture_233)
       = pred_iy_05_ust"
    "opp_confidence (build_opportunity ascii_lower engine_no_predictions fixture_233) = 94"
    by (simp_all add: build_opportunity_def r3)
  have c: "process_matches ascii_lower engine_no_predictions [fixture_234] = Inl IndexError"
    by (simp add: process_matches_def p4)
  have d: "process_matches ascii_lower engine_no_predictions [fixture_233, fixture_234]
       = Inl IndexError"
    by (simp add: process_matches_def p3 p4)
  show ?thesis
    by (intro conjI np m3 m4 s4 a b p4 c d)
qed

section \<open>The run pipeline and the stored predictions\<close>

lemma complete_run_predictions:
  "predictions_table (complete_run env cur a b err db) = predictions_table db"
  by (simp add: complete_run_def split: option.splits)

lemma run_failed_predictions:
  "predictions_table (snd (run_failed env cur err db)) = predictions_table db"
  "fst (run_failed env cur err db) = RunFailure err"
  by (simp_all add: run_failed_def complete_run_predictions)

lemma concat_batches: "0 < n \<Longrightarrow> concat (batches n xs) = xs"
proof (induction n xs rule: batches.induct)
  case (1 n xs)
  show ?case
  proof (cases "xs = []")
    case True
    then show ?thesis by (subst batches.simps) simp
  next
    case False
    with 1 have "concat (batches n (drop n xs)) = drop n xs" by simp
    with False 1(2) show ?thesis
      by (subst batches.simps) simp
  qed
qed

lemma insert_batches_appends:
  "\<exists>new. predictions_table (snd (insert_batches env i bs c db)) = predictions_table db @ new
         \<and> set new \<subseteq> set (concat bs)"
proof (induction bs arbitrary: i c db)
  case Nil
  then show ?case by simp
next
  case (Cons b bs)
  show ?case
  proof (cases "insert_fails_at env = Some i")
    case True
    then show ?thesis by simp
  next
    case False
    from Cons [of "Suc i" "c + length b" "db\<lparr>predictions_table := predictions_table db @ b\<rparr>"]
    obtain new where
      "predictions_table (snd (insert_batches env (Suc i) bs (c + length b)
          (db\<lparr>predictions_table := predictions_table db @ b\<rparr>)))
        = (predictions_table db @ b) @ new" and "set new \<subseteq> set (concat bs)"
      by auto
    with False show ?thesis
      by (intro exI [of _ "b @ new"]) auto
  qed
qed

lemma save_predictions_appends:
  "\<exists>new. predictions_table (snd (save_predictions env cur opps db)) = predictions_table db @ new
         \<and> (\<forall>p \<in> set new. sp_run_id p = cur \<and> sp_status p = asc ''active'')"
proof (cases "opps = []")
  case True
  then show ?thesis by (simp add: save_predictions_def)
next
  case False
  let ?preds = "map (\<lambda>opp. \<lparr>sp_opportunity = opp, sp_run_id = cur,
                     sp_status = asc ''active'', sp_result = asc ''pending''\<rparr>) opps"
  from insert_batches_appends [of env 0 "batches 100 ?preds" 0 db]
  obtain new where n: "predictions_table (snd (insert_batches env 0 (batches 100 ?preds) 0 db))
      = predictions_table db @ new" and s: "set new \<subseteq> set (concat (batches 100 ?preds))"
    by blast
  from s have "set new \<subseteq> set ?preds" by (simp add: concat_batches)
  then have "\<forall>p \<in> set new. sp_run_id p = cur \<and> sp_status p = asc ''active''" by auto
  with n False show ?thesis by (auto simp: save_predictions_def Let_def)
qed

lemma run_after_create:
  assumes "\<not> create_run_fails env"
  shows "\<exists>new. predictions_table (snd (run lower e env cur db date_from date_to))
            = predictions_table (snd (archive_old_predictions env db date_from date_to)) @ new
          \<and> (\<forall>p \<in> set new. sp_run_id p = Some (length (runs_table db))
                              \<and> sp_status p = asc ''active'')
          \<and> ((\<exists>err. load_outcome env = Inl err) \<longrightarrow> new = [])"
proof -
  let ?rid = "length (runs_table db)"
  let ?db1 = "db\<lparr>runs_table := runs_table db @
                  [\<lparr>run_status = asc ''running'', run_matches_processed = 0,
                    run_opportunities_found = 0, run_error = None\<rparr>]\<rparr>"
  let ?db2 = "snd (archive_old_predictions env ?db1 date_from date_to)"
  have cr: "create_run env db = Inr (?rid, ?db1)"
    using assms by (simp add: create_run_def)
  have ar: "predictions_table ?db2
              = predictions_table (snd (archive_old_predictions env db date_from date_to))"
    by (simp add: archive_old_predictions_def)
  show ?thesis
  proof (cases "load_outcome env")
    case (Inl err)
    then show ?thesis
      using cr ar by (simp add: run_def Let_def run_failed_predictions)
  next
    case (Inr matches)
    show ?thesis
    proof (cases "matches = []")
      case True
      then show ?thesis
        using cr ar Inr by (simp add: run_def Let_def complete_run_predictions)
    next
      case False
      show ?thesis
      proof (cases "process_matches lower e matches")
        case (Inl err)
        then show ?thesis
          using cr ar Inr False by (simp add: run_def Let_def run_failed_predictions)
      next
        case opps: (Inr opportunities)
        from save_predictions_appends [of env "Some ?rid" opportunities ?db2]
        obtain new where n: "predictions_table (snd (save_predictions env (Some ?rid) opportunities ?db2))
            = predictions_table ?db2 @ new"
          and s: "\<forall>p \<in> set new. sp_run_id p = Some ?rid \<and> sp_status p = asc ''active''"
          by blast
        obtain res db3 where sv: "save_predictions env (Some ?rid) opportunities ?db2 = (res, db3)"
          by (cases "save_predictions env (Some ?rid) opportunities ?db2") auto
        have "predictions_table (snd (run lower e env cur db date_from date_to))
                = predictions_table db3"
          using cr Inr False opps sv
          by (cases res) (simp_all add: run_def Let_def run_failed_predictions complete_run_predictions)
        with n sv ar s Inr show ?thesis by auto
      qed
    qed
  qed
qed

text \<open>
  Claim C9, as the code has it. A run is not atomic. If creating the run record fails,
  the run reports failure and the stored predictions are untouched. Once the run record
  exists, the active predictions of the date range are deleted before the matches are
  loaded, and nothing restores them: unless the delete call itself fails, the store at
  the end of the run holds the old predictions that were not active in the range,
  followed only by rows this run inserted. In particular a run that fails while loading
  the matches reports failure and leaves exactly the old predictions outside the deleted
  set.
\<close>

theorem run_not_atomic:
  "(create_run_fails env \<longrightarrow>
      fst (run lower e env cur db date_from date_to) = RunFailure StorageError
      \<and> predictions_table (snd (run lower e env cur db date_from date_to)) = predictions_table db)
   \<and> (\<not> create_run_fails env \<and> \<not> delete_fails env \<longrightarrow>
      (\<exists>new. predictions_table (snd (run lower e env cur db date_from date_to))
               = filter (\<lambda>p. \<not> active_in_range date_from date_to p) (predictions_table db) @ new
             \<and> (\<forall>p \<in> set new. sp_run_id p = Some (length (runs_table db))
                                 \<and> sp_status p = asc ''active'')))
   \<and> (\<not> create_run_fails env \<and> \<not> delete_fails env \<and> load_outcome env = Inl err \<longrightarrow>
      fst (run lower e env cur db date_from date_to) = RunFailure err
      \<and> predictions_table (snd (run lower e env cur db date_from date_to))
          = filter (\<lambda>p. \<not> active_in_range date_from date_to p) (predictions_table db))"
proof (intro conjI impI)
  assume "create_run_fails env"
  then show "fst (run lower e env cur db date_from date_to) = RunFailure StorageError"
    by (simp add: run_def create_run_def run_failed_predictions)
next
  assume "create_run_fails env"
  then show "predictions_table (snd (run lower e env cur db date_from date_to)) = predictions_table db"
    by (simp add: run_def create_run_def run_failed_predictions)
next
  assume "\<not> create_run_fails env \<and> \<not> delete_fails env"
  then show "\<exists>new. predictions_table (snd (run lower e env cur db date_from date_to))
               = filter (\<lambda>p. \<not> active_in_range date_from date_to p) (predictions_table db) @ new
             \<and> (\<forall>p \<in> set new. sp_run_id p = Some (length (runs_table db))
                                 \<and> sp_status p = asc ''active'')"
    using run_after_create [of env lower e cur db date_from date_to]
    by (auto simp: archive_old_predictions_def)
next
  assume a: "\<not> create_run_fails env \<and> \<not> delete_fails env \<and> load_outcome env = Inl err"
  then show "fst (run lower e env cur db date_from date_to) = RunFailure err"
    by (simp add: run_def create_run_def Let_def run_failed_predictions)
next
  assume a: "\<not> create_run_fails env \<and> \<not> delete_fails env \<and> load_outcome env = Inl err"
  then show "predictions_table (snd (run lower e env cur db date_from date_to))
          = filter (\<lambda>p. \<not> active_in_range date_from date_to p) (predictions_table db)"
    using run_after_create [of env lower e cur db date_from date_to]
    by (auto simp: archive_old_predictions_def)
qed

lemma old_active: "active_in_range 1 10 old_prediction"
  by (simp add: active_in_range_def old_prediction_def)

theorem run_not_atomic_witness:
  "create_run_fails env_create_fails
   \<and> predictions_table
       (snd (run ascii_lower default_engine env_create_fails None store_with_old_prediction 1 10))
     = [old_prediction]
   \<and> \<not> create_run_fails env_load_fails \<and> \<not> delete_fails env_load_fails
   \<and> load_outcome env_load_fails = Inl StorageError
   \<and> predictions_table
       (snd (run ascii_lower default_engine env_load_fails None store_with_old_prediction 1 10))
     = []"
  using run_not_atomic [of env_create_fails ascii_lower default_engine None
          store_with_old_prediction 1 10 StorageError]
        run_not_atomic [of env_load_fails ascii_lower default_engine None
          store_with_old_prediction 1 10 StorageError]
        old_active
  by (simp add: env_create_fails_def env_load_fails_def store_with_old_prediction_def)

text \<open>
  The claim as stated fails: the run below fails while loading the matches, and the
  active prediction stored for day 5 of its range 1 to 10 is gone afterwards.
\<close>

theorem run_not_atomic_counterexample:
  "fst (run ascii_lower default_engine env_load_fails None store_with_old_prediction 1 10)
     = RunFailure StorageError
   \<and> filter (active_in_range 1 10) (predictions_table store_with_old_prediction)
     = [old_prediction]
   \<and> predictions_table
       (snd (run ascii_lower default_engine env_load_fails None store_with_old_prediction 1 10))
     = []"
  using old_active
  by (simp add: run_def create_run_def archive_old_predictions_def env_load_fails_def
      store_with_old_prediction_def run_failed_def complete_run_def Let_def)

section \<open>The sandbox recommendation\<close>

lemma predicted_results_append:
  "predicted_results (xs @ ys) = predicted_results xs @ predicted_results ys"
  by (simp add: predicted_results_def)

lemma predicted_results_replicate:
  "predicted_results (replicate n (Some d)) = (if predicted d then replicate n d else [])"
  by (induction n) (simp_all add: predicted_results_def)

lemma won_lost: "sim_outcome sim_won = asc ''won''" "sim_outcome sim_lost \<noteq> asc ''won''"
  "predicted sim_won" "predicted sim_lost"
  by (simp_all add: sim_won_def sim_lost_def asc_def)

lemma candidate_counts:
  "length (predicted_results candidate_30_of_40) = 40"
  "length (filter (\<lambda>r. sim_outcome r = asc ''won'') (predicted_results candidate_30_of_40)) = 30"
  by (simp_all add: candidate_30_of_40_def predicted_results_append predicted_results_replicate
      won_lost)

lemma baseline_counts:
  "length (predicted_results baseline_70_of_100) = 100"
  "length (filter (\<lambda>r. sim_outcome r = asc ''won'') (predicted_results baseline_70_of_100)) = 70"
  by (simp_all add: baseline_70_of_100_def predicted_results_append predicted_results_replicate
      won_lost)

lemma candidate_counts_110:
  "length (predicted_results candidate_108_of_110) = 110"
  "length (filter (\<lambda>r. sim_outcome r = asc ''won'') (predicted_results candidate_108_of_110)) = 108"
  by (simp_all add: candidate_108_of_110_def predicted_results_append
      predicted_results_replicate won_lost)

lemma baseline_counts_44:
  "length (predicted_results baseline_41_of_44) = 44"
  "length (filter (\<lambda>r. sim_outcome r = asc ''won'') (predicted_results baseline_41_of_44)) = 41"
  by (simp_all add: baseline_41_of_44_def predicted_results_append predicted_results_replicate
      won_lost)

text \<open>The fields of the metrics, read off \<open>_calculate_test_metrics\<close>.\<close>

lemma metrics_counts:
  "candidate_total (calculate_test_metrics norm_cdf cs bs) = length (predicted_results cs)"
  "candidate_wins (calculate_test_metrics norm_cdf cs bs) =
     length (filter (\<lambda>r. sim_outcome r = asc ''won'') (predicted_results cs))"
  "baseline_total (calculate_test_metrics norm_cdf cs bs) = length (predicted_results bs)"
  "baseline_wins (calculate_test_metrics norm_cdf cs bs) =
     length (filter (\<lambda>r. sim_outcome r = asc ''won'') (predicted_results bs))"
  by (simp_all add: calculate_test_metrics_def Let_def)

lemma metrics_recommendation:
  "tm_recommendation (calculate_test_metrics norm_cdf cs bs) =
     sandbox_generate_recommendation
       (candidate_total (calculate_test_metrics norm_cdf cs bs))
       (win_rate_delta (calculate_test_metrics norm_cdf cs bs))
       (tm_is_significant (calculate_test_metrics norm_cdf cs bs))
       (candidate_win_rate (calculate_test_metrics norm_cdf cs bs))"
  by (simp add: calculate_test_metrics_def Let_def)

lemma metrics_delta:
  "win_rate_delta (calculate_test_metrics norm_cdf cs bs) =
     float_sub (candidate_win_rate (calculate_test_metrics norm_cdf cs bs))
       (baseline_win_rate (calculate_test_metrics norm_cdf cs bs))"
  by (simp add: calculate_test_metrics_def Let_def)

lemma metrics_rate:
  "candidate_win_rate (calculate_test_metrics norm_cdf cs bs) =
     (if candidate_total (calculate_test_metrics norm_cdf cs bs) > 0
      then float_mul
             (float_div (real (candidate_wins (calculate_test_metrics norm_cdf cs bs)))
                (real (candidate_total (calculate_test_metrics norm_cdf cs bs)))) 100
      else 0)"
  by (simp add: calculate_test_metrics_def Let_def)

lemma metrics_baseline_rate:
  "baseline_win_rate (calculate_test_metrics norm_cdf cs bs) =
     (if baseline_total (calculate_test_metrics norm_cdf cs bs) > 0
      then float_mul
             (float_div (real (baseline_wins (calculate_test_metrics norm_cdf cs bs)))
                (real (baseline_total (calculate_test_metrics norm_cdf cs bs)))) 100
      else 0)"
  by (simp add: calculate_test_metrics_def Let_def)

lemma metrics_p_value:
  "tm_p_value (calculate_test_metrics norm_cdf cs bs) =
     (if 30 \<le> candidate_total (calculate_test_metrics norm_cdf cs bs)
         \<and> 30 \<le> baseline_total (calculate_test_metrics norm_cdf cs bs)
      then proportion_test norm_cdf
             (candidate_wins (calculate_test_metrics norm_cdf cs bs))
             (candidate_total (calculate_test_metrics norm_cdf cs bs))
             (float_div (real (baseline_wins (calculate_test_metrics norm_cdf cs bs)))
                (real (baseline_total (calculate_test_metrics norm_cdf cs bs))))
      else 1)"
  by (auto simp: calculate_test_metrics_def Let_def min_sample_size_def)

text \<open>
  A p-value is 1 or the result of a float multiplication, so its comparison with the
  float literal \<open>0.05\<close> is the comparison with the number 0.05.
\<close>

lemma proportion_test_less:
  "proportion_test norm_cdf s n e < float_lit (5 / 100) \<longleftrightarrow> proportion_test norm_cdf s n e < 5 / 100"
proof -
  have one: "(1::real) < float_lit (5 / 100) \<longleftrightarrow> (1::real) < 5 / 100"
    unfolding float_lit_005_less by simp
  show ?thesis
    unfolding proportion_test_def Let_def float_mul_def
    using one float_less_005 by (simp only: split: if_splits) auto
qed

lemma metrics_significant:
  "tm_is_significant (calculate_test_metrics norm_cdf cs bs)
     \<longleftrightarrow> tm_p_value (calculate_test_metrics norm_cdf cs bs) < 5 / 100"
proof -
  have "tm_is_significant (calculate_test_metrics norm_cdf cs bs)
     \<longleftrightarrow> (30 \<le> candidate_total (calculate_test_metrics norm_cdf cs bs)
         \<and> 30 \<le> baseline_total (calculate_test_metrics norm_cdf cs bs)
         \<and> tm_p_value (calculate_test_metrics norm_cdf cs bs) < float_lit (5 / 100))"
    by (auto simp: calculate_test_metrics_def Let_def min_sample_size_def)
  then show ?thesis
    by (subst (asm) metrics_p_value, subst metrics_p_value)
       (auto simp only: proportion_test_less split: if_splits)
qed

text \<open>The float results of the two examples.\<close>

lemma float_30_of_40: "float_mul (float_div 30 40) 100 = 75"
proof -
  have a: "float_div 30 40 = 3 / 4"
    unfolding float_div_def
    by (subst round_double_eq [where e = "-1"]) (simp_all add: pow2_def round_half_even_def Let_def)
  show ?thesis
    unfolding float_mul_def a
    by (subst round_double_eq [where e = 6]) (simp_all add: pow2_def round_half_even_def Let_def)
qed

lemma float_7_of_10: "round_double (7 / 10) = 6305039478318694 / 2 ^ 53"
  by (subst round_double_eq [where e = "-1"]) (simp_all add: pow2_def round_half_even_def Let_def)

lemma float_rate_70:
  assumes "x / y = 7 / 10"
  shows "float_mul (float_div x y) 100 = 70"
  unfolding float_div_def float_mul_def assms float_7_of_10
  by (subst round_double_eq [where e = 6]) (simp_all add: pow2_def round_half_even_def Let_def)

lemma float_75_minus_70: "float_sub 75 70 = 5"
  unfolding float_sub_def
  by (subst round_double_eq [where e = 2]) (simp_all add: pow2_def round_half_even_def Let_def)

lemma float_108_of_110: "float_mul (float_div 108 110) 100 = 6908931246534284 / 2 ^ 46"
proof -
  have a: "float_div 108 110 = 8843431995563883 / 2 ^ 53"
    unfolding float_div_def
    by (subst round_double_eq [where e = "-1"]) (simp_all add: pow2_def round_half_even_def Let_def)
  show ?thesis
    unfolding float_mul_def a
    by (subst round_double_eq [where e = 6]) (simp_all add: pow2_def round_half_even_def Let_def)
qed

lemma float_41_of_44:
  "float_div 41 44 = 8393072032826833 / 2 ^ 53"
  "float_mul (float_div 41 44) 100 = 6557087525645963 / 2 ^ 46"
proof -
  show a: "float_div 41 44 = 8393072032826833 / 2 ^ 53"
    unfolding float_div_def
    by (subst round_double_eq [where e = "-1"]) (simp_all add: pow2_def round_half_even_def Let_def)
  show "float_mul (float_div 41 44) 100 = 6557087525645963 / 2 ^ 46"
    unfolding float_mul_def a
    by (subst round_double_eq [where e = 6]) (simp_all add: pow2_def round_half_even_def Let_def)
qed

lemma float_delta_110_44:
  "float_sub (6908931246534284 / 2 ^ 46) (6557087525645963 / 2 ^ 46) = 351843720888321 / 2 ^ 46"
  unfolding float_sub_def
  by (subst round_double_eq [where e = 2]) (simp_all add: pow2_def round_half_even_def Let_def)

text \<open>
  With a constant in place of the distribution function the p-value of a test with a
  standard error other than 0 is \<open>2 * (1 - c)\<close>.
\<close>

lemma proportion_test_constant:
  assumes "0 < n" and "e \<noteq> 0" and "e \<noteq> 1"
  shows "proportion_test (\<lambda>z. c) s n e = float_mul 2 (float_sub 1 c)"
proof -
  have "float_sqrt (float_div (float_mul e (float_sub 1 e)) (real n)) \<noteq> 0"
    using assms
    by (simp add: float_sqrt_def float_div_def float_mul_def float_sub_def
        round_double_eq_0_iff)
  with assms(1) show ?thesis
    by (simp add: proportion_test_def Let_def)
qed

lemma p_value_cdf_one: "float_mul 2 (float_sub 1 1) = 0"
  by (simp add: float_mul_def float_sub_def round_double_def)

lemma p_value_cdf_half: "float_mul 2 (float_sub 1 (1 / 2)) = 1"
proof -
  have a: "float_sub 1 (1 / 2) = 1 / 2"
    unfolding float_sub_def
    by (subst round_double_eq [where e = "-1"]) (simp_all add: pow2_def round_half_even_def Let_def)
  show ?thesis
    unfolding float_mul_def a
    by (subst round_double_eq [where e = 0]) (simp_all add: pow2_def round_half_even_def Let_def)
qed

text \<open>
  Claim C4. \<open>_generate_recommendation\<close> is the decision table read in order, with
  strict comparisons. \<open>_calculate_test_metrics\<close> feeds it: the counts are those of the
  simulated predictions, the win rates are the float results of \<open>wins / total * 100\<close>,
  the delta is their float difference, the test is significant iff its p-value is below
  0.05 (the p-value is 1 unless both samples have 30 predictions), and the
  recommendation is the table applied to these: \<open>insufficient_data\<close> below 30 candidate
  predictions; otherwise \<open>reject\<close> when \<open>p \<ge> 0.05\<close>; otherwise \<open>approve\<close> when the delta
  is above 5 and the candidate rate above 75; otherwise \<open>needs_tuning\<close> when the delta
  is above 0 and the rate above 70; otherwise \<open>reject\<close>. With 40 candidate predictions,
  30 of them won, a baseline whose wins are 0.70 of its total and \<open>p < 0.05\<close>, the
  candidate rate is the float 75, the baseline rate the float 70 and the delta exactly
  5, so the third row does not fire and the recommendation is \<open>needs_tuning\<close>, as
  it is for \<open>_generate_recommendation(40, 5, True, 75)\<close>.
\<close>

theorem sandbox_recommendation_table:
  "(sample_size < 30 \<longrightarrow>
      sandbox_generate_recommendation sample_size d sig rate = InsufficientData)
   \<and> (30 \<le> sample_size \<and> \<not> sig \<longrightarrow>
      sandbox_generate_recommendation sample_size d sig rate = Reject)
   \<and> (30 \<le> sample_size \<and> sig \<and> d > 5 \<and> rate > 75 \<longrightarrow>
      sandbox_generate_recommendation sample_size d sig rate = Approve)
   \<and> (30 \<le> sample_size \<and> sig \<and> \<not> (d > 5 \<and> rate > 75) \<and> d > 0 \<and> rate > 70 \<longrightarrow>
      sandbox_generate_recommendation sample_size d sig rate = NeedsTuning)
   \<and> (30 \<le> sample_size \<and> sig \<and> \<not> (d > 5 \<and> rate > 75) \<and> \<not> (d > 0 \<and> rate > 70) \<longrightarrow>
      sandbox_generate_recommendation sample_size d sig rate = Reject)
   \<and> candidate_total (calculate_test_metrics norm_cdf cs bs) = length (predicted_results cs)
   \<and> candidate_wins (calculate_test_metrics norm_cdf cs bs) =
       length (filter (\<lambda>r. sim_outcome r = asc ''won'') (predicted_results cs))
   \<and> baseline_total (calculate_test_metrics norm_cdf cs bs) = length (predicted_results bs)
   \<and> baseline_wins (calculate_test_metrics norm_cdf cs bs) =
       length (filter (\<lambda>r. sim_outcome r = asc ''won'') (predicted_results bs))
   \<and> candidate_win_rate (calculate_test_metrics norm_cdf cs bs) =
       (if candidate_total (calculate_test_metrics norm_cdf cs bs) > 0
        then float_mul
               (float_div (real (candidate_wins (calculate_test_metrics norm_cdf cs bs)))
                  (real (candidate_total (calculate_test_metrics norm_cdf cs bs)))) 100
        else 0)
   \<and> baseline_win_rate (calculate_test_metrics norm_cdf cs bs) =
       (if baseline_total (calculate_test_metrics norm_cdf cs bs) > 0
        then float_mul
               (float_div (real (baseline_wins (calculate_test_metrics norm_cdf cs bs)))
                  (real (baseline_total (calculate_test_metrics norm_cdf cs bs)))) 100
        else 0)
   \<and> win_rate_delta (calculate_test_metrics norm_cdf cs bs) =
       float_sub (candidate_win_rate (calculate_test_metrics norm_cdf cs bs))
         (baseline_win_rate (calculate_test_metrics norm_cdf cs bs))
   \<and> tm_p_value (calculate_test_metrics norm_cdf cs bs) =
       (if 30 \<le> candidate_total (calculate_test_metrics norm_cdf cs bs)
           \<and> 30 \<le> baseline_total (calculate_test_metrics norm_cdf cs bs)
        then proportion_test norm_cdf
               (candidate_wins (calculate_test_metrics norm_cdf cs bs))
               (candidate_total (calculate_test_metrics norm_cdf cs bs))
               (float_div (real (baseline_wins (calculate_test_metrics norm_cdf cs bs)))
                  (real (baseline_total (calculate_test_metrics norm_cdf cs bs))))
        else 1)
   \<and> (tm_is_significant (calculate_test_metrics norm_cdf cs bs)
        \<longleftrightarrow> tm_p_value (calculate_test_metrics norm_cdf cs bs) < 5 / 100)
   \<and> (candidate_total (calculate_test_metrics norm_cdf cs bs) < 30 \<longrightarrow>
        tm_recommendation (calculate_test_metrics norm_cdf cs bs) = InsufficientData)
   \<and> (30 \<le> candidate_total (calculate_test_metrics norm_cdf cs bs)
        \<and> 5 / 100 \<le> tm_p_value (calculate_test_metrics norm_cdf cs bs) \<longrightarrow>
        tm_recommendation (calculate_test_metrics norm_cdf cs bs) = Reject)
   \<and> (30 \<le> candidate_total (calculate_test_metrics norm_cdf cs bs)
        \<and> tm_p_value (calculate_test_metrics norm_cdf cs bs) < 5 / 100
        \<and> win_rate_delta (calculate_test_metrics norm_cdf cs bs) > 5
        \<and> candidate_win_rate (calculate_test_metrics norm_cdf cs bs) > 75 \<longrightarrow>
        tm_recommendation (calculate_test_metrics norm_cdf cs bs) = Approve)
   \<and> (30 \<le> candidate_total (calculate_test_metrics norm_cdf cs bs)
        \<and> tm_p_value (calculate_test_metrics norm_cdf cs bs) < 5 / 100
        \<and> \<not> (win_rate_delta (calculate_test_metrics norm_cdf cs bs) > 5
              \<and> candidate_win_rate (calculate_test_metrics norm_cdf cs bs) > 75)
        \<and> win_rate_delta (calculate_test_metrics norm_cdf cs bs) > 0
        \<and> candidate_win_rate (calculate_test_metrics norm_cdf cs bs) > 70 \<longrightarrow>
        tm_recommendation (calculate_test_metrics norm_cdf cs bs) = NeedsTuning)
   \<and> (30 \<le> candidate_total (calculate_test_metrics norm_cdf cs bs)
        \<and> tm_p_value (calculate_test_metrics norm_cdf cs bs) < 5 / 100
        \<and> \<not> (win_rate_delta (calculate_test_metrics norm_cdf cs bs) > 5
              \<and> candidate_win_rate (calculate_test_metrics norm_cdf cs bs) > 75)
        \<and> \<not> (win_rate_delta (calculate_test_metrics norm_cdf cs bs) > 0
              \<and> candidate_win_rate (calculate_test_metrics norm_cdf cs bs) > 70) \<longrightarrow>
        tm_recommendation (calculate_test_metrics norm_cdf cs bs) = Reject)
   \<and> (candidate_total (calculate_test_metrics norm_cdf cs bs) = 40
        \<and> candidate_wins (calculate_test_metrics norm_cdf cs bs) = 30
        \<and> real (baseline_wins (calculate_test_metrics norm_cdf cs bs))
            / real (baseline_total (calculate_test_metrics norm_cdf cs bs)) = 7 / 10
        \<and> tm_p_value (calculate_test_metrics norm_cdf cs bs) < 5 / 100 \<longrightarrow>
        candidate_win_rate (calculate_test_metrics norm_cdf cs bs) = 75
        \<and> baseline_win_rate (calculate_test_metrics norm_cdf cs bs) = 70
        \<and> win_rate_delta (calculate_test_metrics norm_cdf cs bs) = 5
        \<and> tm_recommendation (calculate_test_metrics norm_cdf cs bs) = NeedsTuning)
   \<and> sandbox_generate_recommendation 40 5 True 75 = NeedsTuning"
proof -
  let ?m = "calculate_test_metrics norm_cdf cs bs"
  have table: "(sample_size < 30 \<longrightarrow>
      sandbox_generate_recommendation sample_size d sig rate = InsufficientData)
   \<and> (30 \<le> sample_size \<and> \<not> sig \<longrightarrow>
      sandbox_generate_recommendation sample_size d sig rate = Reject)
   \<and> (30 \<le> sample_size \<and> sig \<and> d > 5 \<and> rate > 75 \<longrightarrow>
      sandbox_generate_recommendation sample_size d sig rate = Approve)
   \<and> (30 \<le> sample_size \<and> sig \<and> \<not> (d > 5 \<and> rate > 75) \<and> d > 0 \<and> rate > 70 \<longrightarrow>
      sandbox_generate_recommendation sample_size d sig rate = NeedsTuning)
   \<and> (30 \<le> sample_size \<and> sig \<and> \<not> (d > 5 \<and> rate > 75) \<and> \<not> (d > 0 \<and> rate > 70) \<longrightarrow>
      sandbox_generate_recommendation sample_size d sig rate = Reject)"
    by (auto simp: sandbox_generate_recommendation_def min_sample_size_def)
  have sig: "tm_is_significant ?m \<longleftrightarrow> tm_p_value ?m < 5 / 100"
    by (rule metrics_significant)
  have rec: "tm_recommendation ?m =
      sandbox_generate_recommendation (candidate_total ?m) (win_rate_delta ?m)
        (tm_p_value ?m < 5 / 100) (candidate_win_rate ?m)"
    by (subst metrics_recommendation) (simp only: sig)
  have r1: "candidate_total ?m < 30 \<longrightarrow> tm_recommendation ?m = InsufficientData"
    by (simp add: rec sandbox_generate_recommendation_def min_sample_size_def)
  have r2: "30 \<le> candidate_total ?m \<and> 5 / 100 \<le> tm_p_value ?m \<longrightarrow>
        tm_recommendation ?m = Reject"
    by (auto simp: rec sandbox_generate_recommendation_def min_sample_size_def)
  have r3: "30 \<le> candidate_total ?m \<and> tm_p_value ?m < 5 / 100
        \<and> win_rate_delta ?m > 5 \<and> candidate_win_rate ?m > 75 \<longrightarrow>
        tm_recommendation ?m = Approve"
    by (auto simp: rec sandbox_generate_recommendation_def min_sample_size_def)
  have r4: "30 \<le> candidate_total ?m \<and> tm_p_value ?m < 5 / 100
        \<and> \<not> (win_rate_delta ?m > 5 \<and> candidate_win_rate ?m > 75)
        \<and> win_rate_delta ?m > 0 \<and> candidate_win_rate ?m > 70 \<longrightarrow>
        tm_recommendation ?m = NeedsTuning"
    by (auto simp: rec sandbox_generate_recommendation_def min_sample_size_def)
  have r5: "30 \<le> candidate_total ?m \<and> tm_p_value ?m < 5 / 100
        \<and> \<not> (win_rate_delta ?m > 5 \<and> candidate_win_rate ?m > 75)
        \<and> \<not> (win_rate_delta ?m > 0 \<and> candidate_win_rate ?m > 70) \<longrightarrow>
        tm_recommendation ?m = Reject"
    by (auto simp: rec sandbox_generate_recommendation_def min_sample_size_def)
  have ex: "candidate_total ?m = 40 \<and> candidate_wins ?m = 30
        \<and> real (baseline_wins ?m) / real (baseline_total ?m) = 7 / 10
        \<and> tm_p_value ?m < 5 / 100 \<longrightarrow>
        candidate_win_rate ?m = 75 \<and> baseline_win_rate ?m = 70
        \<and> win_rate_delta ?m = 5 \<and> tm_recommendation ?m = NeedsTuning"
  proof
    assume a: "candidate_total ?m = 40 \<and> candidate_wins ?m = 30
        \<and> real (baseline_wins ?m) / real (baseline_total ?m) = 7 / 10
        \<and> tm_p_value ?m < 5 / 100"
    then have ct: "candidate_total ?m = 40" and cw: "candidate_wins ?m = 30"
      and ratio: "real (baseline_wins ?m) / real (baseline_total ?m) = 7 / 10"
      and p: "tm_p_value ?m < 5 / 100"
      by blast+
    have r: "candidate_win_rate ?m = 75"
      by (subst metrics_rate) (simp add: ct cw float_30_of_40)
    have "baseline_total ?m \<noteq> 0"
    proof
      assume "baseline_total ?m = 0"
      with ratio show False by simp
    qed
    then have b: "baseline_win_rate ?m = 70"
      by (subst metrics_baseline_rate) (simp add: float_rate_70 [OF ratio])
    have dl: "win_rate_delta ?m = 5"
      by (subst metrics_delta) (simp only: r b float_75_minus_70)
    have "tm_recommendation ?m = NeedsTuning"
      using p by (simp add: rec r dl ct sandbox_generate_recommendation_def min_sample_size_def)
    with r b dl show "candidate_win_rate ?m = 75 \<and> baseline_win_rate ?m = 70
        \<and> win_rate_delta ?m = 5 \<and> tm_recommendation ?m = NeedsTuning"
      by simp
  qed
  have last: "sandbox_generate_recommendation 40 5 True 75 = NeedsTuning"
    by (simp add: sandbox_generate_recommendation_def min_sample_size_def)
  from table metrics_counts [of norm_cdf cs bs] metrics_rate [of norm_cdf cs bs]
    metrics_baseline_rate [of norm_cdf cs bs] metrics_delta [of norm_cdf cs bs]
    metrics_p_value [of norm_cdf cs bs] sig r1 r2 r3 r4 r5 ex last
  show ?thesis by blast
qed

text \<open>
  The boundary case, with a stand-in for the distribution function that makes the test
  significant: 30 of 40 against 70 of 100 has rate 75 and delta exactly 5, which is
  \<open>needs_tuning\<close>; with the stand-in that makes the test insignificant it is
  \<open>reject\<close>. 108 of 110 against 41 of 44 has the win rates 98.18181818181819 and
  93.18181818181817 as floats, and their float difference is above 5 although the two
  fractions differ by 5 percentage points exactly: the third row fires.
\<close>

lemma cdf_one_fun: "cdf_one = (\<lambda>z. 1)"
  by (simp add: fun_eq_iff cdf_one_def)

lemma cdf_half_fun: "cdf_half = (\<lambda>z. 1 / 2)"
  by (simp add: fun_eq_iff cdf_half_def)

lemma float_70_of_100: "float_div 70 100 = 6305039478318694 / 2 ^ 53"
  unfolding float_div_def
  by (subst round_double_eq [where e = "-1"]) (simp_all add: pow2_def round_half_even_def Let_def)

lemma p_value_30_of_40:
  "proportion_test cdf_one 30 40 (float_div 70 100) = 0"
  "proportion_test cdf_half 30 40 (float_div 70 100) = 1"
  unfolding cdf_one_fun cdf_half_fun
  by (subst proportion_test_constant; simp add: float_70_of_100 p_value_cdf_one p_value_cdf_half)+

lemma p_value_108_of_110:
  "proportion_test cdf_one 108 110 (float_div 41 44) = 0"
  unfolding cdf_one_fun
  by (subst proportion_test_constant; simp add: float_41_of_44 p_value_cdf_one)

theorem sandbox_recommendation_table_witness:
  "candidate_total (calculate_test_metrics cdf_one candidate_30_of_40 baseline_70_of_100) = 40
   \<and> candidate_wins (calculate_test_metrics cdf_one candidate_30_of_40 baseline_70_of_100) = 30
   \<and> real (baseline_wins (calculate_test_metrics cdf_one candidate_30_of_40 baseline_70_of_100))
       / real (baseline_total (calculate_test_metrics cdf_one candidate_30_of_40 baseline_70_of_100))
       = 7 / 10
   \<and> tm_p_value (calculate_test_metrics cdf_one candidate_30_of_40 baseline_70_of_100) < 5 / 100
   \<and> candidate_win_rate (calculate_test_metrics cdf_one candidate_30_of_40 baseline_70_of_100) = 75
   \<and> win_rate_delta (calculate_test_metrics cdf_one candidate_30_of_40 baseline_70_of_100) = 5
   \<and> tm_recommendation (calculate_test_metrics cdf_one candidate_30_of_40 baseline_70_of_100)
       = NeedsTuning
   \<and> tm_recommendation (calculate_test_metrics cdf_half candidate_30_of_40 baseline_70_of_100)
       = Reject
   \<and> win_rate_delta (calculate_test_metrics cdf_one candidate_108_of_110 baseline_41_of_44) > 5
   \<and> tm_recommendation (calculate_test_metrics cdf_one candidate_108_of_110 baseline_41_of_44)
       = Approve
   \<and> tm_recommendation (calculate_test_metrics cdf_one candidate_30_of_40 candidate_30_of_40)
       = Reject
   \<and> tm_recommendation (calculate_test_metrics cdf_one baseline_70_of_100 []) = Reject
   \<and> tm_recommendation (calculate_test_metrics cdf_one [] baseline_70_of_100) = InsufficientData
   \<and> sandbox_generate_recommendation 29 5 True 75 = InsufficientData
   \<and> sandbox_generate_recommendation 40 5 False 75 = Reject
   \<and> sandbox_generate_recommendation 40 6 True 76 = Approve
   \<and> sandbox_generate_recommendation 40 5 True 75 = NeedsTuning
   \<and> sandbox_generate_recommendation 40 0 True 75 = Reject"
proof -
  let ?a = "calculate_test_metrics cdf_one candidate_30_of_40 baseline_70_of_100"
  let ?b = "calculate_test_metrics cdf_half candidate_30_of_40 baseline_70_of_100"
  let ?c = "calculate_test_metrics cdf_one candidate_108_of_110 baseline_41_of_44"
  let ?d = "calculate_test_metrics cdf_one candidate_30_of_40 candidate_30_of_40"
  let ?e = "calculate_test_metrics cdf_one baseline_70_of_100 []"
  let ?f = "calculate_test_metrics cdf_one [] baseline_70_of_100"
  have a1: "candidate_total ?a = 40" "candidate_wins ?a = 30"
    "baseline_total ?a = 100" "baseline_wins ?a = 70"
    by (simp_all add: metrics_counts candidate_counts baseline_counts)
  have a2: "real (baseline_wins ?a) / real (baseline_total ?a) = 7 / 10"
    by (simp add: a1)
  have "tm_p_value ?a = 0"
    by (subst metrics_p_value) (simp add: a1 p_value_30_of_40)
  then have a3: "tm_p_value ?a < 5 / 100" by simp
  have "candidate_total ?a = 40 \<and> candidate_wins ?a = 30
        \<and> real (baseline_wins ?a) / real (baseline_total ?a) = 7 / 10
        \<and> tm_p_value ?a < 5 / 100 \<longrightarrow>
        candidate_win_rate ?a = 75 \<and> baseline_win_rate ?a = 70
        \<and> win_rate_delta ?a = 5 \<and> tm_recommendation ?a = NeedsTuning"
    using sandbox_recommendation_table [of 29 5 True 75 cdf_one candidate_30_of_40 baseline_70_of_100]
    by (elim conjE) assumption
  with a1(1,2) a2 a3 have a4: "candidate_win_rate ?a = 75" "win_rate_delta ?a = 5"
    "tm_recommendation ?a = NeedsTuning"
    by simp_all
  have b1: "candidate_total ?b = 40" "candidate_wins ?b = 30"
    "baseline_total ?b = 100" "baseline_wins ?b = 70"
    by (simp_all add: metrics_counts candidate_counts baseline_counts)
  have "tm_p_value ?b = 1"
    by (subst metrics_p_value) (simp add: b1 p_value_30_of_40)
  then have b2: "5 / 100 \<le> tm_p_value ?b" by simp
  have "30 \<le> candidate_total ?b \<and> 5 / 100 \<le> tm_p_value ?b \<longrightarrow>
        tm_recommendation ?b = Reject"
    using sandbox_recommendation_table [of 40 5 False 75 cdf_half candidate_30_of_40 baseline_70_of_100]
    by (elim conjE) assumption
  with b1(1) b2 have b3: "tm_recommendation ?b = Reject" by simp
  have c1: "candidate_total ?c = 110" "candidate_wins ?c = 108"
    "baseline_total ?c = 44" "baseline_wins ?c = 41"
    by (simp_all add: metrics_counts candidate_counts_110 baseline_counts_44)
  have "tm_p_value ?c = 0"
    by (subst metrics_p_value) (simp add: c1 p_value_108_of_110)
  then have c2: "tm_p_value ?c < 5 / 100" by simp
  have c3: "candidate_win_rate ?c = 6908931246534284 / 2 ^ 46"
    by (subst metrics_rate) (simp add: c1 float_108_of_110)
  have c4: "baseline_win_rate ?c = 6557087525645963 / 2 ^ 46"
    by (subst metrics_baseline_rate) (simp add: c1 float_41_of_44(2))
  have c5: "win_rate_delta ?c = 351843720888321 / 2 ^ 46"
    by (subst metrics_delta) (simp only: c3 c4 float_delta_110_44)
  have c6: "win_rate_delta ?c > 5" by (simp add: c5)
  have c7: "candidate_win_rate ?c > 75" by (simp add: c3)
  have "30 \<le> candidate_total ?c \<and> tm_p_value ?c < 5 / 100
        \<and> win_rate_delta ?c > 5 \<and> candidate_win_rate ?c > 75 \<longrightarrow>
        tm_recommendation ?c = Approve"
    using sandbox_recommendation_table [of 40 6 True 76 cdf_one candidate_108_of_110 baseline_41_of_44]
    by (elim conjE) assumption
  with c1(1) c2 c6 c7 have c8: "tm_recommendation ?c = Approve" by simp
  have d1: "candidate_total ?d = 40" "candidate_wins ?d = 30"
    "baseline_total ?d = 40" "baseline_wins ?d = 30"
    by (simp_all add: metrics_counts candidate_counts)
  have d2: "candidate_win_rate ?d = 75"
    by (subst metrics_rate) (simp add: d1 float_30_of_40)
  have d3: "baseline_win_rate ?d = 75"
    by (subst metrics_baseline_rate) (simp add: d1 float_30_of_40)
  have "float_sub 75 75 = 0" by (simp add: float_sub_def round_double_def)
  then have d4: "win_rate_delta ?d = 0"
    by (subst metrics_delta) (simp only: d2 d3)
  have d5: "30 \<le> candidate_total ?d \<and> 5 / 100 \<le> tm_p_value ?d \<longrightarrow>
        tm_recommendation ?d = Reject"
    using sandbox_recommendation_table [of 40 5 True 75 cdf_one candidate_30_of_40 candidate_30_of_40]
    by (elim conjE) assumption
  have d6: "30 \<le> candidate_total ?d \<and> tm_p_value ?d < 5 / 100
        \<and> \<not> (win_rate_delta ?d > 5 \<and> candidate_win_rate ?d > 75)
        \<and> \<not> (win_rate_delta ?d > 0 \<and> candidate_win_rate ?d > 70) \<longrightarrow>
        tm_recommendation ?d = Reject"
    using sandbox_recommendation_table [of 40 5 True 75 cdf_one candidate_30_of_40 candidate_30_of_40]
    by (elim conjE) assumption
  have d7: "tm_recommendation ?d = Reject"
  proof (cases "tm_p_value ?d < 5 / 100")
    case True
    with d6 d1(1) d2 d4 show ?thesis by simp
  next
    case False
    with d5 d1(1) show ?thesis by simp
  qed
  have nil: "predicted_results [] = []" by (simp add: predicted_results_def)
  have e1: "candidate_total ?e = 100" "baseline_total ?e = 0"
    by (simp_all add: metrics_counts baseline_counts nil)
  have "tm_p_value ?e = 1"
    by (subst metrics_p_value) (simp add: e1)
  then have e2: "5 / 100 \<le> tm_p_value ?e" by simp
  have "30 \<le> candidate_total ?e \<and> 5 / 100 \<le> tm_p_value ?e \<longrightarrow>
        tm_recommendation ?e = Reject"
    using sandbox_recommendation_table [of 40 0 True 75 cdf_one baseline_70_of_100 "[]"]
    by (elim conjE) assumption
  with e1(1) e2 have e3: "tm_recommendation ?e = Reject" by simp
  have f1: "candidate_total ?f = 0"
    by (simp add: metrics_counts nil)
  have "candidate_total ?f < 30 \<longrightarrow> tm_recommendation ?f = InsufficientData"
    using sandbox_recommendation_table [of 40 0 True 75 cdf_one "[]" baseline_70_of_100]
    by (elim conjE) assumption
  with f1 have f2: "tm_recommendation ?f = InsufficientData" by simp
  have g1: "sandbox_generate_recommendation 29 5 True 75 = InsufficientData"
    using sandbox_recommendation_table [of 29 5 True 75 cdf_one "[]" "[]", THEN conjunct1]
    by simp
  have g2: "sandbox_generate_recommendation 40 5 False 75 = Reject"
    using sandbox_recommendation_table [of 40 5 False 75 cdf_one "[]" "[]",
        THEN conjunct2, THEN conjunct1]
    by simp
  have g3: "sandbox_generate_recommendation 40 6 True 76 = Approve"
    using sandbox_recommendation_table [of 40 6 True 76 cdf_one "[]" "[]",
        THEN conjunct2, THEN conjunct2, THEN conjunct1]
    by simp
  have g4: "sandbox_generate_recommendation 40 5 True 75 = NeedsTuning"
    using sandbox_recommendation_table [of 40 5 True 75 cdf_one "[]" "[]",
        THEN conjunct2, THEN conjunct2, THEN conjunct2, THEN conjunct1]
    by simp
  have g5: "sandbox_generate_recommendation 40 0 True 75 = Reject"
    using sandbox_recommendation_table [of 40 0 True 75 cdf_one "[]" "[]",
        THEN conjunct2, THEN conjunct2, THEN conjunct2, THEN conjunct2, THEN conjunct1]
    by simp
  show ?thesis
    by (intro conjI a1 a2 a3 a4 b3 c6 c8 d7 e3 f2 g1 g2 g3 g4 g5)
qed

section \<open>Degradation advisories\<close>

lemma abs_py_int: "\<bar>py_int x\<bar> = \<lfloor>\<bar>x\<bar>\<rfloor>"
proof (cases "x < 0")
  case True
  then have "\<lceil>x\<rceil> \<le> 0" by (simp add: ceiling_le_zero)
  moreover have "\<lfloor>- x\<rfloor> = - \<lceil>x\<rceil>" by (simp add: ceiling_def)
  ultimately show ?thesis using True by (simp add: py_int_def)
next
  case False
  then show ?thesis by (simp add: py_int_def)
qed

lemma degradation_loop_filter:
  "degradation_loop perfs =
     map degradation_suggestion (filter (\<lambda>p. is_significant p \<and> delta p < -5) perfs)"
  by (induction perfs) simp_all

text \<open>
  The query returns one row for each rule of the catalog that has enough graded
  predictions in the period, so no row is skipped by the test \<open>total == 0\<close>.
\<close>

lemma performance_query_total:
  assumes "row \<in> set (performance_query period_start n db)"
  shows "n \<le> q_total_predictions row" and "q_total_predictions row \<noteq> 0"
  using assms by (auto simp: performance_query_def Let_def split: if_splits)

lemma performances_loop_map:
  assumes "\<forall>row \<in> set rows. q_total_predictions row \<noteq> 0"
  shows "performances_loop norm_cdf rows = map (rule_performance norm_cdf) rows"
  using assms by (induction rows) simp_all

lemma analyze_rule_performance_eq:
  "analyze_rule_performance norm_cdf period_start db =
     (if execute_raw_fails db then Inl StorageError
      else Inr (map (rule_performance norm_cdf) (performance_query period_start 30 db)))"
  using performance_query_total(2) [of _ period_start 30 db]
  by (simp add: analyze_rule_performance_def execute_raw_def learning_min_sample_size_def
      performances_loop_map)

lemma rule_performance_significant:
  "is_significant (rule_performance norm_cdf row) \<longleftrightarrow>
     proportion_test norm_cdf (q_won_count row) (q_total_predictions row)
       (float_div (baseline_of row) 100) < 5 / 100"
  by (simp only: rule_performance_def Let_def RulePerformance.simps significance_threshold_def
      proportion_test_less)

lemma rule_performance_delta:
  "delta (rule_performance norm_cdf row) =
     py_round 2
       (float_sub
          (float_mul (float_div (real (q_won_count row)) (real (q_total_predictions row))) 100)
          (baseline_of row))"
  by (simp add: rule_performance_def Let_def)

text \<open>
  Claim C7, as the code has it. The detector only reads: the database after the call is
  the database before it, catalog included, and a failing query is the only error. It
  analyses the rules that have at least 30 graded predictions in the period. For such a
  rule the test is significant iff the p-value of the proportion test of its counts
  against its baseline is below 0.05, and the delta of the record is the float
  difference of the success rate and the baseline rounded to two decimals. Exactly the
  analysed rules whose test is significant and whose rounded delta is below -5 get an
  advisory, in order. Its severity is high below -10, medium below -7, otherwise low.
  The suggested adjustment of the confidence base is \<open>abs(int(delta * 0.8))\<close>, the float
  product truncated toward zero, not its rounding. Below -10 the recommendation is to
  disable the rule or to reduce the base by \<open>\<bar>delta\<bar>\<close> truncated at once, and the
  advisory requires action.
\<close>

theorem degradation_advisories:
  "snd (detect_rule_degradation norm_cdf period_start db) = db
   \<and> (execute_raw_fails db \<longrightarrow>
        fst (detect_rule_degradation norm_cdf period_start db) = Inl StorageError)
   \<and> (\<not> execute_raw_fails db \<longrightarrow>
        fst (detect_rule_degradation norm_cdf period_start db) =
          Inr (map degradation_suggestion
                 (filter (\<lambda>perf. is_significant perf \<and> delta perf < -5)
                    (map (rule_performance norm_cdf) (performance_query period_start 30 db)))))
   \<and> (\<forall>row \<in> set (performance_query period_start 30 db). 30 \<le> q_total_predictions row)
   \<and> (is_significant (rule_performance norm_cdf row) \<longleftrightarrow>
        proportion_test norm_cdf (q_won_count row) (q_total_predictions row)
          (float_div (baseline_of row) 100) < 5 / 100)
   \<and> delta (rule_performance norm_cdf row) =
        py_round 2
          (float_sub
             (float_mul (float_div (real (q_won_count row)) (real (q_total_predictions row))) 100)
             (baseline_of row))
   \<and> sug_rule_id (degradation_suggestion perf) = perf_rule_id perf
   \<and> sug_severity (degradation_suggestion perf) =
       (if delta perf < -10 then High else if delta perf < -7 then Medium else Low)
   \<and> lower_confidence_base_by (degradation_suggestion perf) =
       \<lfloor>\<bar>float_mul (delta perf) (float_lit (8 / 10))\<bar>\<rfloor>
   \<and> sug_recommendation (degradation_suggestion perf) =
       (if delta perf < -10 then DisableOrReduceImmediately \<lfloor>\<bar>delta perf\<bar>\<rfloor>
        else if delta perf < -7
             then ConsiderReducing \<lfloor>\<bar>float_mul (delta perf) (float_lit (8 / 10))\<bar>\<rfloor>
        else MonitorClosely)
   \<and> action_required (degradation_suggestion perf) = (delta perf < -10)"
proof -
  have s: "snd (detect_rule_degradation norm_cdf period_start db) = db"
    by (simp add: detect_rule_degradation_def split: sum.splits)
  have f: "execute_raw_fails db \<longrightarrow>
        fst (detect_rule_degradation norm_cdf period_start db) = Inl StorageError"
    by (simp add: detect_rule_degradation_def analyze_rule_performance_eq)
  have g: "\<not> execute_raw_fails db \<longrightarrow>
        fst (detect_rule_degradation norm_cdf period_start db) =
          Inr (map degradation_suggestion
                 (filter (\<lambda>perf. is_significant perf \<and> delta perf < -5)
                    (map (rule_performance norm_cdf) (performance_query period_start 30 db))))"
    by (simp add: detect_rule_degradation_def analyze_rule_performance_eq
        degradation_loop_filter)
  have q: "\<forall>row \<in> set (performance_query period_start 30 db). 30 \<le> q_total_predictions row"
    using performance_query_total(1) by blast
  have i: "sug_rule_id (degradation_suggestion perf) = perf_rule_id perf"
    by (simp add: degradation_suggestion_def Let_def)
  have sev: "sug_severity (degradation_suggestion perf) =
       (if delta perf < -10 then High else if delta perf < -7 then Medium else Low)"
    by (simp add: degradation_suggestion_def Let_def calculate_severity_def)
  have low: "lower_confidence_base_by (degradation_suggestion perf) =
       \<lfloor>\<bar>float_mul (delta perf) (float_lit (8 / 10))\<bar>\<rfloor>"
    by (simp only: degradation_suggestion_def Let_def Suggestion.simps abs_py_int)
  have rec: "sug_recommendation (degradation_suggestion perf) =
       (if delta perf < -10 then DisableOrReduceImmediately \<lfloor>\<bar>delta perf\<bar>\<rfloor>
        else if delta perf < -7
             then ConsiderReducing \<lfloor>\<bar>float_mul (delta perf) (float_lit (8 / 10))\<bar>\<rfloor>
        else MonitorClosely)"
    by (simp only: degradation_suggestion_def Let_def Suggestion.simps
        learning_generate_recommendation_def abs_py_int)
  have act: "action_required (degradation_suggestion perf) = (delta perf < -10)"
    by (simp add: degradation_suggestion_def Let_def calculate_severity_def)
  from s f g q rule_performance_significant [of norm_cdf row]
    rule_performance_delta [of norm_cdf row] i sev low rec act
  show ?thesis by blast
qed

text \<open>The float results of the example database.\<close>

lemma float_lit_08: "float_lit (8 / 10) = 7205759403792794 / 2 ^ 53"
  unfolding float_lit_def
  by (subst round_double_eq [where e = "-1"]) (simp_all add: pow2_def round_half_even_def Let_def)

lemma adjustment_minus_6: "\<bar>py_int (float_mul (- 6) (float_lit (8 / 10)))\<bar> = 4"
proof -
  have "float_mul (- 6) (float_lit (8 / 10)) = - 5404319552844596 / 2 ^ 50"
    unfolding float_mul_def float_lit_08
    by (subst round_double_eq [where e = 2]) (simp_all add: pow2_def round_half_even_def Let_def)
  then show ?thesis by (simp add: py_int_def)
qed

lemma adjustment_minus_12: "\<bar>py_int (float_mul (- 12) (float_lit (8 / 10)))\<bar> = 9"
proof -
  have "float_mul (- 12) (float_lit (8 / 10)) = - 5404319552844596 / 2 ^ 49"
    unfolding float_mul_def float_lit_08
    by (subst round_double_eq [where e = 3]) (simp_all add: pow2_def round_half_even_def Let_def)
  then show ?thesis by (simp add: py_int_def)
qed

lemma float_80_of_100: "float_div 80 100 = 7205759403792794 / 2 ^ 53"
  unfolding float_div_def
  by (subst round_double_eq [where e = "-1"]) (simp_all add: pow2_def round_half_even_def Let_def)

lemma baseline_80_004_value: "baseline_80_004 = 5629781009189831 / 2 ^ 46"
  unfolding baseline_80_004_def float_lit_def
  by (subst round_double_eq [where e = 6]) (simp_all add: pow2_def round_half_even_def Let_def)

lemma float_80_004_of_100: "float_div baseline_80_004 100 = 7206119691762984 / 2 ^ 53"
  unfolding float_div_def baseline_80_004_value
  by (subst round_double_eq [where e = "-1"]) (simp_all add: pow2_def round_half_even_def Let_def)

lemma float_rate_296: "float_mul (float_div 296 400) 100 = 74"
proof -
  have a: "float_div 296 400 = 6665327448508334 / 2 ^ 53"
    unfolding float_div_def
    by (subst round_double_eq [where e = "-1"]) (simp_all add: pow2_def round_half_even_def Let_def)
  show ?thesis
    unfolding float_mul_def a
    by (subst round_double_eq [where e = 6]) (simp_all add: pow2_def round_half_even_def Let_def)
qed

lemma float_rate_316: "float_mul (float_div 316 400) 100 = 79"
proof -
  have a: "float_div 316 400 = 7115687411245384 / 2 ^ 53"
    unfolding float_div_def
    by (subst round_double_eq [where e = "-1"]) (simp_all add: pow2_def round_half_even_def Let_def)
  show ?thesis
    unfolding float_mul_def a
    by (subst round_double_eq [where e = 6]) (simp_all add: pow2_def round_half_even_def Let_def)
qed

lemma float_rate_272: "float_mul (float_div 272 400) 100 = 68"
proof -
  have a: "float_div 272 400 = 6124895493223875 / 2 ^ 53"
    unfolding float_div_def
    by (subst round_double_eq [where e = "-1"]) (simp_all add: pow2_def round_half_even_def Let_def)
  show ?thesis
    unfolding float_mul_def a
    by (subst round_double_eq [where e = 6]) (simp_all add: pow2_def round_half_even_def Let_def)
qed

lemma float_rate_300: "float_mul (float_div 300 400) 100 = 75"
proof -
  have a: "float_div 300 400 = 3 / 4"
    unfolding float_div_def
    by (subst round_double_eq [where e = "-1"]) (simp_all add: pow2_def round_half_even_def Let_def)
  show ?thesis
    unfolding float_mul_def a
    by (subst round_double_eq [where e = 6]) (simp_all add: pow2_def round_half_even_def Let_def)
qed

lemma py_round_minus_6: "py_round 2 (float_sub 74 80) = - 6"
proof -
  have a: "float_sub 74 80 = - 6"
    unfolding float_sub_def
    by (subst round_double_eq [where e = 2]) (simp_all add: pow2_def round_half_even_def Let_def)
  have b: "real_of_int (round_half_even (- 6 * 10 ^ 2)) / 10 ^ 2 = - 6"
    by (simp add: round_half_even_def Let_def)
  show ?thesis
    unfolding py_round_def a b
    by (subst round_double_eq [where e = 2]) (simp_all add: pow2_def round_half_even_def Let_def)
qed

lemma py_round_minus_1: "py_round 2 (float_sub 79 80) = - 1"
proof -
  have a: "float_sub 79 80 = - 1"
    unfolding float_sub_def
    by (subst round_double_eq [where e = 0]) (simp_all add: pow2_def round_half_even_def Let_def)
  have b: "real_of_int (round_half_even (- 1 * 10 ^ 2)) / 10 ^ 2 = - 1"
    by (simp add: round_half_even_def Let_def)
  show ?thesis
    unfolding py_round_def a b
    by (subst round_double_eq [where e = 0]) (simp_all add: pow2_def round_half_even_def Let_def)
qed

lemma py_round_minus_12: "py_round 2 (float_sub 68 80) = - 12"
proof -
  have a: "float_sub 68 80 = - 12"
    unfolding float_sub_def
    by (subst round_double_eq [where e = 3]) (simp_all add: pow2_def round_half_even_def Let_def)
  have b: "real_of_int (round_half_even (- 12 * 10 ^ 2)) / 10 ^ 2 = - 12"
    by (simp add: round_half_even_def Let_def)
  show ?thesis
    unfolding py_round_def a b
    by (subst round_double_eq [where e = 3]) (simp_all add: pow2_def round_half_even_def Let_def)
qed

text \<open>
  300 of 400 against the baseline 80.004: the float difference is
  -5.004000000000005, below -5, and the delta of the record is -5.
\<close>

lemma float_delta_80_004: "float_sub 75 baseline_80_004 = - 5634003133840496 / 2 ^ 50"
  unfolding float_sub_def baseline_80_004_value
  by (subst round_double_eq [where e = 2]) (simp_all add: pow2_def round_half_even_def Let_def)

lemma py_round_80_004: "py_round 2 (float_sub 75 baseline_80_004) = - 5"
proof -
  have b: "real_of_int (round_half_even (- 5634003133840496 / 2 ^ 50 * 10 ^ 2)) / 10 ^ 2 = - 5"
    by (simp add: round_half_even_def Let_def)
  show ?thesis
    unfolding py_round_def float_delta_80_004 b
    by (subst round_double_eq [where e = 2]) (simp_all add: pow2_def round_half_even_def Let_def)
qed

lemma query_example:
  "performance_query 50 30 learning_db_example =
     [example_row 30 (Some 80) 296, example_row 9 (Some 80) 316, example_row 33 None 272,
      example_row 12 (Some baseline_80_004) 300]"
  by (simp add: performance_query_def graded_since_def learning_db_example_def graded_def
      example_row_def Let_def filter_replicate del: not_None_eq)

lemma baseline_of_example:
  "baseline_of (example_row rid (Some 80) won) = 80"
  "baseline_of (example_row rid None won) = 80"
  "baseline_of (example_row rid (Some baseline_80_004) won) = baseline_80_004"
  by (simp_all add: baseline_of_def example_row_def baseline_80_004_value)

lemma delta_example:
  "delta (rule_performance norm_cdf (example_row 30 (Some 80) 296)) = - 6"
  "delta (rule_performance norm_cdf (example_row 9 (Some 80) 316)) = - 1"
  "delta (rule_performance norm_cdf (example_row 33 None 272)) = - 12"
  "delta (rule_performance norm_cdf (example_row 12 (Some baseline_80_004) 300)) = - 5"
proof -
  have c: "q_won_count (example_row rid b won) = won"
    "q_total_predictions (example_row rid b won) = 400" for rid b won
    by (simp_all add: example_row_def)
  show "delta (rule_performance norm_cdf (example_row 30 (Some 80) 296)) = - 6"
    by (subst rule_performance_delta)
       (simp add: c baseline_of_example float_rate_296 py_round_minus_6)
  show "delta (rule_performance norm_cdf (example_row 9 (Some 80) 316)) = - 1"
    by (subst rule_performance_delta)
       (simp add: c baseline_of_example float_rate_316 py_round_minus_1)
  show "delta (rule_performance norm_cdf (example_row 33 None 272)) = - 12"
    by (subst rule_performance_delta)
       (simp add: c baseline_of_example float_rate_272 py_round_minus_12)
  show "delta (rule_performance norm_cdf (example_row 12 (Some baseline_80_004) 300)) = - 5"
    by (subst rule_performance_delta)
       (simp add: c baseline_of_example float_rate_300 py_round_80_004)
qed

lemma significant_example:
  "is_significant (rule_performance cdf_one (example_row rid (Some 80) won))"
  "is_significant (rule_performance cdf_one (example_row rid None won))"
  "is_significant (rule_performance cdf_one (example_row rid (Some baseline_80_004) won))"
  "\<not> is_significant (rule_performance cdf_half (example_row rid (Some 80) won))"
  "\<not> is_significant (rule_performance cdf_half (example_row rid None won))"
  "\<not> is_significant (rule_performance cdf_half (example_row rid (Some baseline_80_004) won))"
proof -
  have c: "q_total_predictions (example_row rid b won) = 400" for b
    by (simp add: example_row_def)
  have one: "proportion_test cdf_one s 400 (float_div 80 100) = 0"
    "proportion_test cdf_one s 400 (float_div baseline_80_004 100) = 0" for s
    unfolding cdf_one_fun
    by (subst proportion_test_constant;
        simp add: float_80_of_100 float_80_004_of_100 p_value_cdf_one)+
  have half: "proportion_test cdf_half s 400 (float_div 80 100) = 1"
    "proportion_test cdf_half s 400 (float_div baseline_80_004 100) = 1" for s
    unfolding cdf_half_fun
    by (subst proportion_test_constant;
        simp add: float_80_of_100 float_80_004_of_100 p_value_cdf_half)+
  show "is_significant (rule_performance cdf_one (example_row rid (Some 80) won))"
    "is_significant (rule_performance cdf_one (example_row rid None won))"
    "is_significant (rule_performance cdf_one (example_row rid (Some baseline_80_004) won))"
    "\<not> is_significant (rule_performance cdf_half (example_row rid (Some 80) won))"
    "\<not> is_significant (rule_performance cdf_half (example_row rid None won))"
    "\<not> is_significant (rule_performance cdf_half (example_row rid (Some baseline_80_004) won))"
    by (simp_all add: rule_performance_significant c baseline_of_example one half)
qed

lemma suggestion_at_minus_6:
  assumes "delta perf = - 6"
  shows "sug_severity (degradation_suggestion perf) = Low"
    and "lower_confidence_base_by (degradation_suggestion perf) = 4"
    and "sug_recommendation (degradation_suggestion perf) = MonitorClosely"
    and "\<not> action_required (degradation_suggestion perf)"
  using adjustment_minus_6
  by (simp_all add: degradation_suggestion_def Let_def calculate_severity_def
      learning_generate_recommendation_def assms)

lemma suggestion_at_minus_12:
  assumes "delta perf = - 12"
  shows "sug_severity (degradation_suggestion perf) = High"
    and "lower_confidence_base_by (degradation_suggestion perf) = 9"
    and "sug_recommendation (degradation_suggestion perf) = DisableOrReduceImmediately 12"
    and "action_required (degradation_suggestion perf)"
  using adjustment_minus_12
  by (simp_all add: degradation_suggestion_def Let_def calculate_severity_def
      learning_generate_recommendation_def assms py_int_def)

text \<open>
  On the example database, with the stand-in that makes every test significant: the
  rules 30, 9, 33 and 12 are analysed (rule 5 has too few predictions), their deltas
  are -6, -1, -12 and -5, and the rules 30 and 33 get an advisory. Rule 12 gets none,
  although its success rate is more than 5 points below its baseline. With the stand-in
  that makes no test significant there is no advisory.
\<close>

theorem degradation_advisories_witness:
  "\<not> execute_raw_fails learning_db_example
   \<and> map q_rule_id (performance_query 50 30 learning_db_example) = [30, 9, 33, 12]
   \<and> map q_total_predictions (performance_query 50 30 learning_db_example)
       = [400, 400, 400, 400]
   \<and> map (\<lambda>row. delta (rule_performance cdf_one row))
         (performance_query 50 30 learning_db_example) = [- 6, - 1, - 12, - 5]
   \<and> (\<exists>sugs. fst (detect_rule_degradation cdf_one 50 learning_db_example) = Inr sugs
         \<and> map sug_rule_id sugs = [30, 33]
         \<and> map sug_severity sugs = [Low, High]
         \<and> map lower_confidence_base_by sugs = [4, 9]
         \<and> map sug_recommendation sugs = [MonitorClosely, DisableOrReduceImmediately 12]
         \<and> map action_required sugs = [False, True])
   \<and> snd (detect_rule_degradation cdf_one 50 learning_db_example) = learning_db_example
   \<and> fst (detect_rule_degradation cdf_half 50 learning_db_example) = Inr []"
proof -
  let ?p30 = "rule_performance cdf_one (example_row 30 (Some 80) 296)"
  let ?p33 = "rule_performance cdf_one (example_row 33 None 272)"
  have nf: "\<not> execute_raw_fails learning_db_example"
    by (simp add: learning_db_example_def)
  have ids: "map q_rule_id (performance_query 50 30 learning_db_example) = [30, 9, 33, 12]"
    "map q_total_predictions (performance_query 50 30 learning_db_example)
       = [400, 400, 400, 400]"
    by (simp_all add: query_example example_row_def)
  have ds: "map (\<lambda>row. delta (rule_performance cdf_one row))
         (performance_query 50 30 learning_db_example) = [- 6, - 1, - 12, - 5]"
    by (simp add: query_example delta_example)
  have "\<not> execute_raw_fails learning_db_example \<longrightarrow>
        fst (detect_rule_degradation cdf_one 50 learning_db_example) =
          Inr (map degradation_suggestion
                 (filter (\<lambda>perf. is_significant perf \<and> delta perf < -5)
                    (map (rule_performance cdf_one)
                       (performance_query 50 30 learning_db_example))))"
    by (rule degradation_advisories [of cdf_one 50 learning_db_example,
          THEN conjunct2, THEN conjunct2, THEN conjunct1])
  with nf have one: "fst (detect_rule_degradation cdf_one 50 learning_db_example) =
      Inr [degradation_suggestion ?p30, degradation_suggestion ?p33]"
    by (simp add: query_example delta_example significant_example)
  have id30: "sug_rule_id (degradation_suggestion ?p30) = 30"
    and id33: "sug_rule_id (degradation_suggestion ?p33) = 33"
    by (simp_all add: degradation_suggestion_def Let_def rule_performance_def example_row_def)
  have fields: "map sug_rule_id [degradation_suggestion ?p30, degradation_suggestion ?p33] = [30, 33]
         \<and> map sug_severity [degradation_suggestion ?p30, degradation_suggestion ?p33]
             = [Low, High]
         \<and> map lower_confidence_base_by [degradation_suggestion ?p30, degradation_suggestion ?p33]
             = [4, 9]
         \<and> map sug_recommendation [degradation_suggestion ?p30, degradation_suggestion ?p33]
             = [MonitorClosely, DisableOrReduceImmediately 12]
         \<and> map action_required [degradation_suggestion ?p30, degradation_suggestion ?p33]
             = [False, True]"
    using suggestion_at_minus_6 [OF delta_example(1) [of cdf_one]]
      suggestion_at_minus_12 [OF delta_example(3) [of cdf_one]] id30 id33
    by simp
  have ex: "\<exists>sugs. fst (detect_rule_degradation cdf_one 50 learning_db_example) = Inr sugs
         \<and> map sug_rule_id sugs = [30, 33]
         \<and> map sug_severity sugs = [Low, High]
         \<and> map lower_confidence_base_by sugs = [4, 9]
         \<and> map sug_recommendation sugs = [MonitorClosely, DisableOrReduceImmediately 12]
         \<and> map action_required sugs = [False, True]"
    by (rule exI [where x = "[degradation_suggestion ?p30, degradation_suggestion ?p33]"],
        rule conjI [OF one fields])
  have same: "snd (detect_rule_degradation cdf_one 50 learning_db_example) = learning_db_example"
    by (rule degradation_advisories [of cdf_one 50 learning_db_example, THEN conjunct1])
  have "\<not> execute_raw_fails learning_db_example \<longrightarrow>
        fst (detect_rule_degradation cdf_half 50 learning_db_example) =
          Inr (map degradation_suggestion
                 (filter (\<lambda>perf. is_significant perf \<and> delta perf < -5)
                    (map (rule_performance cdf_half)
                       (performance_query 50 30 learning_db_example))))"
    by (rule degradation_advisories [of cdf_half 50 learning_db_example,
          THEN conjunct2, THEN conjunct2, THEN conjunct1])
  with nf have none: "fst (detect_rule_degradation cdf_half 50 learning_db_example) = Inr []"
    by (simp add: query_example significant_example)
  show ?thesis
    by (intro conjI nf ids ds ex same none)
qed

text \<open>
  The claim as stated fails: at a significant delta of -6 the advisory suggests 4 points,
  while \<open>\<bar>delta\<bar> * 0.8 = 4.8\<close> rounds to 5.
\<close>

theorem degradation_adjustment_counterexample:
  "is_significant perf_minus_6 \<and> delta perf_minus_6 < -5
   \<and> map lower_confidence_base_by (degradation_loop [perf_minus_6]) = [4]
   \<and> round (\<bar>delta perf_minus_6\<bar> * 0.8) = (5::int)"
proof -
  have d: "delta perf_minus_6 = - 6" and s: "is_significant perf_minus_6"
    by (simp_all add: perf_minus_6_def)
  have "map lower_confidence_base_by (degradation_loop [perf_minus_6]) = [4]"
    using suggestion_at_minus_6(2) [OF d] by (simp add: d s)
  moreover have "round (\<bar>delta perf_minus_6\<bar> * 0.8) = (5::int)"
    by (simp add: d round_def)
  ultimately show ?thesis using d s by simp
qed

section \<open>The Wilson score interval\<close>








section \<open>Grading with an unknown half-time score\<close>

text \<open>
  The grader of the score feed does what the claim says: a text with a half-time marker
  and no \<open>MS\<close> in it is indeterminate whenever a half-time score is missing.
\<close>

lemma check_prediction_result_half_time_unknown:
  assumes "\<not> contains (asc ''MS'') text" and "is_half_time_text text"
    and "ht_home = None \<or> ht_away = None"
  shows "check_prediction_result py_float text home away ht_home ht_away = None"
  using assms
  by (auto simp: check_prediction_result_def check_prediction_half_time_def
      split: option.splits)

lemma upper_iy: "py_strip (ascii_upper (asc ''IY 0.5 UST'')) = asc ''IY 0.5 UST''"
  by (simp add: py_strip_def ascii_upper_def asc_def is_space_def)

text \<open>
  Claim C5 at the tracker. The prediction \<open>IY 0.5 UST\<close> asks for the half-time scope;
  for a finished match whose half-time score is unknown the tracker grades it \<open>lost\<close>
  (it has replaced the missing half-time score by 0-0), while the grader of the score
  feed returns \<open>None\<close> for the same text and scores.
\<close>

theorem tracker_grades_unknown_half_time:
  "tracker_check_prediction_result ascii_upper (asc ''IY 0.5 UST'')
     (Some match_without_half_time) = Lost
   \<and> (\<forall>py_float. check_prediction_result py_float (asc ''IY 0.5 UST'') 1 0 None None = None)"
proof -
  have a: "tracker_check_prediction_result ascii_upper (asc ''IY 0.5 UST'')
     (Some match_without_half_time) = Lost"
    unfolding tracker_check_prediction_result_def Let_def upper_iy
    by (simp add: match_without_half_time_def tracker_half_time_def has_ust_def won_if_def
        asc_def)
  have b: "check_prediction_result py_float (asc ''IY 0.5 UST'') 1 0 None None = None"
    for py_float
    by (simp add: check_prediction_result_def check_prediction_half_time_def
        is_half_time_text_def asc_def str_iy_dotted_def)
  from a b show ?thesis by blast
qed

section \<open>Fixture matching\<close>

lemma norm_sao_paulo: "normalize_name ascii_lower (asc ''Sao Paulo'') = asc ''saopaulo''"
  by (simp add: normalize_name_def ascii_lower_def asc_def py_strip_def is_space_def
      replace_turkish_def turkish_chars_def common_words_def Let_def)

lemma norm_pau: "normalize_name ascii_lower (asc ''Pau'') = asc ''pau''"
  by (simp add: normalize_name_def ascii_lower_def asc_def py_strip_def is_space_def
      replace_turkish_def turkish_chars_def common_words_def Let_def)

lemma norm_santos: "normalize_name ascii_lower (asc ''Santos'') = asc ''santos''"
  by (simp add: normalize_name_def ascii_lower_def asc_def py_strip_def is_space_def
      replace_turkish_def turkish_chars_def common_words_def Let_def)

lemma norm_santos_fc: "normalize_name ascii_lower (asc ''Santos FC'') = asc ''santos''"
  by (simp add: normalize_name_def ascii_lower_def asc_def py_strip_def is_space_def
      replace_turkish_def turkish_chars_def common_words_def Let_def)

lemma words_sao_paulo: "get_key_words ascii_lower (asc ''Sao Paulo'') = [asc ''sao'', asc ''paulo'']"
  by (simp add: get_key_words_def ascii_lower_def asc_def py_strip_def is_space_def
      replace_turkish_def turkish_chars_def stop_words_def py_split_def Let_def)

lemma words_pau: "get_key_words ascii_lower (asc ''Pau'') = [asc ''pau'']"
  by (simp add: get_key_words_def ascii_lower_def asc_def py_strip_def is_space_def
      replace_turkish_def turkish_chars_def stop_words_def py_split_def Let_def)

lemma words_santos: "get_key_words ascii_lower (asc ''Santos'') = [asc ''santos'']"
  by (simp add: get_key_words_def ascii_lower_def asc_def py_strip_def is_space_def
      replace_turkish_def turkish_chars_def stop_words_def py_split_def Let_def)

lemma words_santos_fc: "get_key_words ascii_lower (asc ''Santos FC'') = [asc ''santos'']"
  by (simp add: get_key_words_def ascii_lower_def asc_def py_strip_def is_space_def
      replace_turkish_def turkish_chars_def stop_words_def py_split_def Let_def)

text \<open>
  The guard of the containment bonus reduces to the length of the internal name alone;
  the length of the feed's name, and so the shorter of the two, is never looked at.
\<close>

lemma side_score_guard:
  "side_score own_norm api_norm ws api_ws =
     (if (contains own_norm api_norm \<or> contains api_norm own_norm) \<and> 4 \<le> length own_norm
      then 2 else 0) + overlap ws api_ws"
  by (simp add: side_score_def)

text \<open>
  Claim C6 at the containment bonus. The internal fixture \<open>Sao Paulo\<close> against
  \<open>Santos\<close> is resolved to the feed fixture \<open>Pau\<close> against \<open>Santos FC\<close>. The home
  names share no word, and the shorter normalized home name, \<open>pau\<close>, has length 3; the
  home side still scores 2, all of it the containment bonus, which makes the candidate
  eligible.
\<close>

theorem short_containment_scores:
  "match_fixture_by_teams ascii_lower [fixture_pau_santos] (asc ''Sao Paulo'') (asc ''Santos'')
     = Some fixture_pau_santos
   \<and> normalize_name ascii_lower (asc ''Sao Paulo'') = asc ''saopaulo''
   \<and> normalize_name ascii_lower (teams_home_name fixture_pau_santos) = asc ''pau''
   \<and> length (asc ''pau'') = 3
   \<and> overlap (get_key_words ascii_lower (asc ''Sao Paulo''))
         (get_key_words ascii_lower (teams_home_name fixture_pau_santos)) = 0
   \<and> side_score (asc ''saopaulo'') (asc ''pau'')
         (get_key_words ascii_lower (asc ''Sao Paulo''))
         (get_key_words ascii_lower (teams_home_name fixture_pau_santos)) = 2"
proof -
  have h: "teams_home_name fixture_pau_santos = asc ''Pau''"
    and a: "teams_away_name fixture_pau_santos = asc ''Santos FC''"
    by (simp_all add: fixture_pau_santos_def)
  have ov: "overlap (get_key_words ascii_lower (asc ''Sao Paulo''))
         (get_key_words ascii_lower (asc ''Pau'')) = 0"
    unfolding words_sao_paulo words_pau by (simp add: overlap_def asc_def)
  have hs: "side_score (asc ''saopaulo'') (asc ''pau'')
         (get_key_words ascii_lower (asc ''Sao Paulo''))
         (get_key_words ascii_lower (asc ''Pau'')) = 2"
    unfolding side_score_guard ov by (simp add: asc_def)
  have as: "side_score (asc ''santos'') (asc ''santos'')
         (get_key_words ascii_lower (asc ''Santos''))
         (get_key_words ascii_lower (asc ''Santos FC'')) = 3"
    unfolding side_score_guard words_santos words_santos_fc
    by (simp add: overlap_def asc_def)
  have ne: "asc ''saopaulo'' \<noteq> asc ''pau''" by (simp add: asc_def)
  have m: "match_fixture_by_teams ascii_lower [fixture_pau_santos] (asc ''Sao Paulo'')
             (asc ''Santos'') = Some fixture_pau_santos"
    by (simp add: match_fixture_by_teams_def Let_def h a norm_sao_paulo norm_pau norm_santos
        norm_santos_fc hs as ne)
  have l: "length (asc ''pau'') = 3" by (simp add: asc_def)
  from m norm_sao_paulo norm_pau l ov hs show ?thesis by (simp only: h)
qed

end
